theory Spec2Isabelle
  imports Complex_Main
begin

section \<open>Python values, errors and the external libraries\<close>

text \<open>
  The analysis is Python: floats are idealised as \<open>real\<close>, particle identifiers are
  unbounded integers (\<open>int\<close>), and every exception or \<open>sys.exit\<close> of the source is a
  value \<open>Inl e\<close> of the result type \<open>error + 'a\<close>. \<open>SystemExit\<close> carries what
  \<open>sys.exit\<close> was given: a message (printed, exit status 1).
\<close>

datatype error =
    KeyError | IndexError | TypeError | AttributeError | ValueError | UnboundLocalError
  | ZeroDivisionError | SystemExit string

definition bindE :: "error + 'a \<Rightarrow> ('a \<Rightarrow> error + 'b) \<Rightarrow> error + 'b" where
  "bindE r f = (case r of Inl e \<Rightarrow> Inl e | Inr x \<Rightarrow> f x)"

text \<open>Python's \<open>str\<close> of an integer, for the f-strings that format one.\<close>

fun str_nat :: "nat \<Rightarrow> string" where
  "str_nat n = (if n < 10 then [''0123456789'' ! n]
                else str_nat (n div 10) @ [''0123456789'' ! (n mod 10)])"

definition str_int :: "int \<Rightarrow> string" where
  "str_int i = (if i < 0 then CHR ''-'' # str_nat (nat (- i)) else str_nat (nat i))"

text \<open>
  FastJet, fjcontrib and numpy are external libraries. A \<open>PseudoJet\<close> object is a
  value of a type \<open>'j\<close> the analysis never looks into; what the analysis calls on
  the libraries is the interface below, one field per call: \<open>jet.pt()\<close> is
  \<open>pt L jet\<close>, \<open>jet.delta_R(hadron)\<close> is \<open>delta_R L jet hadron\<close>, \<open>PseudoJet0\<close> is
  the default-constructed \<open>fj.PseudoJet()\<close> and \<open>iadd\<close> the four-vector \<open>+=\<close>.
  \<open>antikt_jets L jetR particles\<close> is
  \<open>fj.sorted_by_pt(fj.ClusterSequence(particles, jet_def).inclusive_jets())\<close>,
  \<open>jet_selector L ptmin rapmax jets\<close> the selector applied to a list,
  \<open>soft_drop L jet jetR beta zcut\<close> the groomer's result (\<open>None\<close> when there is none)
  and \<open>nsubjettiness L n jet\<close> the N-subjettiness calculator's result.
  Every theorem holds for any library \<open>L\<close>.
\<close>

record lund =
  lund_Delta :: real
  lund_z :: real
  lund_pair_m :: real

record 'j fastjet =
  pt :: "'j \<Rightarrow> real"
  eta :: "'j \<Rightarrow> real"
  rap :: "'j \<Rightarrow> real"
  m :: "'j \<Rightarrow> real"
  E :: "'j \<Rightarrow> real"
  pz :: "'j \<Rightarrow> real"
  user_index :: "'j \<Rightarrow> int"
  constituents :: "'j \<Rightarrow> 'j list"
  delta_R :: "'j \<Rightarrow> 'j \<Rightarrow> real"
  delta_phi_to :: "'j \<Rightarrow> 'j \<Rightarrow> real"
  PseudoJet0 :: "'j"
  iadd :: "'j \<Rightarrow> 'j \<Rightarrow> 'j"
  antikt_jets :: "real \<Rightarrow> 'j list \<Rightarrow> 'j list"
  jet_selector :: "real \<Rightarrow> real \<Rightarrow> 'j list \<Rightarrow> 'j list"
  soft_drop :: "'j \<Rightarrow> real \<Rightarrow> real \<Rightarrow> real \<Rightarrow> lund option"
  nsubjettiness :: "nat \<Rightarrow> 'j \<Rightarrow> real"
  np_power :: "real \<Rightarrow> real \<Rightarrow> real"

text \<open>
  A quotient of two Python floats raises \<open>ZeroDivisionError\<close> on a zero divisor. A
  quotient with a numpy float does not raise: numpy gives \<open>inf\<close> or \<open>nan\<close> there,
  which the reals do not have, so the value of \<open>np_divide\<close> at a zero divisor (HOL's
  \<open>x / 0 = 0\<close>) means nothing. \<open>np.sqrt\<close> and \<open>np.cos\<close> are the real functions
  (\<open>np.sqrt\<close> of a negative number is \<open>nan\<close>; HOL's \<open>sqrt\<close> there means nothing
  either). \<open>np.power\<close> is a field of the library.
\<close>

definition py_div :: "real \<Rightarrow> real \<Rightarrow> error + real" where
  "py_div x y = (if y = 0 then Inl ZeroDivisionError else Inr (x / y))"

definition np_divide :: "real \<Rightarrow> real \<Rightarrow> real" where
  "np_divide x y = x / y"

text \<open>
  A \<open>for\<close> loop whose body changes a state and may raise: the first error ends the loop.
\<close>

fun forE :: "'a list \<Rightarrow> ('a \<Rightarrow> 's \<Rightarrow> error + 's) \<Rightarrow> 's \<Rightarrow> error + 's" where
  "forE [] f s = Inr s"
| "forE (x # xs) f s = bindE (f x s) (forE xs f)"

section \<open>The configuration and the observable container\<close>

text \<open>
  The YAML configuration after \<open>yaml.safe_load\<close>: numbers, strings, lists and
  dictionaries (in the order of the file), and \<open>None\<close>. Numbers are reals.
\<close>

datatype yaml = YNone | YNum real | YStr string | YSeq "yaml list" | YMap "(string \<times> yaml) list"

text \<open>Python's \<open>==\<close>: lists are compared in order, dictionaries key by key.\<close>

fun py_eq :: "yaml \<Rightarrow> yaml \<Rightarrow> bool" where
  "py_eq YNone YNone = True"
| "py_eq (YNum a) (YNum b) = (a = b)"
| "py_eq (YStr a) (YStr b) = (a = b)"
| "py_eq (YSeq xs) (YSeq ys) = list_all2 py_eq xs ys"
| "py_eq (YMap xs) (YMap ys) =
     (set (map fst xs) = set (map fst ys) \<and>
      list_all (\<lambda>kv. case map_of ys (fst kv) of None \<Rightarrow> False | Some w \<Rightarrow> py_eq (snd kv) w) xs)"
| "py_eq _ _ = False"

text \<open>\<open>sub in s\<close> for two strings: \<open>sub\<close> occurs in \<open>s\<close> as a contiguous run.\<close>

fun str_in :: "string \<Rightarrow> string \<Rightarrow> bool" where
  "str_in sub [] = (sub = [])"
| "str_in sub (c # cs) = (take (length sub) (c # cs) = sub \<or> str_in sub cs)"

text \<open>\<open>d[k]\<close> with a string key, \<open>l[i]\<close> with an integer index (negative from the end).\<close>

definition getitem :: "yaml \<Rightarrow> string \<Rightarrow> error + yaml" where
  "getitem d k = (case d of
       YMap kvs \<Rightarrow> (case map_of kvs k of None \<Rightarrow> Inl KeyError | Some v \<Rightarrow> Inr v)
     | _ \<Rightarrow> Inl TypeError)"

definition py_index :: "nat \<Rightarrow> int \<Rightarrow> nat option" where
  "py_index len i =
     (if 0 \<le> i \<and> i < int len then Some (nat i)
      else if i < 0 \<and> - int len \<le> i then Some (nat (int len + i))
      else None)"

definition getidx :: "yaml \<Rightarrow> int \<Rightarrow> error + yaml" where
  "getidx l i = (case l of
       YSeq xs \<Rightarrow> (case py_index (length xs) i of None \<Rightarrow> Inl IndexError | Some j \<Rightarrow> Inr (xs ! j))
     | YStr s \<Rightarrow> (case py_index (length s) i of None \<Rightarrow> Inl IndexError | Some j \<Rightarrow> Inr (YStr [s ! j]))
     | YMap kvs \<Rightarrow> Inl KeyError
     | _ \<Rightarrow> Inl TypeError)"

text \<open>A number where the code computes or compares with one.\<close>

definition num :: "yaml \<Rightarrow> error + real" where
  "num v = (case v of YNum r \<Rightarrow> Inr r | _ \<Rightarrow> Inl TypeError)"

text \<open>\<open>x in c\<close>, \<open>for x in c\<close>, \<open>c.items()\<close> and the truth value of \<open>if c:\<close>.\<close>

definition contains :: "yaml \<Rightarrow> yaml \<Rightarrow> error + bool" where
  "contains x c = (case c of
       YSeq xs \<Rightarrow> Inr (list_ex (py_eq x) xs)
     | YMap kvs \<Rightarrow> Inr (case x of YStr k \<Rightarrow> k \<in> set (map fst kvs) | _ \<Rightarrow> False)
     | YStr s \<Rightarrow> (case x of YStr sub \<Rightarrow> Inr (str_in sub s) | _ \<Rightarrow> Inl TypeError)
     | _ \<Rightarrow> Inl TypeError)"

definition iter :: "yaml \<Rightarrow> error + yaml list" where
  "iter c = (case c of
       YSeq xs \<Rightarrow> Inr xs
     | YMap kvs \<Rightarrow> Inr (map (\<lambda>kv. YStr (fst kv)) kvs)
     | YStr s \<Rightarrow> Inr (map (\<lambda>ch. YStr [ch]) s)
     | _ \<Rightarrow> Inl TypeError)"

definition items :: "yaml \<Rightarrow> error + (string \<times> yaml) list" where
  "items c = (case c of YMap kvs \<Rightarrow> Inr kvs | _ \<Rightarrow> Inl AttributeError)"

definition truthy :: "yaml \<Rightarrow> bool" where
  "truthy c = (case c of
       YNone \<Rightarrow> False
     | YNum r \<Rightarrow> r \<noteq> 0
     | YStr s \<Rightarrow> s \<noteq> []
     | YSeq xs \<Rightarrow> xs \<noteq> []
     | YMap kvs \<Rightarrow> kvs \<noteq> [])"

text \<open>
  The analysis object \<open>self\<close>: what \<open>initialize_user_config\<close> reads from the
  configuration, and from the base class (not among the sources) the flag \<open>is_AA\<close>
  and the method \<open>centrality_accepted\<close>, taken as a parameter. \<open>py_format\<close> is
  Python's formatting of a configuration value inside an f-string.
\<close>

record analysis =
  sqrts :: int
  is_AA :: bool
  hadron_observables :: yaml
  hadron_correlation_observables :: yaml
  inclusive_chjet_observables :: yaml
  inclusive_jet_observables :: yaml
  semi_inclusive_chjet_observables :: yaml
  dijet_observables :: yaml
  jet_R :: "real list"
  min_jet_pt :: real
  max_jet_y :: real
  grooming_settings :: yaml
  centrality_accepted :: "yaml \<Rightarrow> bool"
  py_format :: "yaml \<Rightarrow> string"

text \<open>
  \<open>observable_dict_event\<close>: from the observable's name to the list of the values
  appended during the event, a value being a float or a pair \<open>[a, b]\<close>.
  \<open>self.observable_dict_event[k].append(v)\<close> raises \<open>KeyError\<close> when \<open>k\<close> is not a key.
\<close>

datatype oval = Scalar real | Pair real real

type_synonym odict = "string \<rightharpoonup> oval list"

definition append_obs :: "string \<Rightarrow> oval \<Rightarrow> odict \<Rightarrow> error + odict" where
  "append_obs k v d = (case d k of None \<Rightarrow> Inl KeyError | Some vs \<Rightarrow> Inr (d(k \<mapsto> vs @ [v])))"

section \<open>Charge from the particle identifier\<close>

text \<open>
  \<open>AnalyzeJetscapeEvents_STAT.charge\<close>: three membership tests in the source's order,
  and \<open>sys.exit\<close> with a message for any other identifier.
\<close>

definition charge :: "int \<Rightarrow> error + real" where
  "charge pid =
     (if pid \<in> set [11, 13, -211, -321, -2212, -3222, 3112, 3312, 3334] then Inr (-1)
      else if pid \<in> set [-11, -13, 211, 321, 2212, 3222, -3112, -3312, -3334] then Inr 1
      else if pid \<in> set [22, 111, 2112] then Inr 0
      else Inl (SystemExit (''failed to compute charge of pid '' @ str_int pid)))"

section \<open>The command-line entry point\<close>

text \<open>
  The \<open>__main__\<close> block of \<open>analyze_events_STAT.py\<close> and of \<open>analyze_events_TG3.py\<close>
  (the two are the same text but for the class they construct). \<open>os.path.exists\<close> is
  the parameter \<open>path_exists\<close>. The process either leaves through \<open>sys.exit(code)\<close>
  after printing, or goes on to construct the analysis and run it.
\<close>

record args =
  configFile :: string
  inputFile :: string
  outputDir :: string

datatype analysis_class = AnalyzeJetscapeEvents_STAT | AnalyzeJetscapeEvents_TG3

datatype outcome =
    Exited "string list" int
  | Analysis_run analysis_class string string string

definition does_not_exist :: "string \<Rightarrow> string" where
  "does_not_exist path = ''File '' @ [CHR 0x22] @ path @ [CHR 0x22] @ '' does not exist! Exiting!''"

definition main :: "analysis_class \<Rightarrow> (string \<Rightarrow> bool) \<Rightarrow> args \<Rightarrow> outcome" where
  "main cls path_exists a =
     (if \<not> path_exists (configFile a) then Exited [does_not_exist (configFile a)] 0
      else if \<not> path_exists (inputFile a) then Exited [does_not_exist (inputFile a)] 0
      else Analysis_run cls (configFile a) (inputFile a) (outputDir a))"

section \<open>Hole subtraction of the jet transverse momentum\<close>

text \<open>
  The head of \<open>analyze_inclusive_jet\<close> (STAT): in AA mode the loop over the holes
  accumulates \<open>negative_pt\<close> and \<open>holes_in_jet\<close>; otherwise both momenta are
  \<open>jet.pt()\<close> and \<open>holes_in_jet\<close> stays empty. The result is
  \<open>(jet_pt, jet_pt_uncorrected, holes_in_jet)\<close>.
\<close>

definition sum_holes_in_jet :: "'j fastjet \<Rightarrow> 'j \<Rightarrow> 'j list \<Rightarrow> real \<Rightarrow> real \<times> 'j list" where
  "sum_holes_in_jet L jet fj_hadrons_negative jetR =
     fold (\<lambda>hadron (negative_pt, holes_in_jet).
             if delta_R L jet hadron < jetR
             then (negative_pt + pt L hadron, holes_in_jet @ [hadron])
             else (negative_pt, holes_in_jet))
          fj_hadrons_negative (0, [])"

definition analyze_inclusive_jet_pt ::
  "'j fastjet \<Rightarrow> analysis \<Rightarrow> 'j \<Rightarrow> 'j list \<Rightarrow> real \<Rightarrow> real \<times> real \<times> 'j list" where
  "analyze_inclusive_jet_pt L A jet fj_hadrons_negative jetR =
     (if is_AA A then
        (let (negative_pt, holes_in_jet) = sum_holes_in_jet L jet fj_hadrons_negative jetR;
             jet_pt_uncorrected = pt L jet;
             jet_pt = jet_pt_uncorrected - negative_pt
         in (jet_pt, jet_pt_uncorrected, holes_in_jet))
      else (pt L jet, pt L jet, []))"

text \<open>
  The head of the loop body of \<open>fill_jet_histograms\<close> (TG3), which subtracts in every
  mode. The result is \<open>(jet_pt, jet_pt_uncorrected, negative_pt, holes_in_jet)\<close>.
\<close>

definition fill_jet_histograms_pt ::
  "'j fastjet \<Rightarrow> 'j \<Rightarrow> 'j list \<Rightarrow> real \<Rightarrow> real \<times> real \<times> real \<times> 'j list" where
  "fill_jet_histograms_pt L jet fj_hadrons_negative jetR =
     (let jet_pt_uncorrected = pt L jet;
          (negative_pt, holes_in_jet) = sum_holes_in_jet L jet fj_hadrons_negative jetR;
          jet_pt = jet_pt_uncorrected - negative_pt
      in (jet_pt, jet_pt_uncorrected, negative_pt, holes_in_jet))"

text \<open>
  The in-place variant used by \<open>leading_jet\<close> and \<open>fill_dijet_observables\<close> (STAT):
  \<open>jet_pt = jet.pt()\<close>, then \<open>jet_pt -= temp_hadron.pt()\<close> for each hole in the cone.
\<close>

definition subtract_holes :: "'j fastjet \<Rightarrow> 'j \<Rightarrow> 'j list \<Rightarrow> real \<Rightarrow> real" where
  "subtract_holes L jet fj_hadrons_negative jetR =
     fold (\<lambda>temp_hadron jet_pt.
             if delta_R L jet temp_hadron < jetR then jet_pt - pt L temp_hadron else jet_pt)
          fj_hadrons_negative (pt L jet)"

text \<open>
  \<open>leading_jet\<close> (STAT). The loop variable \<open>i\<close> of \<open>enumerate\<close> is set to 0 before the
  loop and is what the function returns as third component. A \<open>PseudoJet\<close> object is
  truthy, so \<open>not leading_jet\<close> holds exactly while \<open>leading_jet\<close> is \<open>None\<close>.
\<close>

definition leading_jet ::
  "'j fastjet \<Rightarrow> 'j list \<Rightarrow> 'j list \<Rightarrow> real \<Rightarrow> 'j option \<times> real \<times> nat" where
  "leading_jet L jets fj_hadrons_negative jetR =
     fold (\<lambda>(i, jet) (leading_jet, leading_jet_pt, i_prev).
             let jet_pt = subtract_holes L jet fj_hadrons_negative jetR;
                 (leading_jet, leading_jet_pt) =
                   (if leading_jet = None then (Some jet, jet_pt) else (leading_jet, leading_jet_pt));
                 (leading_jet, leading_jet_pt) =
                   (if jet_pt > leading_jet_pt then (Some jet, jet_pt) else (leading_jet, leading_jet_pt))
             in (leading_jet, leading_jet_pt, i))
          (enumerate 0 jets) (None, 0, 0)"

text \<open>The holes of a list that lie inside the cone of radius \<open>jetR\<close> around the jet axis.\<close>

definition holes_within :: "'j fastjet \<Rightarrow> 'j \<Rightarrow> real \<Rightarrow> 'j list \<Rightarrow> 'j list" where
  "holes_within L jet jetR hs = filter (\<lambda>h. delta_R L jet h < jetR) hs"



section \<open>Dividing a histogram by a graph (plot utilities)\<close>

text \<open>
  ROOT is an external library; its objects are mutable and the claim about
  \<open>divide_tgraph\<close> is about which object is written, so they live in a store, addressed
  by numbers. A histogram is its bins 1..n (centre, content, error); a graph with
  asymmetric errors is its name and its points. \<open>next_graph\<close> is the first address not
  yet given to a graph: \<open>Clone\<close> puts the copy there. The methods follow ROOT's
  documentation: \<open>GetPoint\<close> on an index out of range leaves the two out-parameters
  alone (they hold 0), the error getters return -1 there, and \<open>SetPoint\<close> and
  \<open>SetPointError\<close> past the end first extend the graph with zero points.
\<close>

record hbin =
  center :: real
  content :: real
  bin_error :: real

record th1 =
  h_bins :: "hbin list"

record gpoint =
  gx :: real
  gy :: real
  exl :: real
  exh :: real
  eyl :: real
  eyh :: real

record tgraph =
  g_name :: string
  g_points :: "gpoint list"

record store =
  hist :: "nat \<Rightarrow> th1"
  graph :: "nat \<Rightarrow> tgraph"
  next_graph :: nat

definition GetNbinsX :: "th1 \<Rightarrow> nat" where
  "GetNbinsX H = length (h_bins H)"

definition GetBinCenter :: "th1 \<Rightarrow> nat \<Rightarrow> real" where
  "GetBinCenter H bin = center (h_bins H ! (bin - 1))"

definition GetBinContent :: "th1 \<Rightarrow> nat \<Rightarrow> real" where
  "GetBinContent H bin = content (h_bins H ! (bin - 1))"

definition GetBinError :: "th1 \<Rightarrow> nat \<Rightarrow> real" where
  "GetBinError H bin = bin_error (h_bins H ! (bin - 1))"

definition GetPoint :: "tgraph \<Rightarrow> nat \<Rightarrow> real \<times> real" where
  "GetPoint G i = (if i < length (g_points G) then (gx (g_points G ! i), gy (g_points G ! i)) else (0, 0))"

definition GetErrorYlow :: "tgraph \<Rightarrow> nat \<Rightarrow> real" where
  "GetErrorYlow G i = (if i < length (g_points G) then eyl (g_points G ! i) else -1)"

definition GetErrorYhigh :: "tgraph \<Rightarrow> nat \<Rightarrow> real" where
  "GetErrorYhigh G i = (if i < length (g_points G) then eyh (g_points G ! i) else -1)"

definition grow :: "gpoint list \<Rightarrow> nat \<Rightarrow> gpoint list" where
  "grow ps i = ps @ replicate (Suc i - length ps) \<lparr> gx = 0, gy = 0, exl = 0, exh = 0, eyl = 0, eyh = 0 \<rparr>"

definition SetPoint :: "tgraph \<Rightarrow> nat \<Rightarrow> real \<Rightarrow> real \<Rightarrow> tgraph" where
  "SetPoint G i x y = (let ps = grow (g_points G) i in G\<lparr> g_points := ps[i := (ps ! i)\<lparr> gx := x, gy := y \<rparr>] \<rparr>)"

definition SetPointError :: "tgraph \<Rightarrow> nat \<Rightarrow> real \<Rightarrow> real \<Rightarrow> real \<Rightarrow> real \<Rightarrow> tgraph" where
  "SetPointError G i xl xh yl yh =
     (let ps = grow (g_points G) i in G\<lparr> g_points := ps[i := (ps ! i)\<lparr> exl := xl, exh := xh, eyl := yl, eyh := yh \<rparr>] \<rparr>)"

definition Clone :: "store \<Rightarrow> nat \<Rightarrow> string \<Rightarrow> nat \<times> store" where
  "Clone s g newname =
     (next_graph s, s\<lparr> graph := (graph s)(next_graph s := (graph s g)\<lparr> g_name := newname \<rparr>),
                       next_graph := Suc (next_graph s) \<rparr>)"

text \<open>\<open>np.isclose(a, b)\<close> with numpy's default tolerances \<open>rtol = 1e-05\<close>, \<open>atol = 1e-08\<close>.\<close>

definition np_isclose :: "real \<Rightarrow> real \<Rightarrow> bool" where
  "np_isclose a b = (\<bar>a - b\<bar> \<le> 1 / 10 ^ 8 + 1 / 10 ^ 5 * \<bar>b\<bar>)"

text \<open>
  The body of the loop of \<open>divide_tgraph\<close> for one \<open>bin\<close>. \<open>h\<close>, \<open>g\<close> and
  \<open>g_new\<close> are addresses; \<open>fmt\<close> is Python's formatting of a float in the f-string of
  the error message. \<open>h_y / gy\<close> divides two Python floats, which raises
  \<open>ZeroDivisionError\<close> when \<open>gy\<close> is 0.
\<close>

definition divide_tgraph_bin :: "(real \<Rightarrow> string) \<Rightarrow> nat \<Rightarrow> nat \<Rightarrow> nat \<Rightarrow> nat \<Rightarrow> store \<Rightarrow> error + store" where
  "divide_tgraph_bin fmt h g g_new bin s =
     (let h_x = GetBinCenter (hist s h) bin;
          h_y = GetBinContent (hist s h) bin;
          h_error = GetBinError (hist s h) bin;
          (g_x, g_y) = GetPoint (graph s g) (bin - 1);
          yErrLow = GetErrorYlow (graph s g) (bin - 1);
          yErrUp = GetErrorYhigh (graph s g) (bin - 1)
      in if \<not> np_isclose h_x g_x
         then Inl (SystemExit (''ERROR: hist x: '' @ fmt h_x @ '', graph x: '' @ fmt g_x))
         else if g_y = 0 then Inl ZeroDivisionError
         else
           (let new_content = h_y / g_y;
                (new_error_low, new_error_up) =
                  (if g_y > 0 \<and> h_y > 0
                   then (sqrt ((yErrLow / g_y) ^ 2 + (h_error / h_y) ^ 2) * new_content,
                         sqrt ((yErrUp / g_y) ^ 2 + (h_error / h_y) ^ 2) * new_content)
                   else ((yErrLow / g_y) * new_content, (yErrUp / g_y) * new_content))
            in Inr (s\<lparr> graph := (graph s)(g_new :=
                      SetPointError (SetPoint (graph s g_new) (bin - 1) h_x new_content)
                                    (bin - 1) 0 0 new_error_low new_error_up) \<rparr>)))"

definition divide_tgraph :: "(real \<Rightarrow> string) \<Rightarrow> nat \<Rightarrow> nat \<Rightarrow> store \<Rightarrow> error + nat \<times> store" where
  "divide_tgraph fmt h g s =
     (let (g_new, s1) = Clone s g (g_name (graph s g) @ ''_divided'');
          nBins = GetNbinsX (hist s1 h)
      in bindE (forE [1..<nBins + 1] (divide_tgraph_bin fmt h g g_new) s1) (\<lambda>s2. Inr (g_new, s2)))"

text \<open>
  The state of the loop after the bins 1..k: nothing but the graph at \<open>g_new\<close> has
  changed, and of that graph the first k points hold the quotients.
\<close>

definition bins_done :: "store \<Rightarrow> nat \<Rightarrow> nat \<Rightarrow> nat \<Rightarrow> nat \<Rightarrow> store \<Rightarrow> bool" where
  "bins_done s1 h g g_new k s' \<longleftrightarrow>
     hist s' = hist s1 \<and> next_graph s' = next_graph s1 \<and>
     (\<forall>a. a \<noteq> g_new \<longrightarrow> graph s' a = graph s1 a) \<and>
     g_name (graph s' g_new) = g_name (graph s1 g_new) \<and>
     length (g_points (graph s' g_new)) = length (g_points (graph s1 g)) \<and>
     (\<forall>i<k. gx (g_points (graph s' g_new) ! i) = center (h_bins (hist s1 h) ! i) \<and>
            gy (g_points (graph s' g_new) ! i)
              = content (h_bins (hist s1 h) ! i) / gy (g_points (graph s1 g) ! i)) \<and>
     (\<forall>i. k \<le> i \<and> i < length (g_points (graph s1 g)) \<longrightarrow>
            g_points (graph s' g_new) ! i = g_points (graph s1 g_new) ! i)"

text \<open>Two small stores for the concrete evaluations: in the second the x of the second
  point is far from the bin centre.\<close>

definition store_ok :: store where
  "store_ok = \<lparr> hist = (\<lambda>a. \<lparr> h_bins = [\<lparr> center = 1, content = 4, bin_error = 1 \<rparr>,
                                              \<lparr> center = 2, content = 9, bin_error = 1 \<rparr>] \<rparr>),
                graph = (\<lambda>a. \<lparr> g_name = ''g'',
                                g_points = [\<lparr> gx = 1, gy = 2, exl = 0, exh = 0, eyl = 1, eyh = 1 \<rparr>,
                                            \<lparr> gx = 2, gy = 3, exl = 0, exh = 0, eyl = 1, eyh = 1 \<rparr>] \<rparr>),
                next_graph = 1 \<rparr>"

definition store_bad :: store where
  "store_bad = \<lparr> hist = (\<lambda>a. \<lparr> h_bins = [\<lparr> center = 1, content = 4, bin_error = 1 \<rparr>,
                                              \<lparr> center = 2, content = 9, bin_error = 1 \<rparr>] \<rparr>),
                graph = (\<lambda>a. \<lparr> g_name = ''g'',
                                g_points = [\<lparr> gx = 1, gy = 2, exl = 0, exh = 0, eyl = 1, eyh = 1 \<rparr>,
                                            \<lparr> gx = 5, gy = 3, exl = 0, exh = 0, eyl = 1, eyh = 1 \<rparr>] \<rparr>),
                next_graph = 1 \<rparr>"

section \<open>Initialising the output lists\<close>

text \<open>\<open>f'{v}'\<close>: a string is itself, any other value is formatted by \<open>py_format\<close>.\<close>

definition fstr :: "analysis \<Rightarrow> yaml \<Rightarrow> string" where
  "fstr A v = (case v of YStr s \<Rightarrow> s | _ \<Rightarrow> py_format A v)"

text \<open>
  \<open>initialize_output_lists\<close>, loop by loop. Each assignment
  \<open>self.observable_dict_event[k] = []\<close> is the map update \<open>d(k \<mapsto> [])\<close>.
\<close>

definition init_hadron :: "analysis \<Rightarrow> odict \<Rightarrow> error + odict" where
  "init_hadron A d0 =
     bindE (iter (hadron_observables A)) (\<lambda>observables.
       forE observables (\<lambda>observable d.
           Inr (let d = d(''hadron_'' @ fstr A observable \<mapsto> [])
                in if is_AA A then d(''hadron_'' @ fstr A observable @ ''_holes'' \<mapsto> []) else d))
         d0)"

definition init_hadron_correlations :: "analysis \<Rightarrow> odict \<Rightarrow> error + odict" where
  "init_hadron_correlations A d0 =
     bindE (iter (hadron_correlation_observables A)) (\<lambda>observables.
       forE observables (\<lambda>observable d.
           Inr (d(''hadron_correlations_'' @ fstr A observable \<mapsto> [])))
         d0)"

text \<open>The body of \<open>for jetR in dict['jet_R']\<close> in the loop over the inclusive full jet blocks.\<close>

definition init_inclusive_jet_R :: "analysis \<Rightarrow> string \<Rightarrow> yaml \<Rightarrow> yaml \<Rightarrow> odict \<Rightarrow> error + odict" where
  "init_inclusive_jet_R A key dict jetR d0 =
     bindE (contains (YStr ''SoftDrop'') dict) (\<lambda>has_SoftDrop.
     if has_SoftDrop then
       bindE (getitem dict ''SoftDrop'') (\<lambda>settings.
       bindE (iter settings) (\<lambda>settings.
         forE settings (\<lambda>grooming_setting d.
             bindE (getitem grooming_setting ''zcut'') (\<lambda>zcut.
             bindE (getitem grooming_setting ''beta'') (\<lambda>beta.
               Inr (let k = ''inclusive_jet_'' @ key @ ''_R'' @ fstr A jetR
                              @ ''_zcut'' @ fstr A zcut @ ''_beta'' @ fstr A beta;
                        d = d(k \<mapsto> [])
                    in if is_AA A then d(k @ ''_unsubtracted'' \<mapsto> []) else d))))
           d0))
     else if str_in ''charge_cms'' key then
       bindE (getitem dict ''kappa'') (\<lambda>kappas.
       bindE (iter kappas) (\<lambda>kappas.
         forE kappas (\<lambda>kappa d.
             Inr (let k = ''inclusive_jet_'' @ key @ ''_R'' @ fstr A jetR @ ''_k'' @ fstr A kappa;
                      d = d(k \<mapsto> [])
                  in if is_AA A then d(k @ ''_unsubtracted'' \<mapsto> []) else d))
           d0))
     else
       Inr (let k = ''inclusive_jet_'' @ key @ ''_R'' @ fstr A jetR;
                d = d0(k \<mapsto> [])
            in if str_in ''Dz'' key \<or> str_in ''Dpt'' key then
                 (let d = (if is_AA A then d(k @ ''_holes'' \<mapsto> []) else d)
                  in if str_in ''Dz'' key then d(k @ ''_Njets'' \<mapsto> []) else d)
               else
                 (if is_AA A then d(k @ ''_unsubtracted'' \<mapsto> []) else d)))"

definition init_inclusive_jet :: "analysis \<Rightarrow> odict \<Rightarrow> error + odict" where
  "init_inclusive_jet A d0 =
     (if truthy (inclusive_jet_observables A) then
        bindE (items (inclusive_jet_observables A)) (\<lambda>blocks.
          forE blocks (\<lambda>(key, dict) d.
              bindE (getitem dict ''jet_R'') (\<lambda>radii.
              bindE (iter radii) (\<lambda>radii.
                forE radii (init_inclusive_jet_R A key dict) d)))
            d0)
      else Inr d0)"

text \<open>The same for the inclusive charged jet blocks; one combination is skipped by \<open>continue\<close>.\<close>

definition init_inclusive_chjet_R :: "analysis \<Rightarrow> string \<Rightarrow> yaml \<Rightarrow> yaml \<Rightarrow> odict \<Rightarrow> error + odict" where
  "init_inclusive_chjet_R A key dict jetR d0 =
     bindE (contains (YStr ''SoftDrop'') dict) (\<lambda>has_SoftDrop.
     if has_SoftDrop then
       bindE (getitem dict ''SoftDrop'') (\<lambda>settings.
       bindE (iter settings) (\<lambda>settings.
         forE settings (\<lambda>grooming_setting d.
             bindE (getitem grooming_setting ''zcut'') (\<lambda>zcut.
             bindE (getitem grooming_setting ''beta'') (\<lambda>beta.
               if key = ''tg_alice'' \<and> py_eq jetR (YNum 0.2) \<and> py_eq zcut (YNum 0.4) then Inr d
               else
                 Inr (let k = ''inclusive_chjet_'' @ key @ ''_R'' @ fstr A jetR
                                @ ''_zcut'' @ fstr A zcut @ ''_beta'' @ fstr A beta;
                          d = d(k \<mapsto> [])
                      in if is_AA A then d(k @ ''_unsubtracted'' \<mapsto> []) else d))))
           d0))
     else
       Inr (let k = ''inclusive_chjet_'' @ key @ ''_R'' @ fstr A jetR;
                d = d0(k \<mapsto> [])
            in if is_AA A then d(k @ ''_unsubtracted'' \<mapsto> []) else d))"

definition init_inclusive_chjet :: "analysis \<Rightarrow> odict \<Rightarrow> error + odict" where
  "init_inclusive_chjet A d0 =
     bindE (items (inclusive_chjet_observables A)) (\<lambda>blocks.
       forE blocks (\<lambda>(key, dict) d.
           bindE (getitem dict ''jet_R'') (\<lambda>radii.
           bindE (iter radii) (\<lambda>radii.
             forE radii (init_inclusive_chjet_R A key dict) d)))
         d0)"

definition init_semi_inclusive_chjet_R :: "analysis \<Rightarrow> string \<Rightarrow> yaml \<Rightarrow> odict \<Rightarrow> error + odict" where
  "init_semi_inclusive_chjet_R A key jetR d0 =
     (let k = ''semi_inclusive_chjet_'' @ key @ ''_R'' @ fstr A jetR in
      if sqrts A = 2760 then
        (let d = d0(k @ ''_lowTrigger'' \<mapsto> []);
             d = d(k @ ''_highTrigger'' \<mapsto> []);
             d = d(''semi_inclusive_chjet_alice_trigger_pt'' \<mapsto> [])
         in Inr (if is_AA A then
                   (let d = d(k @ ''_lowTrigger_unsubtracted'' \<mapsto> []);
                        d = d(k @ ''_highTrigger_unsubtracted'' \<mapsto> [])
                    in d(''semi_inclusive_chjet_alice_trigger_pt_unsubtracted'' \<mapsto> []))
                 else d))
      else if sqrts A = 200 then
        (let d = d0(k \<mapsto> []);
             d = d(''semi_inclusive_chjet_star_trigger_pt'' \<mapsto> [])
         in Inr (if is_AA A then
                   (let d = d(k @ ''_unsubtracted'' \<mapsto> [])
                    in d(''semi_inclusive_chjet_star_trigger_pt_unsubtracted'' \<mapsto> []))
                 else d))
      else Inr d0)"

definition init_semi_inclusive_chjet :: "analysis \<Rightarrow> odict \<Rightarrow> error + odict" where
  "init_semi_inclusive_chjet A d0 =
     (if truthy (semi_inclusive_chjet_observables A) then
        bindE (items (semi_inclusive_chjet_observables A)) (\<lambda>blocks.
          forE blocks (\<lambda>(key, dict) d.
              bindE (getitem dict ''jet_R'') (\<lambda>radii.
              bindE (iter radii) (\<lambda>radii.
                forE radii (init_semi_inclusive_chjet_R A key) d)))
            d0)
      else Inr d0)"

definition init_dijet :: "analysis \<Rightarrow> odict \<Rightarrow> error + odict" where
  "init_dijet A d0 =
     (if truthy (dijet_observables A) then
        bindE (items (dijet_observables A)) (\<lambda>blocks.
          forE blocks (\<lambda>(key, dict) d.
              bindE (getitem dict ''jet_R'') (\<lambda>radii.
              bindE (iter radii) (\<lambda>radii.
                forE radii (\<lambda>jetR d.
                    Inr (let k = ''dijet_'' @ key @ ''_R'' @ fstr A jetR;
                             d = d(k \<mapsto> [])
                         in if is_AA A then d(k @ ''_unsubtracted'' \<mapsto> []) else d))
                  d)))
            d0)
      else Inr d0)"

definition initialize_output_lists :: "analysis \<Rightarrow> odict \<Rightarrow> error + odict" where
  "initialize_output_lists A d0 =
     bindE (init_hadron A d0) (\<lambda>d.
     bindE (init_hadron_correlations A d) (\<lambda>d.
     bindE (init_inclusive_jet A d) (\<lambda>d.
     bindE (init_inclusive_chjet A d) (\<lambda>d.
     bindE (init_semi_inclusive_chjet A d) (\<lambda>d.
     init_dijet A d)))))"




section \<open>Filling the observables (STAT)\<close>

text \<open>
  Reading the configuration: \<open>cfg X ob f\<close> is \<open>X[ob][f]\<close> and \<open>cfg_at X ob f i\<close>
  is \<open>X[ob][f][i]\<close>. A comparison of a float with a configuration value needs a number
  there; \<open>between x lo hi\<close> is \<open>x > lo and x < hi\<close> (also written \<open>lo < x < hi\<close>),
  which does not look at \<open>hi\<close> when the first comparison fails.
\<close>

definition cfg :: "yaml \<Rightarrow> string \<Rightarrow> string \<Rightarrow> error + yaml" where
  "cfg X ob f = bindE (getitem X ob) (\<lambda>block. getitem block f)"

definition cfg_at :: "yaml \<Rightarrow> string \<Rightarrow> string \<Rightarrow> int \<Rightarrow> error + yaml" where
  "cfg_at X ob f i = bindE (cfg X ob f) (\<lambda>l. getidx l i)"

definition less_than :: "real \<Rightarrow> yaml \<Rightarrow> error + bool" where
  "less_than x v = bindE (num v) (\<lambda>r. Inr (x < r))"

definition greater_than :: "real \<Rightarrow> yaml \<Rightarrow> error + bool" where
  "greater_than x v = bindE (num v) (\<lambda>r. Inr (x > r))"

definition between :: "real \<Rightarrow> yaml \<Rightarrow> yaml \<Rightarrow> error + bool" where
  "between x lo hi =
     bindE (greater_than x lo) (\<lambda>above. if above then less_than x hi else Inr False)"

text \<open>\<open>r[0] < x < r[1]\<close> for a configured range \<open>r\<close>.\<close>

definition in_range :: "real \<Rightarrow> yaml \<Rightarrow> error + bool" where
  "in_range x r =
     bindE (getidx r 0) (\<lambda>lo.
     bindE (greater_than x lo) (\<lambda>above.
     if above then bindE (getidx r 1) (less_than x) else Inr False))"

text \<open>The identifiers (e-, mu-, pi+, K+, p+, Sigma+, Sigma-, Xi-, Omega-) of the charged
  particles, tested as \<open>abs(pid) in [...]\<close>.\<close>

definition charged_pids :: "int list" where
  "charged_pids = [11, 13, 211, 321, 2212, 3222, 3112, 3312, 3334]"

text \<open>The leading-track loop: \<open>accept_jet\<close> becomes true when some constituent passes.\<close>

definition accept_jet :: "'j fastjet \<Rightarrow> 'j \<Rightarrow> real \<Rightarrow> bool" where
  "accept_jet L jet min_leading_track_pt =
     fold (\<lambda>constituent accept.
             if pt L constituent > min_leading_track_pt
                \<and> \<bar>user_index L constituent\<bar> \<in> set charged_pids
             then True else accept)
          (constituents L jet) False"

text \<open>Appending one value to the main list and, in AA mode, one to the unsubtracted list.\<close>

definition append_both :: "analysis \<Rightarrow> string \<Rightarrow> oval \<Rightarrow> oval \<Rightarrow> odict \<Rightarrow> error + odict" where
  "append_both A k v v_unsubtracted d =
     bindE (append_obs k v d) (\<lambda>d.
     if is_AA A then append_obs (k @ ''_unsubtracted'') v_unsubtracted d else Inr d)"

text \<open>
  An \<open>if\<close> without \<open>else\<close> around statements that fill the container: the condition
  may raise, and when it is false the container is left as it is.
\<close>

definition py_if :: "error + bool \<Rightarrow> (odict \<Rightarrow> error + odict) \<Rightarrow> odict \<Rightarrow> error + odict" where
  "py_if c body d = bindE c (\<lambda>b. if b then body d else Inr d)"

text \<open>The cuts that recur: \<open>self.centrality_accepted(X[ob]['centrality'])\<close>,
  \<open>jetR in X[ob]['jet_R']\<close>, \<open>abs(x) < X[ob][f]\<close> and \<open>abs(x) < (X[ob][f] - jetR)\<close>.\<close>

definition centrality_ok :: "analysis \<Rightarrow> yaml \<Rightarrow> string \<Rightarrow> error + bool" where
  "centrality_ok A X ob = bindE (cfg X ob ''centrality'') (\<lambda>c. Inr (centrality_accepted A c))"

definition jetR_in :: "yaml \<Rightarrow> string \<Rightarrow> real \<Rightarrow> error + bool" where
  "jetR_in X ob jetR = bindE (cfg X ob ''jet_R'') (contains (YNum jetR))"

definition abs_below :: "real \<Rightarrow> yaml \<Rightarrow> string \<Rightarrow> string \<Rightarrow> error + bool" where
  "abs_below x X ob f = bindE (cfg X ob f) (less_than \<bar>x\<bar>)"

definition abs_below_minus :: "real \<Rightarrow> yaml \<Rightarrow> string \<Rightarrow> string \<Rightarrow> real \<Rightarrow> error + bool" where
  "abs_below_minus x X ob f jetR =
     bindE (cfg X ob f) (\<lambda>v. bindE (num v) (\<lambda>r. Inr (\<bar>x\<bar> < r - jetR)))"

text \<open>
  The blocks that subtract compute a value for the main list and the values for the
  unsubtracted list, which they append first.
\<close>

definition append_values :: "string \<Rightarrow> string \<Rightarrow> oval \<times> oval list \<Rightarrow> odict \<Rightarrow> error + odict" where
  "append_values k k_unsubtracted vs d =
     bindE (forE (snd vs) (append_obs k_unsubtracted) d) (append_obs k (fst vs))"

subsection \<open>Hadron observables\<close>

text \<open>
  \<open>fill_hadron_observables\<close>. Its seven blocks are one text with three things varying:
  the observable \<open>ob\<close>, whether the upper bound is the second entry of \<open>pt\<close> or the
  constant 100, and the identifiers accepted. \<open>fill_hadron_block\<close> is that text.
\<close>

definition fill_hadron_block ::
  "'j fastjet \<Rightarrow> analysis \<Rightarrow> string \<Rightarrow> bool \<Rightarrow> int list \<Rightarrow> string \<Rightarrow> 'j \<Rightarrow> odict \<Rightarrow> error + odict" where
  "fill_hadron_block L A ob open_upper pids suffix particle =
     py_if (centrality_ok A (hadron_observables A) ob) (\<lambda>d.
       bindE (cfg_at (hadron_observables A) ob ''pt'' 0) (\<lambda>pt_min.
       bindE (if open_upper then Inr (YNum 100) else cfg_at (hadron_observables A) ob ''pt'' 1) (\<lambda>pt_max.
         py_if (between (pt L particle) pt_min pt_max)
           (py_if (abs_below (eta L particle) (hadron_observables A) ob ''eta_cut'')
             (py_if (Inr (\<bar>user_index L particle\<bar> \<in> set pids))
               (append_obs (''hadron_'' @ ob @ suffix) (Scalar (pt L particle))))) d)))"

text \<open>The body of the loop over the hadrons, and the loop.\<close>

definition fill_hadron_particle ::
  "'j fastjet \<Rightarrow> analysis \<Rightarrow> string \<Rightarrow> 'j \<Rightarrow> odict \<Rightarrow> error + odict" where
  "fill_hadron_particle L A suffix particle d =
     (if sqrts A \<in> set [2760, 5020] then
        bindE (fill_hadron_block L A ''pt_ch_alice'' False charged_pids suffix particle d) (\<lambda>d.
        bindE (fill_hadron_block L A ''pt_pi_alice'' False [211] suffix particle d) (\<lambda>d.
        bindE (if sqrts A \<in> set [2760]
               then fill_hadron_block L A ''pt_pi0_alice'' False [111] suffix particle d
               else Inr d) (\<lambda>d.
        bindE (if sqrts A \<in> set [2760]
               then fill_hadron_block L A ''pt_ch_atlas'' False charged_pids suffix particle d
               else Inr d) (\<lambda>d.
        fill_hadron_block L A ''pt_ch_cms'' False charged_pids suffix particle d))))
      else if sqrts A \<in> set [200] then
        bindE (fill_hadron_block L A ''pt_pi0_phenix'' True [111] suffix particle d) (\<lambda>d.
        fill_hadron_block L A ''pt_ch_star'' True [211, 321, 2212] suffix particle d)
      else Inr d)"

definition fill_hadron_observables ::
  "'j fastjet \<Rightarrow> analysis \<Rightarrow> 'j list \<Rightarrow> string \<Rightarrow> odict \<Rightarrow> error + odict" where
  "fill_hadron_observables L A fj_particles status d =
     (let suffix = (if status = ''-'' then ''_holes'' else '''')
      in forE fj_particles (fill_hadron_particle L A suffix) d)"

definition fill_hadron_correlation_observables :: "'j fastjet \<Rightarrow> analysis \<Rightarrow> 'j list \<Rightarrow> odict \<Rightarrow> error + odict" where
  "fill_hadron_correlation_observables L A fj_particles d = Inr d"

subsection \<open>Inclusive full jets, ungroomed\<close>

text \<open>
  The six blocks of \<open>fill_full_jet_ungroomed_observables\<close>, in the source's order:
  ALICE, ATLAS and CMS spectra, the ATLAS and CMS fragmentation functions, the CMS
  jet charge.
\<close>

definition full_jet_pt_alice ::
  "'j fastjet \<Rightarrow> analysis \<Rightarrow> 'j \<Rightarrow> real \<Rightarrow> real \<Rightarrow> real \<Rightarrow> odict \<Rightarrow> error + odict" where
  "full_jet_pt_alice L A jet jet_pt jet_pt_uncorrected jetR =
     py_if (centrality_ok A (inclusive_jet_observables A) ''pt_alice'') (\<lambda>d.
       bindE (cfg_at (inclusive_jet_observables A) ''pt_alice'' ''pt'' 0) (\<lambda>pt_min.
       bindE (cfg_at (inclusive_jet_observables A) ''pt_alice'' ''pt'' 1) (\<lambda>pt_max.
         py_if (jetR_in (inclusive_jet_observables A) ''pt_alice'' jetR)
           (py_if (abs_below_minus (eta L jet) (inclusive_jet_observables A) ''pt_alice'' ''eta_cut_R'' jetR)
             (py_if (between jet_pt pt_min pt_max)
               (py_if (Inr (accept_jet L jet (if jetR = 0.2 then 5 else 7)))
                 (append_both A (''inclusive_jet_pt_alice_R'' @ fstr A (YNum jetR))
                    (Scalar jet_pt) (Scalar jet_pt_uncorrected))))) d)))"

definition full_jet_pt_atlas ::
  "'j fastjet \<Rightarrow> analysis \<Rightarrow> 'j \<Rightarrow> real \<Rightarrow> real \<Rightarrow> real \<Rightarrow> odict \<Rightarrow> error + odict" where
  "full_jet_pt_atlas L A jet jet_pt jet_pt_uncorrected jetR =
     py_if (centrality_ok A (inclusive_jet_observables A) ''pt_atlas'') (\<lambda>d.
       bindE (cfg_at (inclusive_jet_observables A) ''pt_atlas'' ''pt'' 0) (\<lambda>pt_min.
       bindE (cfg_at (inclusive_jet_observables A) ''pt_atlas'' ''pt'' 1) (\<lambda>pt_max.
         py_if (jetR_in (inclusive_jet_observables A) ''pt_atlas'' jetR)
           (py_if (abs_below (rap L jet) (inclusive_jet_observables A) ''pt_atlas'' ''y_cut'')
             (py_if (between jet_pt pt_min pt_max)
               (append_both A (''inclusive_jet_pt_atlas_R'' @ fstr A (YNum jetR))
                  (Scalar jet_pt) (Scalar jet_pt_uncorrected)))) d)))"

definition full_jet_pt_cms ::
  "'j fastjet \<Rightarrow> analysis \<Rightarrow> 'j \<Rightarrow> real \<Rightarrow> real \<Rightarrow> real \<Rightarrow> odict \<Rightarrow> error + odict" where
  "full_jet_pt_cms L A jet jet_pt jet_pt_uncorrected jetR =
     py_if (centrality_ok A (inclusive_jet_observables A) ''pt_cms'') (\<lambda>d.
       bindE (cfg_at (inclusive_jet_observables A) ''pt_cms'' ''pt'' 0) (\<lambda>pt_min.
       bindE (cfg_at (inclusive_jet_observables A) ''pt_cms'' ''pt'' 1) (\<lambda>pt_max.
         py_if (jetR_in (inclusive_jet_observables A) ''pt_cms'' jetR)
           (py_if (abs_below (eta L jet) (inclusive_jet_observables A) ''pt_cms'' ''eta_cut'')
             (py_if (between jet_pt pt_min pt_max)
               (append_both A (''inclusive_jet_pt_cms_R'' @ fstr A (YNum jetR))
                  (Scalar jet_pt) (Scalar jet_pt_uncorrected)))) d)))"

text \<open>
  The loop body shared by the two fragmentation blocks (\<open>ex\<close> is \<open>atlas\<close> or \<open>cms\<close>,
  \<open>suffix\<close> is empty for the shower hadrons and \<open>_holes\<close> for the holes).
\<close>

definition fill_Dz_hadron ::
  "'j fastjet \<Rightarrow> analysis \<Rightarrow> string \<Rightarrow> string \<Rightarrow> 'j \<Rightarrow> real \<Rightarrow> real \<Rightarrow> 'j \<Rightarrow> odict \<Rightarrow> error + odict" where
  "fill_Dz_hadron L A ex suffix jet jet_pt jetR hadron =
     py_if (Inr (\<bar>user_index L hadron\<bar> \<in> set charged_pids))
       (py_if (Inr (delta_R L jet hadron < jetR)) (\<lambda>d.
          (let z = np_divide (pt L hadron * cos (delta_R L jet hadron)) jet_pt
           in bindE (append_obs (''inclusive_jet_Dz_'' @ ex @ ''_R'' @ fstr A (YNum jetR) @ suffix)
                       (Pair jet_pt z) d)
                (append_obs (''inclusive_jet_Dpt_'' @ ex @ ''_R'' @ fstr A (YNum jetR) @ suffix)
                       (Pair jet_pt (pt L hadron))))))"

definition fill_Dz ::
  "'j fastjet \<Rightarrow> analysis \<Rightarrow> string \<Rightarrow> 'j \<Rightarrow> 'j list \<Rightarrow> 'j list \<Rightarrow> real \<Rightarrow> real \<Rightarrow> odict \<Rightarrow> error + odict" where
  "fill_Dz L A ex jet fj_hadrons_positive holes_in_jet jet_pt jetR d =
     bindE (append_obs (''inclusive_jet_Dz_'' @ ex @ ''_R'' @ fstr A (YNum jetR) @ ''_Njets'')
              (Scalar jet_pt) d) (\<lambda>d.
     bindE (forE fj_hadrons_positive (fill_Dz_hadron L A ex '''' jet jet_pt jetR) d) (\<lambda>d.
     if is_AA A then forE holes_in_jet (fill_Dz_hadron L A ex ''_holes'' jet jet_pt jetR) d
     else Inr d))"

definition full_jet_Dz_atlas ::
  "'j fastjet \<Rightarrow> analysis \<Rightarrow> 'j \<Rightarrow> 'j list \<Rightarrow> 'j list \<Rightarrow> real \<Rightarrow> real \<Rightarrow> odict \<Rightarrow> error + odict" where
  "full_jet_Dz_atlas L A jet fj_hadrons_positive holes_in_jet jet_pt jetR =
     py_if (centrality_ok A (inclusive_jet_observables A) ''Dz_atlas'') (\<lambda>d.
       bindE (cfg_at (inclusive_jet_observables A) ''Dz_atlas'' ''pt'' 0) (\<lambda>pt_min.
       bindE (cfg_at (inclusive_jet_observables A) ''Dz_atlas'' ''pt'' (-1)) (\<lambda>pt_max.
         py_if (jetR_in (inclusive_jet_observables A) ''Dz_atlas'' jetR)
           (py_if (abs_below (rap L jet) (inclusive_jet_observables A) ''Dz_atlas'' ''y_cut'')
             (py_if (between jet_pt pt_min pt_max)
               (fill_Dz L A ''atlas'' jet fj_hadrons_positive holes_in_jet jet_pt jetR))) d)))"

definition full_jet_Dz_cms ::
  "'j fastjet \<Rightarrow> analysis \<Rightarrow> 'j \<Rightarrow> 'j list \<Rightarrow> 'j list \<Rightarrow> real \<Rightarrow> real \<Rightarrow> odict \<Rightarrow> error + odict" where
  "full_jet_Dz_cms L A jet fj_hadrons_positive holes_in_jet jet_pt jetR =
     py_if (Inr (sqrts A = 2760))
       (py_if (centrality_ok A (inclusive_jet_observables A) ''Dz_cms'') (\<lambda>d.
         bindE (cfg_at (inclusive_jet_observables A) ''Dz_cms'' ''pt'' 0) (\<lambda>pt_min.
         bindE (cfg_at (inclusive_jet_observables A) ''Dz_cms'' ''pt'' (-1)) (\<lambda>pt_max.
         bindE (cfg (inclusive_jet_observables A) ''Dz_cms'' ''eta_cut'') (\<lambda>eta_range.
           py_if (jetR_in (inclusive_jet_observables A) ''Dz_cms'' jetR)
             (py_if (in_range \<bar>eta L jet\<bar> eta_range)
               (py_if (between jet_pt pt_min pt_max)
                 (fill_Dz L A ''cms'' jet fj_hadrons_positive holes_in_jet jet_pt jetR))) d)))))"

text \<open>
  The jet charge. \<open>jet_charge_sum\<close> is the loop that accumulates \<open>sum\<close> (over the
  shower hadrons) and \<open>sum_holes\<close> (over the holes in the jet);
  \<open>jet_charge_values\<close> gives the charge appended to the main list and, in AA mode,
  the unsubtracted charge.
\<close>

definition jet_charge_sum ::
  "'j fastjet \<Rightarrow> analysis \<Rightarrow> 'j \<Rightarrow> real \<Rightarrow> yaml \<Rightarrow> 'j list \<Rightarrow> error + real" where
  "jet_charge_sum L A jet jetR kappa hadrons =
     forE hadrons (\<lambda>hadron sum.
         bindE (cfg (inclusive_jet_observables A) ''charge_cms'' ''track_pt_min'') (\<lambda>track_pt_min.
         bindE (greater_than (pt L hadron) track_pt_min) (\<lambda>above.
         if above \<and> \<bar>user_index L hadron\<bar> \<in> set charged_pids \<and> delta_R L jet hadron < jetR then
           bindE (charge (user_index L hadron)) (\<lambda>q.
           bindE (num kappa) (\<lambda>k.
             Inr (sum + q * np_power L (pt L hadron) k)))
         else Inr sum)))
       0"

definition jet_charge_values ::
  "'j fastjet \<Rightarrow> analysis \<Rightarrow> 'j \<Rightarrow> real \<Rightarrow> real \<Rightarrow> yaml \<Rightarrow> 'j list \<Rightarrow> 'j list \<Rightarrow> error + oval \<times> oval list" where
  "jet_charge_values L A jet jet_pt jetR kappa fj_hadrons_positive holes_in_jet =
     bindE (jet_charge_sum L A jet jetR kappa fj_hadrons_positive) (\<lambda>sum.
     if is_AA A then
       bindE (jet_charge_sum L A jet jetR kappa holes_in_jet) (\<lambda>sum_holes.
       bindE (num kappa) (\<lambda>k.
         (let charge_unsubtracted = np_divide sum (np_power L jet_pt k);
              charge = np_divide (sum - sum_holes) (np_power L jet_pt k)
          in Inr (Scalar charge, [Scalar charge_unsubtracted]))))
     else
       bindE (num kappa) (\<lambda>k. Inr (Scalar (np_divide sum (np_power L jet_pt k)), [])))"

definition full_jet_charge_cms ::
  "'j fastjet \<Rightarrow> analysis \<Rightarrow> 'j \<Rightarrow> 'j list \<Rightarrow> 'j list \<Rightarrow> real \<Rightarrow> real \<Rightarrow> odict \<Rightarrow> error + odict" where
  "full_jet_charge_cms L A jet fj_hadrons_positive holes_in_jet jet_pt jetR =
     py_if (Inr (sqrts A = 5020))
       (py_if (centrality_ok A (inclusive_jet_observables A) ''charge_cms'') (\<lambda>d.
         bindE (cfg (inclusive_jet_observables A) ''charge_cms'' ''pt_min'') (\<lambda>pt_min.
           py_if (jetR_in (inclusive_jet_observables A) ''charge_cms'' jetR)
             (py_if (abs_below (eta L jet) (inclusive_jet_observables A) ''charge_cms'' ''eta_cut'')
               (py_if (greater_than jet_pt pt_min) (\<lambda>d.
                  bindE (cfg (inclusive_jet_observables A) ''charge_cms'' ''kappa'') (\<lambda>kappas.
                  bindE (iter kappas) (\<lambda>kappas.
                    forE kappas (\<lambda>kappa d.
                        bindE (jet_charge_values L A jet jet_pt jetR kappa
                                 fj_hadrons_positive holes_in_jet) (\<lambda>vs.
                          append_values
                            (''inclusive_jet_charge_cms_R'' @ fstr A (YNum jetR) @ ''_k'' @ fstr A kappa)
                            (''inclusive_jet_charge_cms_R'' @ fstr A (YNum jetR) @ ''_k'' @ fstr A kappa
                               @ ''_unsubtracted'')
                            vs d))
                      d))))) d)))"

definition fill_full_jet_ungroomed_observables ::
  "'j fastjet \<Rightarrow> analysis \<Rightarrow> 'j \<Rightarrow> 'j list \<Rightarrow> 'j list \<Rightarrow> real \<Rightarrow> real \<Rightarrow> real \<Rightarrow> odict \<Rightarrow> error + odict" where
  "fill_full_jet_ungroomed_observables L A jet fj_hadrons_positive holes_in_jet jet_pt
       jet_pt_uncorrected jetR d =
     (if sqrts A \<in> set [2760, 5020] then
        bindE (full_jet_pt_alice L A jet jet_pt jet_pt_uncorrected jetR d) (\<lambda>d.
        bindE (full_jet_pt_atlas L A jet jet_pt jet_pt_uncorrected jetR d) (\<lambda>d.
        bindE (full_jet_pt_cms L A jet jet_pt jet_pt_uncorrected jetR d) (\<lambda>d.
        bindE (full_jet_Dz_atlas L A jet fj_hadrons_positive holes_in_jet jet_pt jetR d) (\<lambda>d.
        bindE (full_jet_Dz_cms L A jet fj_hadrons_positive holes_in_jet jet_pt jetR d) (\<lambda>d.
        full_jet_charge_cms L A jet fj_hadrons_positive holes_in_jet jet_pt jetR d)))))
      else Inr d)"

subsection \<open>Inclusive charged jets, ungroomed\<close>

text \<open>
  The blocks of \<open>fill_charged_jet_ungroomed_observables\<close>. In the first the minimal
  momentum of the leading track is read from the configuration inside the loop over
  the constituents.
\<close>

definition accept_chjet :: "'j fastjet \<Rightarrow> analysis \<Rightarrow> 'j \<Rightarrow> error + bool" where
  "accept_chjet L A jet =
     forE (constituents L jet) (\<lambda>constituent accept.
         bindE (cfg (inclusive_chjet_observables A) ''pt_alice'' ''leading_track_min_pt'') (\<lambda>min_pt.
         bindE (greater_than (pt L constituent) min_pt) (\<lambda>above.
           Inr (if above \<and> \<bar>user_index L constituent\<bar> \<in> set charged_pids then True else accept))))
       False"

definition chjet_pt_alice ::
  "'j fastjet \<Rightarrow> analysis \<Rightarrow> 'j \<Rightarrow> real \<Rightarrow> real \<Rightarrow> real \<Rightarrow> odict \<Rightarrow> error + odict" where
  "chjet_pt_alice L A jet jet_pt jet_pt_uncorrected jetR =
     py_if (centrality_ok A (inclusive_chjet_observables A) ''pt_alice'') (\<lambda>d.
       bindE (cfg_at (inclusive_chjet_observables A) ''pt_alice'' ''pt'' 0) (\<lambda>pt_min.
       bindE (cfg_at (inclusive_chjet_observables A) ''pt_alice'' ''pt'' 1) (\<lambda>pt_max.
         py_if (jetR_in (inclusive_chjet_observables A) ''pt_alice'' jetR)
           (py_if (abs_below (eta L jet) (inclusive_chjet_observables A) ''pt_alice'' ''eta_cut'')
             (py_if (between jet_pt pt_min pt_max)
               (py_if (accept_chjet L A jet)
                 (append_both A (''inclusive_chjet_pt_alice_R'' @ fstr A (YNum jetR))
                    (Scalar jet_pt) (Scalar jet_pt_uncorrected))))) d)))"

text \<open>
  The angularity \<open>g\<close>: the sum over the constituents, the sum over the holes in the
  jet, and what the block appends. The key of the unsubtracted list is written in the
  source as \<open>f'inclusive_chjet_g_alice_R{jetR})unsubtracted'\<close>.
\<close>

definition angularity_sum :: "'j fastjet \<Rightarrow> 'j \<Rightarrow> real \<Rightarrow> 'j list \<Rightarrow> error + real" where
  "angularity_sum L jet jet_pt particles =
     forE particles (\<lambda>particle g.
         bindE (py_div (pt L particle) jet_pt) (\<lambda>q. Inr (g + q * delta_R L particle jet)))
       0"

definition g_alice_values ::
  "'j fastjet \<Rightarrow> analysis \<Rightarrow> 'j \<Rightarrow> 'j list \<Rightarrow> real \<Rightarrow> error + oval \<times> oval list" where
  "g_alice_values L A jet holes_in_jet jet_pt =
     bindE (angularity_sum L jet jet_pt (constituents L jet)) (\<lambda>g.
     if is_AA A then
       bindE (angularity_sum L jet jet_pt holes_in_jet) (\<lambda>g_holes.
         Inr (Scalar (g - g_holes), [Scalar g]))
     else Inr (Scalar g, []))"

definition chjet_g_alice ::
  "'j fastjet \<Rightarrow> analysis \<Rightarrow> 'j \<Rightarrow> 'j list \<Rightarrow> real \<Rightarrow> real \<Rightarrow> odict \<Rightarrow> error + odict" where
  "chjet_g_alice L A jet holes_in_jet jet_pt jetR =
     py_if (centrality_ok A (inclusive_chjet_observables A) ''g_alice'') (\<lambda>d.
       bindE (cfg_at (inclusive_chjet_observables A) ''g_alice'' ''pt'' 0) (\<lambda>pt_min.
       bindE (cfg_at (inclusive_chjet_observables A) ''g_alice'' ''pt'' 1) (\<lambda>pt_max.
         py_if (abs_below_minus (eta L jet) (inclusive_chjet_observables A) ''g_alice'' ''eta_cut_R'' jetR)
           (py_if (jetR_in (inclusive_chjet_observables A) ''g_alice'' jetR)
             (py_if (between jet_pt pt_min pt_max) (\<lambda>d.
                bindE (g_alice_values L A jet holes_in_jet jet_pt) (\<lambda>vs.
                  append_values
                    (''inclusive_chjet_g_alice_R'' @ fstr A (YNum jetR))
                    (''inclusive_chjet_g_alice_R'' @ fstr A (YNum jetR) @ '')unsubtracted'')
                    vs d)))) d)))"

text \<open>
  The momentum dispersion pTD. The append to the unsubtracted list stands inside the
  loop over the holes in the jet: one value per hole, each \<open>np.sqrt(sum) / jet_pt\<close>
  with the sum over the constituents.
\<close>

definition ptd_alice_values ::
  "'j fastjet \<Rightarrow> analysis \<Rightarrow> 'j \<Rightarrow> 'j list \<Rightarrow> real \<Rightarrow> oval \<times> oval list" where
  "ptd_alice_values L A jet holes_in_jet jet_pt =
     (let sum = fold (\<lambda>constituent sum. sum + np_power L (pt L constituent) 2) (constituents L jet) 0
      in if is_AA A then
           (let sum_holes = fold (\<lambda>hadron sum_holes. sum_holes + np_power L (pt L hadron) 2)
                                 holes_in_jet 0
            in (Scalar (np_divide (sqrt (sum - sum_holes)) jet_pt),
                map (\<lambda>hadron. Scalar (np_divide (sqrt sum) jet_pt)) holes_in_jet))
         else (Scalar (np_divide (sqrt sum) jet_pt), []))"

definition chjet_ptd_alice ::
  "'j fastjet \<Rightarrow> analysis \<Rightarrow> 'j \<Rightarrow> 'j list \<Rightarrow> real \<Rightarrow> real \<Rightarrow> odict \<Rightarrow> error + odict" where
  "chjet_ptd_alice L A jet holes_in_jet jet_pt jetR =
     py_if (centrality_ok A (inclusive_chjet_observables A) ''ptd_alice'') (\<lambda>d.
       bindE (cfg_at (inclusive_chjet_observables A) ''ptd_alice'' ''pt'' 0) (\<lambda>pt_min.
       bindE (cfg_at (inclusive_chjet_observables A) ''ptd_alice'' ''pt'' 1) (\<lambda>pt_max.
         py_if (abs_below_minus (eta L jet) (inclusive_chjet_observables A) ''ptd_alice'' ''eta_cut_R'' jetR)
           (py_if (jetR_in (inclusive_chjet_observables A) ''ptd_alice'' jetR)
             (py_if (between jet_pt pt_min pt_max)
                (append_values
                   (''inclusive_chjet_ptd_alice_R'' @ fstr A (YNum jetR))
                   (''inclusive_chjet_ptd_alice_R'' @ fstr A (YNum jetR) @ ''_unsubtracted'')
                   (ptd_alice_values L A jet holes_in_jet jet_pt)))) d)))"

text \<open>
  The jet mass: the holes in the jet are added to a default-constructed four-vector
  and the mass of that sum is removed from the jet mass.
\<close>

definition mass_alice_values ::
  "'j fastjet \<Rightarrow> analysis \<Rightarrow> 'j \<Rightarrow> 'j list \<Rightarrow> real \<Rightarrow> oval \<times> oval list" where
  "mass_alice_values L A jet holes_in_jet jet_pt =
     (let jet_mass = m L jet
      in if is_AA A then
           (let hole_four_vector = fold (\<lambda>hadron hole_four_vector. iadd L hole_four_vector hadron)
                                        holes_in_jet (PseudoJet0 L);
                jet_mass_holes = m L hole_four_vector
            in (Pair jet_pt (jet_mass - jet_mass_holes), [Pair jet_pt jet_mass]))
         else (Pair jet_pt jet_mass, []))"

definition chjet_mass_alice ::
  "'j fastjet \<Rightarrow> analysis \<Rightarrow> 'j \<Rightarrow> 'j list \<Rightarrow> real \<Rightarrow> real \<Rightarrow> odict \<Rightarrow> error + odict" where
  "chjet_mass_alice L A jet holes_in_jet jet_pt jetR =
     py_if (centrality_ok A (inclusive_chjet_observables A) ''mass_alice'') (\<lambda>d.
       bindE (cfg_at (inclusive_chjet_observables A) ''mass_alice'' ''pt'' 0) (\<lambda>pt_min.
       bindE (cfg_at (inclusive_chjet_observables A) ''mass_alice'' ''pt'' (-1)) (\<lambda>pt_max.
         py_if (abs_below_minus (eta L jet) (inclusive_chjet_observables A) ''mass_alice'' ''eta_cut_R'' jetR)
           (py_if (jetR_in (inclusive_chjet_observables A) ''mass_alice'' jetR)
             (py_if (between jet_pt pt_min pt_max)
                (append_values
                   (''inclusive_chjet_mass_alice_R'' @ fstr A (YNum jetR))
                   (''inclusive_chjet_mass_alice_R'' @ fstr A (YNum jetR) @ ''_unsubtracted'')
                   (mass_alice_values L A jet holes_in_jet jet_pt)))) d)))"

definition chjet_pt_star ::
  "'j fastjet \<Rightarrow> analysis \<Rightarrow> 'j \<Rightarrow> real \<Rightarrow> real \<Rightarrow> real \<Rightarrow> odict \<Rightarrow> error + odict" where
  "chjet_pt_star L A jet jet_pt jet_pt_uncorrected jetR =
     py_if (centrality_ok A (inclusive_chjet_observables A) ''pt_star'') (\<lambda>d.
       bindE (cfg_at (inclusive_chjet_observables A) ''pt_star'' ''pt'' 0) (\<lambda>pt_min.
         py_if (jetR_in (inclusive_chjet_observables A) ''pt_star'' jetR)
           (py_if (abs_below_minus (eta L jet) (inclusive_chjet_observables A) ''pt_star'' ''eta_cut_R'' jetR)
             (py_if (between jet_pt pt_min (YNum 100))
               (py_if (Inr (accept_jet L jet 5))
                 (append_both A (''inclusive_chjet_pt_star_R'' @ fstr A (YNum jetR))
                    (Scalar jet_pt) (Scalar jet_pt_uncorrected))))) d))"

definition fill_charged_jet_ungroomed_observables ::
  "'j fastjet \<Rightarrow> analysis \<Rightarrow> 'j \<Rightarrow> 'j list \<Rightarrow> real \<Rightarrow> real \<Rightarrow> real \<Rightarrow> odict \<Rightarrow> error + odict" where
  "fill_charged_jet_ungroomed_observables L A jet holes_in_jet jet_pt jet_pt_uncorrected jetR d =
     (if sqrts A = 2760 then
        bindE (chjet_pt_alice L A jet jet_pt jet_pt_uncorrected jetR d) (\<lambda>d.
        bindE (chjet_g_alice L A jet holes_in_jet jet_pt jetR d) (\<lambda>d.
        bindE (chjet_ptd_alice L A jet holes_in_jet jet_pt jetR d) (\<lambda>d.
        chjet_mass_alice L A jet holes_in_jet jet_pt jetR d)))
      else if sqrts A = 200 then chjet_pt_star L A jet jet_pt jet_pt_uncorrected jetR d
      else Inr d)"

subsection \<open>Groomed jets\<close>

text \<open>
  \<open>fill_full_jet_groomed_observables\<close> and \<open>fill_charged_jet_groomed_observables\<close>:
  the groomer is called with \<open>beta\<close>, \<open>zcut\<close> and the jet radius, and the function
  returns at once when the groomer gives nothing. The two CMS blocks are one text with
  the observable and the value varying.
\<close>

definition groomed_cms_block ::
  "'j fastjet \<Rightarrow> analysis \<Rightarrow> string \<Rightarrow> error + real \<Rightarrow> yaml \<Rightarrow> yaml \<Rightarrow> yaml \<Rightarrow> lund \<Rightarrow> 'j
     \<Rightarrow> real \<Rightarrow> real \<Rightarrow> odict \<Rightarrow> error + odict" where
  "groomed_cms_block L A ob v grooming_setting zcut beta jet_groomed_lund jet jet_pt jetR =
     py_if (centrality_ok A (inclusive_jet_observables A) ob)
       (py_if (bindE (cfg (inclusive_jet_observables A) ob ''SoftDrop'') (contains grooming_setting)) (\<lambda>d.
          bindE (cfg_at (inclusive_jet_observables A) ob ''pt'' 0) (\<lambda>pt_min.
          bindE (cfg_at (inclusive_jet_observables A) ob ''pt'' (-1)) (\<lambda>pt_max.
            py_if (jetR_in (inclusive_jet_observables A) ob jetR)
              (py_if (abs_below (eta L jet) (inclusive_jet_observables A) ob ''eta_cut'')
                (py_if (between jet_pt pt_min pt_max)
                  (py_if (bindE (cfg (inclusive_jet_observables A) ob ''dR'')
                            (greater_than (lund_Delta jet_groomed_lund))) (\<lambda>d.
                     bindE v (\<lambda>x.
                       append_obs (''inclusive_jet_'' @ ob @ ''_R'' @ fstr A (YNum jetR)
                                     @ ''_zcut'' @ fstr A zcut @ ''_beta'' @ fstr A beta)
                         (Pair jet_pt x) d))))) d))))"

definition fill_full_jet_groomed_observables ::
  "'j fastjet \<Rightarrow> analysis \<Rightarrow> yaml \<Rightarrow> 'j \<Rightarrow> real \<Rightarrow> real \<Rightarrow> odict \<Rightarrow> error + odict" where
  "fill_full_jet_groomed_observables L A grooming_setting jet jet_pt jetR d =
     bindE (getitem grooming_setting ''zcut'') (\<lambda>zcut.
     bindE (getitem grooming_setting ''beta'') (\<lambda>beta.
     bindE (num beta) (\<lambda>b.
     bindE (num zcut) (\<lambda>zc.
       case soft_drop L jet jetR b zc of
         None \<Rightarrow> Inr d
       | Some jet_groomed_lund \<Rightarrow>
           if sqrts A = 5020 then
             bindE (groomed_cms_block L A ''mg_cms'' (py_div (lund_pair_m jet_groomed_lund) jet_pt)
                      grooming_setting zcut beta jet_groomed_lund jet jet_pt jetR d)
                   (groomed_cms_block L A ''zg_cms'' (Inr (lund_z jet_groomed_lund))
                      grooming_setting zcut beta jet_groomed_lund jet jet_pt jetR)
           else Inr d))))"

definition fill_charged_jet_groomed_observables ::
  "'j fastjet \<Rightarrow> analysis \<Rightarrow> yaml \<Rightarrow> 'j \<Rightarrow> real \<Rightarrow> real \<Rightarrow> odict \<Rightarrow> error + odict" where
  "fill_charged_jet_groomed_observables L A grooming_setting jet jet_pt jetR d =
     bindE (getitem grooming_setting ''zcut'') (\<lambda>zcut.
     bindE (getitem grooming_setting ''beta'') (\<lambda>beta.
     bindE (num beta) (\<lambda>b.
     bindE (num zcut) (\<lambda>zc.
       case soft_drop L jet jetR b zc of
         None \<Rightarrow> Inr d
       | Some jet_groomed_lund \<Rightarrow>
           if sqrts A = 5020 then
             py_if (centrality_ok A (inclusive_chjet_observables A) ''zg_alice'')
               (py_if (bindE (cfg (inclusive_chjet_observables A) ''zg_alice'' ''SoftDrop'')
                         (contains grooming_setting)) (\<lambda>d.
                  bindE (cfg_at (inclusive_chjet_observables A) ''zg_alice'' ''pt'' 0) (\<lambda>pt_min.
                  bindE (cfg_at (inclusive_chjet_observables A) ''zg_alice'' ''pt'' 1) (\<lambda>pt_max.
                    py_if (abs_below_minus (eta L jet) (inclusive_chjet_observables A) ''zg_alice''
                             ''eta_cut_R'' jetR)
                      (py_if (jetR_in (inclusive_chjet_observables A) ''zg_alice'' jetR)
                        (py_if (between jet_pt pt_min pt_max) (\<lambda>d.
                           bindE (py_div (lund_Delta jet_groomed_lund) jetR) (\<lambda>theta_g.
                           bindE (append_obs (''inclusive_chjet_zg_alice_R'' @ fstr A (YNum jetR)
                                                @ ''_zcut'' @ fstr A zcut @ ''_beta'' @ fstr A beta)
                                    (Scalar (lund_z jet_groomed_lund)) d)
                                 (append_obs (''inclusive_chjet_tg_alice_R'' @ fstr A (YNum jetR)
                                                @ ''_zcut'' @ fstr A zcut @ ''_beta'' @ fstr A beta)
                                    (Scalar theta_g)))))) d)))) d
           else Inr d))))"

subsection \<open>One inclusive jet\<close>

text \<open>\<open>analyze_inclusive_jet\<close>: the corrected momentum, then the ungroomed and the groomed
  observables of a full or of a charged jet.\<close>

definition analyze_inclusive_jet ::
  "'j fastjet \<Rightarrow> analysis \<Rightarrow> 'j \<Rightarrow> 'j list \<Rightarrow> 'j list \<Rightarrow> real \<Rightarrow> bool \<Rightarrow> odict \<Rightarrow> error + odict" where
  "analyze_inclusive_jet L A jet fj_hadrons_positive fj_hadrons_negative jetR full_jet d =
     (let (jet_pt, jet_pt_uncorrected, holes_in_jet) =
            analyze_inclusive_jet_pt L A jet fj_hadrons_negative jetR
      in if full_jet then
           bindE (fill_full_jet_ungroomed_observables L A jet fj_hadrons_positive holes_in_jet
                    jet_pt jet_pt_uncorrected jetR d) (\<lambda>d.
           if truthy (grooming_settings A) then
             bindE (iter (grooming_settings A)) (\<lambda>settings.
               forE settings (\<lambda>grooming_setting.
                   fill_full_jet_groomed_observables L A grooming_setting jet jet_pt jetR) d)
           else Inr d)
         else
           bindE (fill_charged_jet_ungroomed_observables L A jet holes_in_jet
                    jet_pt jet_pt_uncorrected jetR d) (\<lambda>d.
           if truthy (grooming_settings A) then
             bindE (iter (grooming_settings A)) (\<lambda>settings.
               forE settings (\<lambda>grooming_setting.
                   fill_charged_jet_groomed_observables L A grooming_setting jet jet_pt jetR) d)
           else Inr d))"

subsection \<open>Semi-inclusive charged jets\<close>

text \<open>
  \<open>fill_semi_inclusive_chjet_observables\<close>. The corrected momentum of a recoil jet is
  computed as in \<open>analyze_inclusive_jet\<close>, by a loop of its own.
\<close>

definition semi_inclusive_jet_pt :: "'j fastjet \<Rightarrow> analysis \<Rightarrow> 'j \<Rightarrow> 'j list \<Rightarrow> real \<Rightarrow> real \<times> real" where
  "semi_inclusive_jet_pt L A jet fj_hadrons_negative_charged jetR =
     (if is_AA A then
        (let jet_pt_unsubtracted = pt L jet;
             jet_pt_holes = fold (\<lambda>temp_hadron jet_pt_holes.
                                     if delta_R L jet temp_hadron < jetR
                                     then jet_pt_holes + pt L temp_hadron else jet_pt_holes)
                                 fj_hadrons_negative_charged 0;
             jet_pt = jet_pt_unsubtracted - jet_pt_holes
         in (jet_pt, jet_pt_unsubtracted))
      else (pt L jet, pt L jet))"

text \<open>\<open>min(l)\<close> of a configured list of numbers; \<open>ValueError\<close> on the empty list.\<close>

definition py_min :: "yaml \<Rightarrow> error + real" where
  "py_min l = (case l of
       YSeq [] \<Rightarrow> Inl ValueError
     | YSeq (x # xs) \<Rightarrow>
         bindE (num x) (\<lambda>r0.
           forE xs (\<lambda>v lo. bindE (num v) (\<lambda>r. Inr (if r < lo then r else lo))) r0)
     | _ \<Rightarrow> Inl TypeError)"

text \<open>
  The jet yield and the azimuthal difference for one trigger class. The source has this
  text three times: for ALICE's low and high trigger (\<open>label\<close> \<open>_lowTrigger\<close>,
  \<open>_highTrigger\<close>) and for STAR (no label).
\<close>

definition hjet_block ::
  "'j fastjet \<Rightarrow> analysis \<Rightarrow> string \<Rightarrow> string \<Rightarrow> 'j \<Rightarrow> 'j \<Rightarrow> real \<Rightarrow> real \<Rightarrow> real \<Rightarrow> yaml \<Rightarrow> yaml
     \<Rightarrow> odict \<Rightarrow> error + odict" where
  "hjet_block L A ex label hadron jet jet_pt jet_pt_unsubtracted jetR pt_IAA pt_dphi d =
     bindE (py_if (jetR_in (semi_inclusive_chjet_observables A) (''IAA_'' @ ex) jetR)
              (py_if (Inr (\<bar>delta_phi_to L jet hadron\<bar> > pi - 0.6))
                (py_if (in_range jet_pt pt_IAA)
                  (append_both A (''semi_inclusive_chjet_IAA_'' @ ex @ ''_R'' @ fstr A (YNum jetR) @ label)
                     (Scalar jet_pt) (Scalar jet_pt_unsubtracted)))) d)
       (py_if (jetR_in (semi_inclusive_chjet_observables A) (''dphi_'' @ ex) jetR)
          (py_if (in_range jet_pt pt_dphi)
            (append_obs (''semi_inclusive_chjet_dphi_'' @ ex @ ''_R'' @ fstr A (YNum jetR) @ label)
               (Scalar \<bar>delta_phi_to L hadron jet\<bar>))))"

definition nsubjettiness_block ::
  "'j fastjet \<Rightarrow> analysis \<Rightarrow> string \<Rightarrow> 'j \<Rightarrow> 'j \<Rightarrow> real \<Rightarrow> real \<Rightarrow> real \<Rightarrow> yaml \<Rightarrow> odict \<Rightarrow> error + odict" where
  "nsubjettiness_block L A label hadron jet jet_pt jet_pt_unsubtracted jetR pt_nsubjettiness =
     py_if (Inr (\<bar>delta_phi_to L jet hadron\<bar> > pi - 0.6))
       (py_if (in_range jet_pt pt_nsubjettiness) (\<lambda>d.
          bindE (py_div (nsubjettiness L 1 jet) jet_pt_unsubtracted) (\<lambda>tau1.
          bindE (py_div (nsubjettiness L 2 jet) jet_pt_unsubtracted) (\<lambda>tau2.
            if tau1 > 1 / 1000 then
              append_obs (''semi_inclusive_chjet_nsubjettiness_alice_R'' @ fstr A (YNum jetR) @ label)
                (Scalar (tau2 / tau1)) d
            else Inr d))))"

text \<open>The body of the loop over the recoil jets (ALICE), for a hadron that triggered.\<close>

definition semi_inclusive_alice_jet ::
  "'j fastjet \<Rightarrow> analysis \<Rightarrow> 'j list \<Rightarrow> real \<Rightarrow> 'j \<Rightarrow> bool \<Rightarrow> bool \<Rightarrow> bool \<Rightarrow> bool \<Rightarrow> yaml \<Rightarrow> yaml \<Rightarrow> yaml
     \<Rightarrow> 'j \<Rightarrow> odict \<Rightarrow> error + odict" where
  "semi_inclusive_alice_jet L A fj_hadrons_negative_charged jetR hadron hjet_found_low hjet_found_high
       nsubjettiness_found_low nsubjettiness_found_high pt_IAA pt_dphi pt_nsubjettiness jet =
     py_if (abs_below_minus (eta L jet) (semi_inclusive_chjet_observables A) ''IAA_alice'' ''eta_cut_R'' jetR)
       (\<lambda>d.
         (let (jet_pt, jet_pt_unsubtracted) =
                semi_inclusive_jet_pt L A jet fj_hadrons_negative_charged jetR
          in bindE
               (py_if (centrality_ok A (semi_inclusive_chjet_observables A) ''IAA_alice'') (\<lambda>d.
                  bindE (if hjet_found_low
                         then hjet_block L A ''alice'' ''_lowTrigger'' hadron jet jet_pt
                                jet_pt_unsubtracted jetR pt_IAA pt_dphi d
                         else Inr d) (\<lambda>d.
                  if hjet_found_high
                  then hjet_block L A ''alice'' ''_highTrigger'' hadron jet jet_pt
                         jet_pt_unsubtracted jetR pt_IAA pt_dphi d
                  else Inr d)) d)
               (py_if (centrality_ok A (semi_inclusive_chjet_observables A) ''nsubjettiness_alice'')
                  (py_if (jetR_in (semi_inclusive_chjet_observables A) ''nsubjettiness_alice'' jetR) (\<lambda>d.
                     bindE (if nsubjettiness_found_low
                            then nsubjettiness_block L A ''_lowTrigger'' hadron jet jet_pt
                                   jet_pt_unsubtracted jetR pt_nsubjettiness d
                            else Inr d) (\<lambda>d.
                     if nsubjettiness_found_high
                     then nsubjettiness_block L A ''_highTrigger'' hadron jet jet_pt
                            jet_pt_unsubtracted jetR pt_nsubjettiness d
                     else Inr d))))))"

text \<open>Recording the trigger: \<open>if jetR == min(X[ob]['jet_R'])\<close>, append the hadron's momentum.\<close>

definition record_trigger :: "'j fastjet \<Rightarrow> analysis \<Rightarrow> string \<Rightarrow> string \<Rightarrow> real \<Rightarrow> 'j \<Rightarrow> odict \<Rightarrow> error + odict" where
  "record_trigger L A ob k jetR hadron =
     py_if (bindE (bindE (cfg (semi_inclusive_chjet_observables A) ob ''jet_R'') py_min)
                  (\<lambda>smallest. Inr (jetR = smallest)))
       (append_obs k (Scalar (pt L hadron)))"

definition semi_inclusive_alice ::
  "'j fastjet \<Rightarrow> analysis \<Rightarrow> 'j list \<Rightarrow> 'j list \<Rightarrow> 'j list \<Rightarrow> real \<Rightarrow> odict \<Rightarrow> error + odict" where
  "semi_inclusive_alice L A jets_selected fj_hadrons_positive_charged fj_hadrons_negative_charged jetR d =
     bindE (cfg (semi_inclusive_chjet_observables A) ''IAA_alice'' ''low_trigger_range'') (\<lambda>hjet_low_trigger_range.
     bindE (cfg (semi_inclusive_chjet_observables A) ''IAA_alice'' ''high_trigger_range'') (\<lambda>hjet_high_trigger_range.
     bindE (cfg (semi_inclusive_chjet_observables A) ''nsubjettiness_alice'' ''low_trigger_range'') (\<lambda>nsubjettiness_low_trigger_range.
     bindE (cfg (semi_inclusive_chjet_observables A) ''nsubjettiness_alice'' ''high_trigger_range'') (\<lambda>nsubjettiness_high_trigger_range.
     bindE (cfg (semi_inclusive_chjet_observables A) ''IAA_alice'' ''pt'') (\<lambda>pt_IAA.
     bindE (cfg (semi_inclusive_chjet_observables A) ''dphi_alice'' ''pt'') (\<lambda>pt_dphi.
     bindE (cfg (semi_inclusive_chjet_observables A) ''nsubjettiness_alice'' ''pt'') (\<lambda>pt_nsubjettiness.
       forE fj_hadrons_positive_charged (\<lambda>hadron.
           py_if (abs_below (eta L hadron) (semi_inclusive_chjet_observables A) ''IAA_alice'' ''hadron_eta_cut'') (\<lambda>d.
             bindE (in_range (pt L hadron) hjet_low_trigger_range) (\<lambda>hjet_found_low.
             bindE (in_range (pt L hadron) hjet_high_trigger_range) (\<lambda>hjet_found_high.
             bindE (in_range (pt L hadron) nsubjettiness_low_trigger_range) (\<lambda>nsubjettiness_found_low.
             bindE (in_range (pt L hadron) nsubjettiness_high_trigger_range) (\<lambda>nsubjettiness_found_high.
               py_if (Inr (hjet_found_low \<or> hjet_found_high \<or> nsubjettiness_found_low
                            \<or> nsubjettiness_found_high)) (\<lambda>d.
                  bindE (record_trigger L A ''IAA_alice'' ''semi_inclusive_chjet_alice_trigger_pt''
                           jetR hadron d)
                    (forE jets_selected
                       (semi_inclusive_alice_jet L A fj_hadrons_negative_charged jetR hadron
                          hjet_found_low hjet_found_high nsubjettiness_found_low
                          nsubjettiness_found_high pt_IAA pt_dphi pt_nsubjettiness))) d))))))
         d)))))))"

definition semi_inclusive_star ::
  "'j fastjet \<Rightarrow> analysis \<Rightarrow> 'j list \<Rightarrow> 'j list \<Rightarrow> 'j list \<Rightarrow> real \<Rightarrow> odict \<Rightarrow> error + odict" where
  "semi_inclusive_star L A jets_selected fj_hadrons_positive_charged fj_hadrons_negative_charged jetR d =
     bindE (cfg (semi_inclusive_chjet_observables A) ''IAA_star'' ''trigger_range'') (\<lambda>hjet_trigger_range.
     bindE (cfg (semi_inclusive_chjet_observables A) ''IAA_star'' ''pt'') (\<lambda>pt_IAA.
     bindE (cfg (semi_inclusive_chjet_observables A) ''dphi_star'' ''pt'') (\<lambda>pt_dphi.
       forE fj_hadrons_positive_charged (\<lambda>hadron.
           py_if (abs_below (eta L hadron) (semi_inclusive_chjet_observables A) ''IAA_star'' ''hadron_eta_cut'')
             (py_if (in_range (pt L hadron) hjet_trigger_range) (\<lambda>d.
                bindE (record_trigger L A ''IAA_star'' ''semi_inclusive_chjet_star_trigger_pt''
                         jetR hadron d)
                  (forE jets_selected (\<lambda>jet.
                     py_if (abs_below_minus (eta L jet) (semi_inclusive_chjet_observables A)
                              ''IAA_star'' ''eta_cut_R'' jetR) (\<lambda>d.
                       (let (jet_pt, jet_pt_unsubtracted) =
                              semi_inclusive_jet_pt L A jet fj_hadrons_negative_charged jetR
                        in py_if (centrality_ok A (semi_inclusive_chjet_observables A) ''IAA_star'')
                             (hjet_block L A ''star'' '''' hadron jet jet_pt jet_pt_unsubtracted
                                jetR pt_IAA pt_dphi) d)))))))
         d)))"

definition fill_semi_inclusive_chjet_observables ::
  "'j fastjet \<Rightarrow> analysis \<Rightarrow> 'j list \<Rightarrow> 'j list \<Rightarrow> 'j list \<Rightarrow> real \<Rightarrow> odict \<Rightarrow> error + odict" where
  "fill_semi_inclusive_chjet_observables L A jets_selected fj_hadrons_positive_charged
       fj_hadrons_negative_charged jetR d =
     bindE (if sqrts A = 2760
            then semi_inclusive_alice L A jets_selected fj_hadrons_positive_charged
                   fj_hadrons_negative_charged jetR d
            else Inr d) (\<lambda>d.
     if sqrts A = 200
     then semi_inclusive_star L A jets_selected fj_hadrons_positive_charged
            fj_hadrons_negative_charged jetR d
     else Inr d)"

subsection \<open>Dijets\<close>

text \<open>\<open>del l[i]\<close>: \<open>IndexError\<close> when \<open>i\<close> is not an index of \<open>l\<close>.\<close>

definition del_at :: "'a list \<Rightarrow> nat \<Rightarrow> error + 'a list" where
  "del_at l i = (if i < length l then Inr (take i l @ drop (Suc i) l) else Inl IndexError)"

text \<open>
  \<open>fill_dijet_observables\<close>: the candidates passing the cuts, then the leading jet,
  the deletion of \<open>jet_candidates[i_leading_jet]\<close>, and the leading jet of what is left.
\<close>

definition dijet_candidates :: "'j fastjet \<Rightarrow> analysis \<Rightarrow> 'j list \<Rightarrow> 'j list \<Rightarrow> real \<Rightarrow> error + 'j list" where
  "dijet_candidates L A jets_selected fj_hadrons_negative jetR =
     forE jets_selected (\<lambda>jet jet_candidates.
         (let jet_pt = (if is_AA A then
                          (if fj_hadrons_negative \<noteq> []
                           then subtract_holes L jet fj_hadrons_negative jetR else pt L jet)
                        else pt L jet)
          in bindE (bindE (cfg (dijet_observables A) ''xj_atlas'' ''pt_subleading_min'')
                          (greater_than jet_pt)) (\<lambda>above.
             if above then
               bindE (abs_below (eta L jet) (dijet_observables A) ''xj_atlas'' ''eta_cut'') (\<lambda>central.
                 Inr (if central then jet_candidates @ [jet] else jet_candidates))
             else Inr jet_candidates)))
       []"

definition fill_dijet_observables ::
  "'j fastjet \<Rightarrow> analysis \<Rightarrow> 'j list \<Rightarrow> 'j list \<Rightarrow> real \<Rightarrow> odict \<Rightarrow> error + odict" where
  "fill_dijet_observables L A jets_selected fj_hadrons_negative jetR =
     py_if (Inr (sqrts A = 2760))
       (py_if (centrality_ok A (dijet_observables A) ''xj_atlas'')
         (py_if (jetR_in (dijet_observables A) ''xj_atlas'' jetR) (\<lambda>d.
            bindE (dijet_candidates L A jets_selected fj_hadrons_negative jetR) (\<lambda>jet_candidates.
              case leading_jet L jet_candidates fj_hadrons_negative jetR of
                (None, leading_jet_pt, i_leading_jet) \<Rightarrow> Inr d
              | (Some leading, leading_jet_pt, i_leading_jet) \<Rightarrow>
                  bindE (del_at jet_candidates i_leading_jet) (\<lambda>jet_candidates.
                    case leading_jet L jet_candidates fj_hadrons_negative jetR of
                      (None, subleading_jet_pt, i) \<Rightarrow> Inr d
                    | (Some subleading, subleading_jet_pt, i) \<Rightarrow>
                        if \<bar>delta_phi_to L leading subleading\<bar> > 7 * pi / 8 then
                          bindE (cfg (dijet_observables A) ''xj_atlas'' ''pt_leading_min'') (\<lambda>pt_min.
                          bindE (greater_than leading_jet_pt pt_min) (\<lambda>above.
                            if above then
                              bindE (py_div subleading_jet_pt leading_jet_pt) (\<lambda>xj.
                                append_obs (''dijet_xj_atlas_R'' @ fstr A (YNum jetR)) (Scalar xj) d)
                            else Inr d))
                        else Inr d)))))"

subsection \<open>One event\<close>

text \<open>
  An event, as \<open>analyze_event\<close> sees it: the four particle lists that
  \<open>fill_fastjet_constituents\<close> (a method of the base class, not among the sources)
  selects from it by status and by charge.
\<close>

record 'j event =
  hadrons_positive :: "'j list"
  hadrons_negative :: "'j list"
  hadrons_positive_charged :: "'j list"
  hadrons_negative_charged :: "'j list"

text \<open>The list of radii for which the semi-inclusive observables are filled; when
  \<open>sqrts\<close> is neither 2760 nor 200 the name \<open>jetR_list\<close> is read without being bound.\<close>

definition semi_inclusive_jetR_list :: "analysis \<Rightarrow> error + yaml" where
  "semi_inclusive_jetR_list A =
     (if sqrts A = 2760 then
        bindE (cfg (semi_inclusive_chjet_observables A) ''IAA_alice'' ''jet_R'') (\<lambda>l1.
        bindE (cfg (semi_inclusive_chjet_observables A) ''nsubjettiness_alice'' ''jet_R'') (\<lambda>l2.
          case (l1, l2) of (YSeq xs, YSeq ys) \<Rightarrow> Inr (YSeq (xs @ ys)) | _ \<Rightarrow> Inl TypeError))
      else if sqrts A = 200 then cfg (semi_inclusive_chjet_observables A) ''IAA_star'' ''jet_R''
      else Inl UnboundLocalError)"

text \<open>The body of the loop over the jet radii.\<close>

definition analyze_event_jetR :: "'j fastjet \<Rightarrow> analysis \<Rightarrow> 'j event \<Rightarrow> real \<Rightarrow> odict \<Rightarrow> error + odict" where
  "analyze_event_jetR L A event jetR d =
     (let jets_selected =
            jet_selector L (min_jet_pt A) (max_jet_y A) (antikt_jets L jetR (hadrons_positive event));
          jets_selected_charged =
            jet_selector L (min_jet_pt A) (max_jet_y A)
              (antikt_jets L jetR (hadrons_positive_charged event))
      in bindE (forE jets_selected (\<lambda>jet.
                  analyze_inclusive_jet L A jet (hadrons_positive event) (hadrons_negative event)
                    jetR True) d) (\<lambda>d.
         bindE (forE jets_selected_charged (\<lambda>jet.
                  analyze_inclusive_jet L A jet (hadrons_positive_charged event)
                    (hadrons_negative_charged event) jetR False) d) (\<lambda>d.
         bindE (if truthy (semi_inclusive_chjet_observables A) then
                  bindE (semi_inclusive_jetR_list A) (\<lambda>jetR_list.
                    py_if (contains (YNum jetR) jetR_list)
                      (fill_semi_inclusive_chjet_observables L A jets_selected_charged
                         (hadrons_positive_charged event) (hadrons_negative_charged event) jetR) d)
                else Inr d) (\<lambda>d.
         if truthy (dijet_observables A)
         then fill_dijet_observables L A jets_selected (hadrons_negative event) jetR d
         else Inr d))))"

text \<open>\<open>analyze_event\<close>: what follows the initialisation, and the whole.\<close>

definition fill_event :: "'j fastjet \<Rightarrow> analysis \<Rightarrow> 'j event \<Rightarrow> odict \<Rightarrow> error + odict" where
  "fill_event L A event d =
     bindE (fill_hadron_observables L A (hadrons_positive event) ''+'' d) (\<lambda>d.
     bindE (if is_AA A then fill_hadron_observables L A (hadrons_negative event) ''-'' d
            else Inr d) (\<lambda>d.
     bindE (fill_hadron_correlation_observables L A (hadrons_positive event) d) (\<lambda>d.
       forE (jet_R A) (analyze_event_jetR L A event) d)))"

definition analyze_event :: "'j fastjet \<Rightarrow> analysis \<Rightarrow> 'j event \<Rightarrow> odict \<Rightarrow> error + odict" where
  "analyze_event L A event d =
     bindE (initialize_output_lists A d) (fill_event L A event)"

section \<open>Which lists a statement can change\<close>

text \<open>
  \<open>only_writes S f\<close>: when \<open>f\<close> returns, every list whose key is outside \<open>S\<close> is
  what it was. \<open>starts_with p k\<close>: the key \<open>k\<close> begins with \<open>p\<close>.
\<close>

definition starts_with :: "string \<Rightarrow> string \<Rightarrow> bool" where
  "starts_with p k \<longleftrightarrow> take (length p) k = p"

definition only_writes :: "string set \<Rightarrow> (odict \<Rightarrow> error + odict) \<Rightarrow> bool" where
  "only_writes S f \<longleftrightarrow> (\<forall>d d' k. f d = Inr d' \<longrightarrow> k \<notin> S \<longrightarrow> d' k = d k)"

section \<open>Data for the concrete evaluations\<close>

text \<open>A small library instance for the concrete evaluations: a jet is its read-outs.\<close>

datatype tjet = TJet real real real int "tjet list"

fun t_pt :: "tjet \<Rightarrow> real" where "t_pt (TJet p y f i cs) = p"
fun t_rap :: "tjet \<Rightarrow> real" where "t_rap (TJet p y f i cs) = y"
fun t_phi :: "tjet \<Rightarrow> real" where "t_phi (TJet p y f i cs) = f"
fun t_index :: "tjet \<Rightarrow> int" where "t_index (TJet p y f i cs) = i"
fun t_constituents :: "tjet \<Rightarrow> tjet list" where "t_constituents (TJet p y f i cs) = cs"

definition tlib :: "tjet fastjet" where
  "tlib = \<lparr> pt = t_pt, eta = t_rap, rap = t_rap, m = (\<lambda>j. 0), E = t_pt, pz = (\<lambda>j. 0),
            user_index = t_index, constituents = t_constituents,
            delta_R = (\<lambda>a b. \<bar>t_rap a - t_rap b\<bar> + \<bar>t_phi a - t_phi b\<bar>),
            delta_phi_to = (\<lambda>a b. t_phi b - t_phi a),
            PseudoJet0 = TJet 0 0 0 0 [],
            iadd = (\<lambda>a b. TJet (t_pt a + t_pt b) (t_rap a) (t_phi a) (t_index a) []),
            antikt_jets = (\<lambda>jetR ps. []),
            jet_selector = (\<lambda>ptmin rapmax js. filter (\<lambda>j. t_pt j \<ge> ptmin \<and> \<bar>t_rap j\<bar> \<le> rapmax) js),
            soft_drop = (\<lambda>j jetR beta zcut. None),
            nsubjettiness = (\<lambda>n j. 0),
            np_power = (\<lambda>x y. if y = 2 then x * x else 1) \<rparr>"

text \<open>
  A configuration for the concrete evaluations, in the layout of the analysis'
  YAML file for Pb-Pb at 2.76 TeV: every block holds the cuts its observable reads.
\<close>

definition fmt_sample :: "yaml \<Rightarrow> string" where
  "fmt_sample v = (if v = YNum 0.2 then ''0.2'' else if v = YNum 0.4 then ''0.4''
                   else if v = YNum 0 then ''0'' else ''x'')"

definition central :: yaml where
  "central = YSeq [YSeq [YNum 0, YNum 10]]"

definition hadron_block :: yaml where
  "hadron_block = YMap [(''centrality'', central), (''pt'', YSeq [YNum 1, YNum 100]),
                        (''eta_cut'', YNum 0.8)]"

definition jet_block :: yaml where
  "jet_block = YMap [(''centrality'', central), (''jet_R'', YSeq [YNum 0.2, YNum 0.4]),
                     (''pt'', YSeq [YNum 40, YNum 140]), (''eta_cut'', YNum 2),
                     (''eta_cut_R'', YNum 0.9), (''y_cut'', YNum 2.1),
                     (''leading_track_min_pt'', YNum 5)]"

definition ana_AA :: analysis where
  "ana_AA = \<lparr> sqrts = 2760, is_AA = True,
      hadron_observables = YMap [(''pt_ch_alice'', hadron_block), (''pt_pi_alice'', hadron_block),
        (''pt_pi0_alice'', hadron_block), (''pt_ch_atlas'', hadron_block), (''pt_ch_cms'', hadron_block)],
      hadron_correlation_observables = YMap [],
      inclusive_chjet_observables = YMap [(''pt_alice'', jet_block), (''g_alice'', jet_block),
        (''ptd_alice'', jet_block), (''mass_alice'', jet_block)],
      inclusive_jet_observables = YMap [(''pt_alice'', jet_block), (''pt_atlas'', jet_block),
        (''pt_cms'', jet_block), (''Dz_atlas'', jet_block), (''Dpt_atlas'', jet_block),
        (''Dz_cms'', YMap [(''centrality'', central), (''jet_R'', YSeq [YNum 0.2, YNum 0.4]),
                            (''pt'', YSeq [YNum 40, YNum 140]), (''eta_cut'', YSeq [YNum 0, YNum 2])]),
        (''Dpt_cms'', jet_block)],
      semi_inclusive_chjet_observables = YNone,
      dijet_observables = YMap [(''xj_atlas'', YMap [(''centrality'', central),
        (''jet_R'', YSeq [YNum 0.4]), (''pt_subleading_min'', YNum 25), (''pt_leading_min'', YNum 100),
        (''eta_cut'', YNum 2.1)])],
      jet_R = [0.2, 0.4], min_jet_pt = 20, max_jet_y = 3,
      grooming_settings = YNone,
      centrality_accepted = (\<lambda>c. True),
      py_format = fmt_sample \<rparr>"


text \<open>The same configuration for a pp run, where \<open>is_AA\<close> is false.\<close>

definition ana_pp :: analysis where
  "ana_pp = ana_AA\<lparr> is_AA := False \<rparr>"

text \<open>
  A pp configuration whose block \<open>Dpt_atlas\<close> declares a momentum range of its own,
  above that of \<open>Dz_atlas\<close>.
\<close>

definition ana_Dpt :: analysis where
  "ana_Dpt = ana_pp\<lparr>
      inclusive_jet_observables := YMap [(''pt_alice'', jet_block), (''pt_atlas'', jet_block),
        (''pt_cms'', jet_block), (''Dz_atlas'', jet_block),
        (''Dpt_atlas'', YMap [(''centrality'', central), (''jet_R'', YSeq [YNum 0.2, YNum 0.4]),
                              (''pt'', YSeq [YNum 200, YNum 300]), (''y_cut'', YNum 2.1)]),
        (''Dz_cms'', YMap [(''centrality'', central), (''jet_R'', YSeq [YNum 0.2, YNum 0.4]),
                            (''pt'', YSeq [YNum 40, YNum 140]), (''eta_cut'', YSeq [YNum 0, YNum 2])]),
        (''Dpt_cms'', jet_block)] \<rparr>"


text \<open>
  A library whose clustering gives one jet at the origin made of all the particles, and
  an event of a single charged pion of momentum 50.
\<close>

definition tlib_jets :: "tjet fastjet" where
  "tlib_jets = tlib\<lparr> antikt_jets :=
      (\<lambda>jetR ps. if ps = [] then [] else [TJet (sum_list (map t_pt ps)) 0 0 0 ps]) \<rparr>"

definition event_sample :: "tjet event" where
  "event_sample = \<lparr> hadrons_positive = [TJet 50 0 0 211 []], hadrons_negative = [],
                     hadrons_positive_charged = [TJet 50 0 0 211 []],
                     hadrons_negative_charged = [] \<rparr>"

section \<open>Theorems\<close>

subsection \<open>The error monad and loops\<close>

lemma forE_append: "forE (xs @ ys) f s = bindE (forE xs f s) (forE ys f)"
  by (induction xs arbitrary: s) (auto simp: bindE_def split: sum.splits)

lemma bindE_Inr [simp]: "bindE (Inr x) f = f x" by (simp add: bindE_def)

lemma bindE_Inl [simp]: "bindE (Inl e) f = Inl e" by (simp add: bindE_def)

text \<open>The definitions unfolded by the concrete evaluations.\<close>

lemmas cfg_defs = cfg_def cfg_at_def getitem_def getidx_def py_index_def num_def contains_def
  centrality_ok_def jetR_in_def abs_below_def abs_below_minus_def less_than_def greater_than_def
  in_range_def truthy_def iter_def fstr_def fmt_sample_def

lemmas fill_defs = fill_event_def fill_hadron_observables_def fill_hadron_particle_def
  fill_hadron_block_def fill_hadron_correlation_observables_def analyze_event_jetR_def
  analyze_inclusive_jet_def analyze_inclusive_jet_pt_def sum_holes_in_jet_def
  fill_full_jet_ungroomed_observables_def full_jet_pt_alice_def full_jet_pt_atlas_def
  full_jet_pt_cms_def full_jet_Dz_atlas_def full_jet_Dz_cms_def full_jet_charge_cms_def
  fill_Dz_def fill_Dz_hadron_def accept_jet_def accept_chjet_def charged_pids_def
  fill_charged_jet_ungroomed_observables_def chjet_pt_alice_def chjet_g_alice_def
  g_alice_values_def angularity_sum_def py_div_def np_divide_def append_values_def append_both_def
  append_obs_def


lemma sum_holes_fold:
  "fold (\<lambda>hadron (negative_pt, holes_in_jet).
           if delta_R L jet hadron < jetR
           then (negative_pt + pt L hadron, holes_in_jet @ [hadron])
           else (negative_pt, holes_in_jet)) hs (a, acc)
   = (a + sum_list (map (pt L) (holes_within L jet jetR hs)), acc @ holes_within L jet jetR hs)"
  by (induction hs arbitrary: a acc) (auto simp: holes_within_def algebra_simps)

lemma sum_holes_in_jet_eq:
  "sum_holes_in_jet L jet hs jetR
   = (sum_list (map (pt L) (holes_within L jet jetR hs)), holes_within L jet jetR hs)"
  by (simp add: sum_holes_in_jet_def sum_holes_fold)

lemma subtract_holes_fold:
  "fold (\<lambda>temp_hadron jet_pt.
           if delta_R L jet temp_hadron < jetR then jet_pt - pt L temp_hadron else jet_pt) hs a
   = a - sum_list (map (pt L) (holes_within L jet jetR hs))"
  by (induction hs arbitrary: a) (auto simp: holes_within_def algebra_simps)

lemma subtract_holes_eq:
  "subtract_holes L jet hs jetR = pt L jet - sum_list (map (pt L) (holes_within L jet jetR hs))"
  by (simp add: subtract_holes_def subtract_holes_fold)

lemma holes_within_outside:
  "list_all (\<lambda>h. delta_R L jet h \<ge> jetR) hs \<Longrightarrow> holes_within L jet jetR hs = []"
  by (induction hs) (auto simp: holes_within_def)

subsection \<open>Hole subtraction\<close>




text \<open>
  C2. When every hole of a non-empty list is at \<open>delta_R \<ge> jetR\<close> from the jet axis,
  the corrected momentum is the uncorrected one: in \<open>analyze_inclusive_jet\<close> (either
  mode), in the in-place subtraction of \<open>leading_jet\<close>, and in \<open>fill_jet_histograms\<close>,
  where the subtracted sum \<open>negative_pt\<close> is 0 and no hole is kept.
\<close>

theorem holes_outside_cone_leave_pt_unchanged:
  assumes "holes \<noteq> []" and "\<forall>h \<in> set holes. delta_R L jet h \<ge> jetR"
  shows "fst (analyze_inclusive_jet_pt L A jet holes jetR) = pt L jet
       \<and> subtract_holes L jet holes jetR = pt L jet
       \<and> fill_jet_histograms_pt L jet holes jetR = (pt L jet, pt L jet, 0, [])"
proof -
  from assms(2) have "list_all (\<lambda>h. delta_R L jet h \<ge> jetR) holes"
    by (simp add: list_all_iff)
  then have "holes_within L jet jetR holes = []"
    by (rule holes_within_outside)
  then show ?thesis
    by (simp add: analyze_inclusive_jet_pt_def fill_jet_histograms_pt_def sum_holes_in_jet_eq
        subtract_holes_eq Let_def)
qed

theorem holes_outside_cone_witness:
  "[TJet 5 1 0 0 []] \<noteq> []
   \<and> delta_R tlib (TJet 100 0 0 0 []) (TJet 5 1 0 0 []) \<ge> 0.4
   \<and> fst (analyze_inclusive_jet_pt tlib ana_AA (TJet 100 0 0 0 []) [TJet 5 1 0 0 []] 0.4) = 100
   \<and> subtract_holes tlib (TJet 100 0 0 0 []) [TJet 5 1 0 0 []] 0.4 = 100
   \<and> fill_jet_histograms_pt tlib (TJet 100 0 0 0 []) [TJet 5 1 0 0 []] 0.4 = (100, 100, 0, [])"
  using holes_outside_cone_leave_pt_unchanged
          [where holes = "[TJet 5 1 0 0 []]" and L = tlib and jet = "TJet 100 0 0 0 []"
             and jetR = "0.4" and A = ana_AA]
  by (simp add: tlib_def)

subsection \<open>Charge lookup\<close>

text \<open>
  C4. \<open>charge\<close> returns -1, +1 or 0 on the three listed species sets, leaves through
  \<open>sys.exit\<close> on every other identifier, and returns no other value.
\<close>

theorem charge_total_on_species:
  "(pid \<in> set [11, 13, -211, -321, -2212, -3222, 3112, 3312, 3334] \<longrightarrow> charge pid = Inr (-1))
   \<and> (pid \<in> set [-11, -13, 211, 321, 2212, 3222, -3112, -3312, -3334] \<longrightarrow> charge pid = Inr 1)
   \<and> (pid \<in> set [22, 111, 2112] \<longrightarrow> charge pid = Inr 0)
   \<and> (pid \<notin> set ([11, 13, -211, -321, -2212, -3222, 3112, 3312, 3334]
                  @ [-11, -13, 211, 321, 2212, 3222, -3112, -3312, -3334] @ [22, 111, 2112])
        \<longrightarrow> (\<exists>msg. charge pid = Inl (SystemExit msg)))
   \<and> (\<forall>q. charge pid = Inr q \<longrightarrow> q = -1 \<or> q = 1 \<or> q = 0)"
  by (auto simp: charge_def)

theorem charge_witness:
  "charge 211 = Inr 1 \<and> charge (-211) = Inr (-1) \<and> charge 111 = Inr 0
   \<and> (\<exists>msg. charge 5 = Inl (SystemExit msg))"
  using charge_total_on_species [of 211] charge_total_on_species [of "-211"]
        charge_total_on_species [of 111] charge_total_on_species [of 5]
  by simp

lemma charge_unknown_pid_message:
  "charge 5 = Inl (SystemExit ''failed to compute charge of pid 5'')"
  by (simp add: charge_def str_int_def)

subsection \<open>Command line\<close>

text \<open>
  C5. With a configuration path that names no file, \<open>__main__\<close> prints the message and
  leaves through \<open>sys.exit(0)\<close>: the exit status is 0, the status of success, where the
  claim asks for a nonzero one.
\<close>

theorem main_missing_config_exits_with_status_0:
  "main cls (\<lambda>p. False)
     \<lparr> configFile = ''missing.yaml'', inputFile = ''events.parquet'', outputDir = ''out'' \<rparr>
   = Exited [''File '' @ [CHR 0x22] @ ''missing.yaml'' @ [CHR 0x22] @ '' does not exist! Exiting!''] 0"
  by (simp add: main_def does_not_exist_def)

lemma main_missing_file:
  "\<not> path_exists (configFile a) \<or> \<not> path_exists (inputFile a) \<Longrightarrow>
   \<exists>msg. main cls path_exists a = Exited [msg] 0"
  by (auto simp: main_def)

subsection \<open>Leading jet\<close>

lemma leading_jet_fold_index:
  "snd (snd (fold (\<lambda>(i, jet) (leading_jet, leading_jet_pt, i_prev).
             let jet_pt = subtract_holes L jet hs jetR;
                 (leading_jet, leading_jet_pt) =
                   (if leading_jet = None then (Some jet, jet_pt) else (leading_jet, leading_jet_pt));
                 (leading_jet, leading_jet_pt) =
                   (if jet_pt > leading_jet_pt then (Some jet, jet_pt) else (leading_jet, leading_jet_pt))
             in (leading_jet, leading_jet_pt, i)) (enumerate n jets) acc))
   = (if jets = [] then snd (snd acc) else n + length jets - 1)"
  by (induction jets arbitrary: n acc) (auto simp: Let_def split: prod.splits)

lemma leading_jet_index:
  "snd (snd (leading_jet L jets hs jetR)) = length jets - 1"
  unfolding leading_jet_def by (subst leading_jet_fold_index) simp

text \<open>
  C9. On two candidates of momenta 100 and 50 and no holes, \<open>leading_jet\<close> returns the
  first jet, its momentum 100, and the index 1: the index of the last jet of the list, not
  the index 0 of the jet it returns.
\<close>

theorem leading_jet_index_is_last:
  "leading_jet tlib [TJet 100 0 0 1 [], TJet 50 1 3 2 []] [] 0.4
   = (Some (TJet 100 0 0 1 []), 100, 1)"
  by (simp add: leading_jet_def subtract_holes_def tlib_def)

subsection \<open>Dividing a histogram by a graph\<close>

lemma grow_in_range: "i < length ps \<Longrightarrow> grow ps i = ps"
  by (simp add: grow_def)

lemma divide_bin_ok:
  assumes "g \<noteq> g_new" "bin \<ge> 1" "bin \<le> length (h_bins (hist s h))" "bin \<le> length (g_points (graph s g))"
    "length (g_points (graph s g_new)) = length (g_points (graph s g))"
    "np_isclose (center (h_bins (hist s h) ! (bin - 1))) (gx (g_points (graph s g) ! (bin - 1)))"
    "gy (g_points (graph s g) ! (bin - 1)) \<noteq> 0"
  shows "\<exists>P. divide_tgraph_bin fmt h g g_new bin s = Inr (s\<lparr> graph := (graph s)(g_new := P) \<rparr>)
       \<and> g_name P = g_name (graph s g_new)
       \<and> length (g_points P) = length (g_points (graph s g_new))
       \<and> (\<forall>i < length (g_points P). i \<noteq> bin - 1 \<longrightarrow> g_points P ! i = g_points (graph s g_new) ! i)
       \<and> gx (g_points P ! (bin - 1)) = center (h_bins (hist s h) ! (bin - 1))
       \<and> gy (g_points P ! (bin - 1)) = content (h_bins (hist s h) ! (bin - 1)) / gy (g_points (graph s g) ! (bin - 1))"
  using assms
  by (auto simp: divide_tgraph_bin_def GetBinCenter_def GetBinContent_def GetBinError_def GetPoint_def
      GetErrorYlow_def GetErrorYhigh_def SetPoint_def SetPointError_def Let_def grow_in_range)

lemma divide_loop_ok:
  assumes gne: "g \<noteq> g_new"
    and len: "length (g_points (graph s1 g_new)) = length (g_points (graph s1 g))"
    and close: "\<forall>i<k. np_isclose (center (h_bins (hist s1 h) ! i)) (gx (g_points (graph s1 g) ! i))"
    and nz: "\<forall>i<k. gy (g_points (graph s1 g) ! i) \<noteq> 0"
    and kh: "k \<le> length (h_bins (hist s1 h))"
    and kg: "k \<le> length (g_points (graph s1 g))"
  shows "\<exists>s'. forE [1..<k + 1] (divide_tgraph_bin fmt h g g_new) s1 = Inr s' \<and> bins_done s1 h g g_new k s'"
  using close nz kh kg
proof (induction k)
  case 0
  show ?case using len by (simp add: bins_done_def)
next
  case (Suc k)
  from Suc obtain s' where run: "forE [1..<k + 1] (divide_tgraph_bin fmt h g g_new) s1 = Inr s'"
    and inv: "bins_done s1 h g g_new k s'" by auto
  have gs: "graph s' g = graph s1 g" and hs: "hist s' = hist s1"
    using inv gne by (auto simp: bins_done_def)
  have "\<exists>P. divide_tgraph_bin fmt h g g_new (Suc k) s' = Inr (s'\<lparr> graph := (graph s')(g_new := P) \<rparr>)
       \<and> g_name P = g_name (graph s' g_new)
       \<and> length (g_points P) = length (g_points (graph s' g_new))
       \<and> (\<forall>i < length (g_points P). i \<noteq> Suc k - 1 \<longrightarrow> g_points P ! i = g_points (graph s' g_new) ! i)
       \<and> gx (g_points P ! (Suc k - 1)) = center (h_bins (hist s' h) ! (Suc k - 1))
       \<and> gy (g_points P ! (Suc k - 1)) = content (h_bins (hist s' h) ! (Suc k - 1)) / gy (g_points (graph s' g) ! (Suc k - 1))"
    using Suc.prems inv gne by (intro divide_bin_ok) (auto simp: gs hs bins_done_def)
  then obtain P where step: "divide_tgraph_bin fmt h g g_new (Suc k) s' = Inr (s'\<lparr> graph := (graph s')(g_new := P) \<rparr>)"
    and nm: "g_name P = g_name (graph s' g_new)"
    and ln: "length (g_points P) = length (g_points (graph s' g_new))"
    and oth: "\<forall>i < length (g_points P). i \<noteq> k \<longrightarrow> g_points P ! i = g_points (graph s' g_new) ! i"
    and px: "gx (g_points P ! k) = center (h_bins (hist s1 h) ! k)"
    and py: "gy (g_points P ! k) = content (h_bins (hist s1 h) ! k) / gy (g_points (graph s1 g) ! k)"
    by (auto simp: gs hs)
  have "[1..<Suc k + 1] = [1..<k + 1] @ [Suc k]" by simp
  then have "forE [1..<Suc k + 1] (divide_tgraph_bin fmt h g g_new) s1
             = Inr (s'\<lparr> graph := (graph s')(g_new := P) \<rparr>)"
    using run step by (simp only: forE_append) simp
  moreover have "bins_done s1 h g g_new (Suc k) (s'\<lparr> graph := (graph s')(g_new := P) \<rparr>)"
    using inv nm ln oth px py Suc.prems
    by (auto simp: bins_done_def less_Suc_eq)
  ultimately show ?case by blast
qed

lemma divide_loop_mismatch:
  assumes gne: "g \<noteq> g_new"
    and len: "length (g_points (graph s1 g_new)) = length (g_points (graph s1 g))"
    and close: "\<forall>i<k. np_isclose (center (h_bins (hist s1 h) ! i)) (gx (g_points (graph s1 g) ! i))"
    and bad: "\<not> np_isclose (center (h_bins (hist s1 h) ! k)) (gx (g_points (graph s1 g) ! k))"
    and nz: "\<forall>i<k. gy (g_points (graph s1 g) ! i) \<noteq> 0"
    and kh: "k < n" "n = length (h_bins (hist s1 h))"
    and kg: "k < length (g_points (graph s1 g))"
  shows "forE [1..<n + 1] (divide_tgraph_bin fmt h g g_new) s1
         = Inl (SystemExit (''ERROR: hist x: '' @ fmt (center (h_bins (hist s1 h) ! k))
                            @ '', graph x: '' @ fmt (gx (g_points (graph s1 g) ! k))))"
proof -
  obtain s' where run: "forE [1..<k + 1] (divide_tgraph_bin fmt h g g_new) s1 = Inr s'"
    and inv: "bins_done s1 h g g_new k s'"
    using divide_loop_ok [OF gne len close nz] kh kg by auto
  have gs: "graph s' g = graph s1 g" and hs: "hist s' = hist s1"
    using inv gne by (auto simp: bins_done_def)
  have step: "divide_tgraph_bin fmt h g g_new (Suc k) s'
       = Inl (SystemExit (''ERROR: hist x: '' @ fmt (center (h_bins (hist s1 h) ! k))
                            @ '', graph x: '' @ fmt (gx (g_points (graph s1 g) ! k))))"
    using bad kg by (simp add: divide_tgraph_bin_def GetBinCenter_def GetPoint_def gs hs Let_def)
  have "[1..<n + 1] = [1..<k + 1] @ Suc k # [Suc (Suc k)..<n + 1]"
  proof -
    have "[1..<n + 1] = [1..<(k + 1) + (n - k)]" using kh(1) by simp
    also have "\<dots> = [1..<k + 1] @ [k + 1..<(k + 1) + (n - k)]"
      by (rule upt_add_eq_append) simp
    also have "[k + 1..<(k + 1) + (n - k)] = Suc k # [Suc (Suc k)..<n + 1]"
      using kh(1) by (simp add: upt_conv_Cons)
    finally show ?thesis .
  qed
  then show ?thesis using run step by (simp only: forE_append) simp
qed

lemma divide_loop_fails:
  assumes gne: "g \<noteq> g_new"
    and len: "length (g_points (graph s1 g_new)) = length (g_points (graph s1 g))"
    and bad: "\<not> (np_isclose (center (h_bins (hist s1 h) ! j)) (gx (g_points (graph s1 g) ! j)))"
    and jn: "j < n" and n: "n = length (h_bins (hist s1 h))"
    and ng: "n \<le> length (g_points (graph s1 g))"
  shows "\<exists>e. forE [1..<n + 1] (divide_tgraph_bin fmt h g g_new) s1 = Inl e"
proof -
  define B where "B i \<longleftrightarrow> \<not> np_isclose (center (h_bins (hist s1 h) ! i)) (gx (g_points (graph s1 g) ! i))
                       \<or> gy (g_points (graph s1 g) ! i) = 0" for i
  define k where "k = (LEAST i. B i)"
  have Bj: "B j" using bad by (simp add: B_def)
  then have Bk: "B k" and kj: "k \<le> j" unfolding k_def by (rule LeastI, rule Least_le)
  have before: "\<forall>i<k. \<not> B i" unfolding k_def using not_less_Least by blast
  have kn: "k < n" using kj jn by simp
  have close: "\<forall>i<k. np_isclose (center (h_bins (hist s1 h) ! i)) (gx (g_points (graph s1 g) ! i))"
    and nz: "\<forall>i<k. gy (g_points (graph s1 g) ! i) \<noteq> 0"
    using before by (auto simp: B_def)
  have kg: "k < length (g_points (graph s1 g))" using kn ng by simp
  obtain s' where run: "forE [1..<k + 1] (divide_tgraph_bin fmt h g g_new) s1 = Inr s'"
    and inv: "bins_done s1 h g g_new k s'"
    using divide_loop_ok [OF gne len close nz] kn n kg by auto
  have gs: "graph s' g = graph s1 g" and hs: "hist s' = hist s1"
    using inv gne by (auto simp: bins_done_def)
  have step: "\<exists>e. divide_tgraph_bin fmt h g g_new (Suc k) s' = Inl e"
    using Bk kg by (auto simp: B_def divide_tgraph_bin_def GetBinCenter_def GetPoint_def gs hs Let_def)
  have "[1..<n + 1] = [1..<k + 1] @ Suc k # [Suc (Suc k)..<n + 1]"
  proof -
    have "[1..<n + 1] = [1..<(k + 1) + (n - k)]" using kn by simp
    also have "\<dots> = [1..<k + 1] @ [k + 1..<(k + 1) + (n - k)]"
      by (rule upt_add_eq_append) simp
    also have "[k + 1..<(k + 1) + (n - k)] = Suc k # [Suc (Suc k)..<n + 1]"
      using kn by (simp add: upt_conv_Cons)
    finally show ?thesis .
  qed
  then show ?thesis using run step by (simp only: forE_append) auto
qed

lemma Clone_fresh:
  "Clone s g nm = (next_graph s, s\<lparr> graph := (graph s)(next_graph s := (graph s g)\<lparr> g_name := nm \<rparr>),
                                     next_graph := Suc (next_graph s) \<rparr>)"
  by (simp add: Clone_def)

text \<open>
  C10. For a histogram of n bins and an allocated graph with at least n points:
  when every bin centre is close to the graph's x and every y is nonzero,
  \<open>divide_tgraph\<close> returns a new graph (at the address no object had), named after the
  old one, with as many points, whose i-th point is at the bin centre with content
  h's i-th bin content divided by g's i-th y, and leaves the histogram and every
  other graph, g among them, as they were. When some bin centre is not close to the
  graph's x the function does not return, and when moreover every y is nonzero it leaves
  through \<open>sys.exit\<close> with the error message.
\<close>

theorem divide_tgraph_divides_pointwise:
  assumes alloc: "g < next_graph s"
    and n: "n = length (h_bins (hist s h))"
    and ng: "n \<le> length (g_points (graph s g))"
  shows "((\<forall>i<n. np_isclose (center (h_bins (hist s h) ! i)) (gx (g_points (graph s g) ! i))
                \<and> gy (g_points (graph s g) ! i) \<noteq> 0) \<longrightarrow>
          (\<exists>s'. divide_tgraph fmt h g s = Inr (next_graph s, s')
               \<and> hist s' = hist s
               \<and> (\<forall>a. a \<noteq> next_graph s \<longrightarrow> graph s' a = graph s a)
               \<and> g_name (graph s' (next_graph s)) = g_name (graph s g) @ ''_divided''
               \<and> length (g_points (graph s' (next_graph s))) = length (g_points (graph s g))
               \<and> (\<forall>i<n. gx (g_points (graph s' (next_graph s)) ! i) = center (h_bins (hist s h) ! i)
                       \<and> gy (g_points (graph s' (next_graph s)) ! i)
                           = content (h_bins (hist s h) ! i) / gy (g_points (graph s g) ! i))))
       \<and> ((\<exists>j<n. \<not> np_isclose (center (h_bins (hist s h) ! j)) (gx (g_points (graph s g) ! j))) \<longrightarrow>
           (\<exists>e. divide_tgraph fmt h g s = Inl e)
           \<and> ((\<forall>i<n. gy (g_points (graph s g) ! i) \<noteq> 0) \<longrightarrow>
                (\<exists>msg. divide_tgraph fmt h g s = Inl (SystemExit msg))))"
proof -
  define g_new where "g_new = next_graph s"
  define s1 where "s1 = s\<lparr> graph := (graph s)(g_new := (graph s g)\<lparr> g_name := g_name (graph s g) @ ''_divided'' \<rparr>),
                           next_graph := Suc g_new \<rparr>"
  have gne: "g \<noteq> g_new" using alloc by (simp add: g_new_def)
  have h1: "hist s1 = hist s" and g1: "graph s1 g = graph s g"
    and gn1: "g_points (graph s1 g_new) = g_points (graph s g)"
    and nm1: "g_name (graph s1 g_new) = g_name (graph s g) @ ''_divided''"
    and oth1: "\<And>a. a \<noteq> g_new \<Longrightarrow> graph s1 a = graph s a"
    using gne by (simp_all add: s1_def)
  have len: "length (g_points (graph s1 g_new)) = length (g_points (graph s1 g))"
    by (simp add: gn1 g1)
  have unfold: "divide_tgraph fmt h g s
      = bindE (forE [1..<n + 1] (divide_tgraph_bin fmt h g g_new) s1) (\<lambda>s2. Inr (g_new, s2))"
    by (simp add: divide_tgraph_def Clone_fresh GetNbinsX_def n g_new_def s1_def Let_def)
  have ok: ?thesis if A: "\<forall>i<n. np_isclose (center (h_bins (hist s h) ! i)) (gx (g_points (graph s g) ! i))
                \<and> gy (g_points (graph s g) ! i) \<noteq> 0"
  proof -
    obtain s' where run: "forE [1..<n + 1] (divide_tgraph_bin fmt h g g_new) s1 = Inr s'"
      and inv: "bins_done s1 h g g_new n s'"
      using divide_loop_ok [OF gne len, of n h fmt] A n ng by (auto simp: h1 g1)
    have "divide_tgraph fmt h g s = Inr (g_new, s')"
      by (simp only: unfold run bindE_Inr)
    then have "divide_tgraph fmt h g s = Inr (next_graph s, s')"
      by (simp only: g_new_def)
    moreover have "hist s' = hist s" using inv by (simp add: bins_done_def h1)
    moreover have "\<forall>a. a \<noteq> next_graph s \<longrightarrow> graph s' a = graph s a"
      using inv oth1 by (simp add: bins_done_def g_new_def)
    moreover have "g_name (graph s' (next_graph s)) = g_name (graph s g) @ ''_divided''"
      using inv nm1 by (simp add: bins_done_def g_new_def)
    moreover have "length (g_points (graph s' (next_graph s))) = length (g_points (graph s g))"
      using inv by (simp add: bins_done_def g_new_def g1)
    moreover have "\<forall>i<n. gx (g_points (graph s' (next_graph s)) ! i) = center (h_bins (hist s h) ! i)
                       \<and> gy (g_points (graph s' (next_graph s)) ! i)
                           = content (h_bins (hist s h) ! i) / gy (g_points (graph s g) ! i)"
      using inv by (simp add: bins_done_def g_new_def g1 h1)
    ultimately show ?thesis using A by blast
  qed
  have bad: ?thesis if B: "\<exists>j<n. \<not> np_isclose (center (h_bins (hist s h) ! j)) (gx (g_points (graph s g) ! j))"
  proof -
    from B obtain j where jn: "j < n"
      and nc: "\<not> np_isclose (center (h_bins (hist s1 h) ! j)) (gx (g_points (graph s1 g) ! j))"
      by (auto simp: h1 g1)
    have "\<exists>e. forE [1..<n + 1] (divide_tgraph_bin fmt h g g_new) s1 = Inl e"
      by (rule divide_loop_fails [OF gne len nc jn]) (simp_all add: h1 g1 n ng [unfolded n])
    then obtain e where "forE [1..<n + 1] (divide_tgraph_bin fmt h g g_new) s1 = Inl e" ..
    then have "divide_tgraph fmt h g s = Inl e"
      by (simp only: unfold bindE_Inl)
    then have fails: "\<exists>e. divide_tgraph fmt h g s = Inl e" ..
    have exits: "\<exists>msg. divide_tgraph fmt h g s = Inl (SystemExit msg)"
      if nz: "\<forall>i<n. gy (g_points (graph s g) ! i) \<noteq> 0"
    proof -
      define k where "k = (LEAST i. \<not> np_isclose (center (h_bins (hist s1 h) ! i)) (gx (g_points (graph s1 g) ! i)))"
      have bk: "\<not> np_isclose (center (h_bins (hist s1 h) ! k)) (gx (g_points (graph s1 g) ! k))"
        and kj: "k \<le> j" unfolding k_def using nc by (rule LeastI, rule Least_le)
      have close: "\<forall>i<k. np_isclose (center (h_bins (hist s1 h) ! i)) (gx (g_points (graph s1 g) ! i))"
        unfolding k_def using not_less_Least by blast
      have kn: "k < n" using kj jn by simp
      have "forE [1..<n + 1] (divide_tgraph_bin fmt h g g_new) s1
         = Inl (SystemExit (''ERROR: hist x: '' @ fmt (center (h_bins (hist s1 h) ! k))
                            @ '', graph x: '' @ fmt (gx (g_points (graph s1 g) ! k))))"
        using nz kn ng by (intro divide_loop_mismatch [OF gne len close bk]) (auto simp: g1 h1 n)
      then have "divide_tgraph fmt h g s
         = Inl (SystemExit (''ERROR: hist x: '' @ fmt (center (h_bins (hist s1 h) ! k))
                            @ '', graph x: '' @ fmt (gx (g_points (graph s1 g) ! k))))"
        by (simp only: unfold bindE_Inl)
      then show ?thesis ..
    qed
    from B fails exits show ?thesis by blast
  qed
  show ?thesis using ok bad by blast
qed

theorem divide_tgraph_witness:
  "(\<exists>s'. divide_tgraph (\<lambda>r. ''?'') 0 0 store_ok = Inr (1, s')
         \<and> hist s' = hist store_ok \<and> graph s' 0 = graph store_ok 0
         \<and> gy (g_points (graph s' 1) ! 0) = 2 \<and> gy (g_points (graph s' 1) ! 1) = 3)
   \<and> (\<exists>msg. divide_tgraph (\<lambda>r. ''?'') 0 0 store_bad = Inl (SystemExit msg))"
proof -
  have a1: "0 < next_graph store_ok" and a2: "2 = length (h_bins (hist store_ok 0))"
    and a3: "2 \<le> length (g_points (graph store_ok 0))"
    by (simp_all add: store_ok_def)
  have a4: "\<forall>i<2. np_isclose (center (h_bins (hist store_ok 0) ! i)) (gx (g_points (graph store_ok 0) ! i))
                \<and> gy (g_points (graph store_ok 0) ! i) \<noteq> 0"
    by (auto simp: store_ok_def np_isclose_def less_Suc_eq numeral_2_eq_2)
  have b1: "0 < next_graph store_bad" and b2: "2 = length (h_bins (hist store_bad 0))"
    and b3: "2 \<le> length (g_points (graph store_bad 0))"
    by (simp_all add: store_bad_def)
  have b4: "\<exists>j<2. \<not> np_isclose (center (h_bins (hist store_bad 0) ! j)) (gx (g_points (graph store_bad 0) ! j))"
    by (rule exI [of _ 1]) (simp add: store_bad_def np_isclose_def)
  have b5: "\<forall>i<2. gy (g_points (graph store_bad 0) ! i) \<noteq> 0"
    by (auto simp: store_bad_def less_Suc_eq numeral_2_eq_2)
  from divide_tgraph_divides_pointwise [OF a1 a2 a3, of "\<lambda>r. ''?''"] a4
  obtain s' where r: "divide_tgraph (\<lambda>r. ''?'') 0 0 store_ok = Inr (next_graph store_ok, s')"
    and h: "hist s' = hist store_ok"
    and g: "\<forall>a. a \<noteq> next_graph store_ok \<longrightarrow> graph s' a = graph store_ok a"
    and v: "\<forall>i<2. gx (g_points (graph s' (next_graph store_ok)) ! i) = center (h_bins (hist store_ok 0) ! i)
                \<and> gy (g_points (graph s' (next_graph store_ok)) ! i)
                    = content (h_bins (hist store_ok 0) ! i) / gy (g_points (graph store_ok 0) ! i)"
    by blast
  have n1: "next_graph store_ok = 1" by (simp add: store_ok_def)
  have "gy (g_points (graph s' 1) ! 0) = 2" "gy (g_points (graph s' 1) ! 1) = 3"
    using v [rule_format, of 0] v [rule_format, of 1] by (simp_all add: n1) (simp_all add: store_ok_def)
  moreover have "graph s' 0 = graph store_ok 0" using g n1 by simp
  ultimately have ok: "\<exists>s'. divide_tgraph (\<lambda>r. ''?'') 0 0 store_ok = Inr (1, s')
         \<and> hist s' = hist store_ok \<and> graph s' 0 = graph store_ok 0
         \<and> gy (g_points (graph s' 1) ! 0) = 2 \<and> gy (g_points (graph s' 1) ! 1) = 3"
    using r h n1 by auto
  from divide_tgraph_divides_pointwise [OF b1 b2 b3, of "\<lambda>r. ''?''"] b4 b5
  have "\<exists>msg. divide_tgraph (\<lambda>r. ''?'') 0 0 store_bad = Inl (SystemExit msg)" by blast
  with ok show ?thesis by blast
qed

subsection \<open>Initialising the output lists\<close>
























subsection \<open>The keys that the initialisation binds\<close>





subsubsection \<open>Hadrons\<close>



subsubsection \<open>Inclusive full jets\<close>





subsubsection \<open>Inclusive charged jets\<close>




subsubsection \<open>Semi-inclusive charged jets and dijets\<close>





subsubsection \<open>The stages of the initialisation\<close>




lemmas init_defs = initialize_output_lists_def init_hadron_def init_hadron_correlations_def
  init_inclusive_jet_def init_inclusive_jet_R_def init_inclusive_chjet_def init_inclusive_chjet_R_def
  init_semi_inclusive_chjet_def init_semi_inclusive_chjet_R_def init_dijet_def
  iter_def items_def getitem_def contains_def truthy_def fstr_def fmt_sample_def




subsection \<open>Failed selections\<close>

lemma py_if_Inr [simp]: "py_if (Inr b) body d = (if b then body d else Inr d)"
  by (simp add: py_if_def)
lemma py_if_Inl [simp]: "py_if (Inl e) body d = Inl e" by (simp add: py_if_def)

lemma only_writes_mono: "only_writes S f \<Longrightarrow> S \<subseteq> T \<Longrightarrow> only_writes T f"
  unfolding only_writes_def by blast

lemma only_writes_Inr: "only_writes S Inr"
  by (simp add: only_writes_def)

lemma only_writes_const: "only_writes S (\<lambda>d. Inr d)"
  by (simp add: only_writes_def)

lemma only_writes_append: "k \<in> S \<Longrightarrow> only_writes S (append_obs k v)"
  by (auto simp: only_writes_def append_obs_def split: option.splits)

lemma only_writes_seq:
  "only_writes S f \<Longrightarrow> only_writes S g \<Longrightarrow> only_writes S (\<lambda>d. bindE (f d) g)"
  unfolding only_writes_def bindE_def by (auto split: sum.splits) metis

lemma only_writes_read:
  "(\<And>x. only_writes S (F x)) \<Longrightarrow> only_writes S (\<lambda>d. bindE c (\<lambda>x. F x d))"
  by (cases c) (auto simp: only_writes_def)

lemma only_writes_if:
  "only_writes S f \<Longrightarrow> only_writes S g \<Longrightarrow> only_writes S (\<lambda>d. if b then f d else g d)"
  by (cases b) (simp_all add: starts_with_def)

lemma only_writes_py_if: "only_writes S body \<Longrightarrow> only_writes S (py_if c body)"
  by (cases c) (auto simp: only_writes_def py_if_def)

lemma only_writes_forE: "(\<And>x. only_writes S (F x)) \<Longrightarrow> only_writes S (forE xs F)"
proof (induction xs)
  case Nil
  have "forE [] F = Inr" by (rule ext) simp
  then show ?case by (simp add: only_writes_Inr)
next
  case (Cons x xs)
  have "forE (x # xs) F = (\<lambda>d. bindE (F x d) (forE xs F))" by (rule ext) simp
  then show ?case using Cons by (simp add: only_writes_seq)
qed

lemma only_writes_let: "(\<And>x. only_writes S (F x)) \<Longrightarrow> only_writes S (\<lambda>d. let x = v in F x d)"
  by simp

lemma only_writes_prod:
  "(\<And>a b. only_writes S (F a b)) \<Longrightarrow> only_writes S (\<lambda>d. case p of (a, b) \<Rightarrow> F a b d)"
  by (cases p) simp

lemma only_writes_append_both:
  "k \<in> S \<Longrightarrow> k @ ''_unsubtracted'' \<in> S \<Longrightarrow> only_writes S (append_both A k v u)"
  unfolding append_both_def
  by (intro only_writes_seq only_writes_if only_writes_append only_writes_const)

lemma only_writes_append_values:
  "k \<in> S \<Longrightarrow> ku \<in> S \<Longrightarrow> only_writes S (append_values k ku vs)"
  unfolding append_values_def
  by (intro only_writes_seq only_writes_forE only_writes_append)

lemmas only_writes_intros = only_writes_read only_writes_py_if only_writes_forE only_writes_if
  only_writes_seq only_writes_const only_writes_Inr

lemma fill_hadron_block_writes:
  "only_writes {''hadron_'' @ ob @ suffix} (fill_hadron_block L A ob open_upper pids suffix particle)"
  unfolding fill_hadron_block_def
  by (intro only_writes_intros only_writes_append) simp

lemma full_jet_pt_atlas_writes:
  "only_writes {k. starts_with ''inclusive_jet_pt_atlas_R'' k} (full_jet_pt_atlas L A jet jet_pt jet_pt_uncorrected jetR)"
  unfolding full_jet_pt_atlas_def
  by (intro only_writes_intros only_writes_append_both) (simp_all add: starts_with_def)

lemma full_jet_pt_cms_writes:
  "only_writes {k. starts_with ''inclusive_jet_pt_cms_R'' k} (full_jet_pt_cms L A jet jet_pt jet_pt_uncorrected jetR)"
  unfolding full_jet_pt_cms_def
  by (intro only_writes_intros only_writes_append_both) (simp_all add: starts_with_def)

lemma fill_Dz_writes:
  "only_writes {k. starts_with (''inclusive_jet_Dz_'' @ ex @ ''_R'') k
                  \<or> starts_with (''inclusive_jet_Dpt_'' @ ex @ ''_R'') k}
     (fill_Dz L A ex jet pos holes jet_pt jetR)"
  unfolding fill_Dz_def fill_Dz_hadron_def Let_def
  by (intro only_writes_intros only_writes_append) (simp_all add: starts_with_def)

lemma full_jet_Dz_atlas_writes:
  "only_writes {k. starts_with ''inclusive_jet_Dz_atlas_R'' k \<or> starts_with ''inclusive_jet_Dpt_atlas_R'' k}
     (full_jet_Dz_atlas L A jet pos holes jet_pt jetR)"
  unfolding full_jet_Dz_atlas_def
  by (intro only_writes_intros only_writes_mono [OF fill_Dz_writes]) auto

lemma full_jet_Dz_cms_writes:
  "only_writes {k. starts_with ''inclusive_jet_Dz_cms_R'' k \<or> starts_with ''inclusive_jet_Dpt_cms_R'' k}
     (full_jet_Dz_cms L A jet pos holes jet_pt jetR)"
  unfolding full_jet_Dz_cms_def
  by (intro only_writes_intros only_writes_mono [OF fill_Dz_writes]) auto

lemma full_jet_charge_cms_writes:
  "only_writes {k. starts_with ''inclusive_jet_charge_cms_R'' k} (full_jet_charge_cms L A jet pos holes jet_pt jetR)"
  unfolding full_jet_charge_cms_def
  by (intro only_writes_intros only_writes_append_values) (simp_all add: starts_with_def)


lemma between_num [simp]: "between x (YNum lo) (YNum hi) = Inr (lo < x \<and> x < hi)"
  by (simp add: between_def greater_than_def less_than_def num_def)

lemma fill_hadron_block_eq:
  assumes "cfg (hadron_observables A) ob ''centrality'' = Inr c"
    and "cfg_at (hadron_observables A) ob ''pt'' 0 = Inr (YNum pt_min)"
    and "if open_upper then pt_max = 100 else cfg_at (hadron_observables A) ob ''pt'' 1 = Inr (YNum pt_max)"
    and "cfg (hadron_observables A) ob ''eta_cut'' = Inr (YNum eta_cut)"
  shows "fill_hadron_block L A ob open_upper pids suffix particle d =
     (if centrality_accepted A c \<and> pt_min < pt L particle \<and> pt L particle < pt_max
         \<and> \<bar>eta L particle\<bar> < eta_cut \<and> \<bar>user_index L particle\<bar> \<in> set pids
      then append_obs (''hadron_'' @ ob @ suffix) (Scalar (pt L particle)) d
      else Inr d)"
  using assms
  by (cases open_upper)
     (simp_all add: fill_hadron_block_def centrality_ok_def abs_below_def less_than_def num_def)

lemma full_jet_pt_alice_eq:
  assumes "cfg (inclusive_jet_observables A) ''pt_alice'' ''centrality'' = Inr c"
    and "cfg_at (inclusive_jet_observables A) ''pt_alice'' ''pt'' 0 = Inr (YNum pt_min)"
    and "cfg_at (inclusive_jet_observables A) ''pt_alice'' ''pt'' 1 = Inr (YNum pt_max)"
    and "cfg (inclusive_jet_observables A) ''pt_alice'' ''jet_R'' = Inr (YSeq radii)"
    and "cfg (inclusive_jet_observables A) ''pt_alice'' ''eta_cut_R'' = Inr (YNum eta_cut_R)"
  shows "full_jet_pt_alice L A jet jet_pt jet_pt_uncorrected jetR d =
     (if centrality_accepted A c \<and> list_ex (py_eq (YNum jetR)) radii
         \<and> \<bar>eta L jet\<bar> < eta_cut_R - jetR \<and> pt_min < jet_pt \<and> jet_pt < pt_max
         \<and> accept_jet L jet (if jetR = 0.2 then 5 else 7)
      then append_both A (''inclusive_jet_pt_alice_R'' @ fstr A (YNum jetR))
             (Scalar jet_pt) (Scalar jet_pt_uncorrected) d
      else Inr d)"
  using assms
  by (simp add: full_jet_pt_alice_def centrality_ok_def jetR_in_def contains_def
      abs_below_minus_def num_def)

lemma full_jet_pt_atlas_eq:
  assumes "cfg (inclusive_jet_observables A) ''pt_atlas'' ''centrality'' = Inr c"
    and "cfg_at (inclusive_jet_observables A) ''pt_atlas'' ''pt'' 0 = Inr (YNum pt_min)"
    and "cfg_at (inclusive_jet_observables A) ''pt_atlas'' ''pt'' 1 = Inr (YNum pt_max)"
    and "cfg (inclusive_jet_observables A) ''pt_atlas'' ''jet_R'' = Inr (YSeq radii)"
    and "cfg (inclusive_jet_observables A) ''pt_atlas'' ''y_cut'' = Inr (YNum y_cut)"
  shows "full_jet_pt_atlas L A jet jet_pt jet_pt_uncorrected jetR d =
     (if centrality_accepted A c \<and> list_ex (py_eq (YNum jetR)) radii
         \<and> \<bar>rap L jet\<bar> < y_cut \<and> pt_min < jet_pt \<and> jet_pt < pt_max
      then append_both A (''inclusive_jet_pt_atlas_R'' @ fstr A (YNum jetR))
             (Scalar jet_pt) (Scalar jet_pt_uncorrected) d
      else Inr d)"
  using assms
  by (simp add: full_jet_pt_atlas_def centrality_ok_def jetR_in_def contains_def
      abs_below_def less_than_def num_def)


lemma only_writes_skip: "(\<And>d. f d = Inr d) \<Longrightarrow> only_writes S f"
  by (simp add: only_writes_def)

lemma starts_with_both:
  assumes "starts_with p k" "starts_with q k"
  shows "take (length q) p = take (length p) q"
proof -
  have "take (length q) p = take (length q) (take (length p) k)"
    using assms(1) by (simp add: starts_with_def)
  also have "\<dots> = take (length p) (take (length q) k)"
    by (simp add: min.commute)
  also have "\<dots> = take (length p) q"
    using assms(2) by (simp add: starts_with_def)
  finally show ?thesis .
qed

lemma starts_with_append [simp]: "starts_with p (p @ r)"
  by (simp add: starts_with_def)

lemma fill_hadron_particle_frame:
  assumes run: "fill_hadron_particle L A suffix particle d = Inr d'"
    and skip: "\<And>d. fill_hadron_block L A ob open_upper pids suffix particle d = Inr d"
    and tab: "(ob, open_upper, pids) \<in> set [(''pt_ch_alice'', False, charged_pids),
         (''pt_pi_alice'', False, [211]), (''pt_pi0_alice'', False, [111]),
         (''pt_ch_atlas'', False, charged_pids), (''pt_ch_cms'', False, charged_pids),
         (''pt_pi0_phenix'', True, [111]), (''pt_ch_star'', True, [211, 321, 2212])]"
  shows "d' (''hadron_'' @ ob @ suffix) = d (''hadron_'' @ ob @ suffix)"
proof -
  have each: "only_writes (- {''hadron_'' @ ob @ suffix})
                  (fill_hadron_block L A ob' open_upper' pids' suffix particle)"
    if "ob' \<noteq> ob \<or> (open_upper' = open_upper \<and> pids' = pids)" for ob' open_upper' pids'
  proof (cases "ob' = ob")
    case True
    with that skip show ?thesis by (intro only_writes_skip) simp
  next
    case False
    then show ?thesis by (intro only_writes_mono [OF fill_hadron_block_writes]) simp
  qed
  have "only_writes (- {''hadron_'' @ ob @ suffix}) (fill_hadron_particle L A suffix particle)"
    unfolding fill_hadron_particle_def
    using tab by (intro only_writes_intros each) auto
  with run show ?thesis by (simp add: only_writes_def)
qed

lemma full_jet_pt_alice_writes:
  "only_writes {k. starts_with ''inclusive_jet_pt_alice_R'' k} (full_jet_pt_alice L A jet jet_pt jet_pt_uncorrected jetR)"
  unfolding full_jet_pt_alice_def
  by (intro only_writes_intros only_writes_append_both) (simp_all add: starts_with_def)

lemma full_jet_pt_cms_eq:
  assumes "cfg (inclusive_jet_observables A) ''pt_cms'' ''centrality'' = Inr c"
    and "cfg_at (inclusive_jet_observables A) ''pt_cms'' ''pt'' 0 = Inr (YNum pt_min)"
    and "cfg_at (inclusive_jet_observables A) ''pt_cms'' ''pt'' 1 = Inr (YNum pt_max)"
    and "cfg (inclusive_jet_observables A) ''pt_cms'' ''jet_R'' = Inr (YSeq radii)"
    and "cfg (inclusive_jet_observables A) ''pt_cms'' ''eta_cut'' = Inr (YNum eta_cut)"
  shows "full_jet_pt_cms L A jet jet_pt jet_pt_uncorrected jetR d =
     (if centrality_accepted A c \<and> list_ex (py_eq (YNum jetR)) radii
         \<and> \<bar>eta L jet\<bar> < eta_cut \<and> pt_min < jet_pt \<and> jet_pt < pt_max
      then append_both A (''inclusive_jet_pt_cms_R'' @ fstr A (YNum jetR))
             (Scalar jet_pt) (Scalar jet_pt_uncorrected) d
      else Inr d)"
  using assms
  by (simp add: full_jet_pt_cms_def centrality_ok_def jetR_in_def contains_def
      abs_below_def less_than_def num_def)


lemma chjet_pt_alice_writes:
  "only_writes {k. starts_with ''inclusive_chjet_pt_alice_R'' k}
     (chjet_pt_alice L A jet jet_pt jet_pt_uncorrected jetR)"
  unfolding chjet_pt_alice_def
  by (intro only_writes_intros only_writes_append_both) (simp_all add: starts_with_def)

lemma chjet_g_alice_writes:
  "only_writes {k. starts_with ''inclusive_chjet_g_alice_R'' k}
     (chjet_g_alice L A jet holes_in_jet jet_pt jetR)"
  unfolding chjet_g_alice_def
  by (intro only_writes_intros only_writes_append_values) (simp_all add: starts_with_def)

lemma chjet_ptd_alice_writes:
  "only_writes {k. starts_with ''inclusive_chjet_ptd_alice_R'' k}
     (chjet_ptd_alice L A jet holes_in_jet jet_pt jetR)"
  unfolding chjet_ptd_alice_def
  by (intro only_writes_intros only_writes_append_values) (simp_all add: starts_with_def)

lemma chjet_mass_alice_writes:
  "only_writes {k. starts_with ''inclusive_chjet_mass_alice_R'' k}
     (chjet_mass_alice L A jet holes_in_jet jet_pt jetR)"
  unfolding chjet_mass_alice_def
  by (intro only_writes_intros only_writes_append_values) (simp_all add: starts_with_def)

lemma chjet_pt_star_writes:
  "only_writes {k. starts_with ''inclusive_chjet_pt_star_R'' k}
     (chjet_pt_star L A jet jet_pt jet_pt_uncorrected jetR)"
  unfolding chjet_pt_star_def
  by (intro only_writes_intros only_writes_append_both) (simp_all add: starts_with_def)

text \<open>The leading-track loop of the charged jets reads its threshold in every round.\<close>

lemma accept_chjet_eq:
  assumes "cfg (inclusive_chjet_observables A) ''pt_alice'' ''leading_track_min_pt'' = Inr (YNum track_min)"
  shows "accept_chjet L A jet = Inr (accept_jet L jet track_min)"
proof -
  have "forE cs (\<lambda>constituent accept.
         bindE (cfg (inclusive_chjet_observables A) ''pt_alice'' ''leading_track_min_pt'') (\<lambda>min_pt.
         bindE (greater_than (pt L constituent) min_pt) (\<lambda>above.
           Inr (if above \<and> \<bar>user_index L constituent\<bar> \<in> set charged_pids then True else accept))))
       acc
     = Inr (fold (\<lambda>constituent accept.
             if pt L constituent > track_min \<and> \<bar>user_index L constituent\<bar> \<in> set charged_pids
             then True else accept) cs acc)" for cs acc
    by (induction cs arbitrary: acc) (simp_all add: assms greater_than_def num_def)
  then show ?thesis by (simp add: accept_chjet_def accept_jet_def)
qed

text \<open>
  A block that returns the container as it is, or that cannot write the key, leaves the
  key alone; so does a loop body made of such blocks.
\<close>

lemma skip_or_outside:
  assumes "only_writes W f" and "(\<forall>d. f d = Inr d) \<or> k \<notin> W"
  shows "only_writes (- {k}) f"
  using assms by (auto simp: only_writes_def)

lemma fill_full_jet_ungroomed_frame:
  assumes run: "fill_full_jet_ungroomed_observables L A jet pos holes jet_pt jet_pt_uncorrected jetR d
                = Inr d'"
    and "(\<forall>d. full_jet_pt_alice L A jet jet_pt jet_pt_uncorrected jetR d = Inr d)
         \<or> \<not> starts_with ''inclusive_jet_pt_alice_R'' k"
    and "(\<forall>d. full_jet_pt_atlas L A jet jet_pt jet_pt_uncorrected jetR d = Inr d)
         \<or> \<not> starts_with ''inclusive_jet_pt_atlas_R'' k"
    and "(\<forall>d. full_jet_pt_cms L A jet jet_pt jet_pt_uncorrected jetR d = Inr d)
         \<or> \<not> starts_with ''inclusive_jet_pt_cms_R'' k"
    and "(\<forall>d. full_jet_Dz_atlas L A jet pos holes jet_pt jetR d = Inr d)
         \<or> \<not> (starts_with ''inclusive_jet_Dz_atlas_R'' k \<or> starts_with ''inclusive_jet_Dpt_atlas_R'' k)"
    and "(\<forall>d. full_jet_Dz_cms L A jet pos holes jet_pt jetR d = Inr d)
         \<or> \<not> (starts_with ''inclusive_jet_Dz_cms_R'' k \<or> starts_with ''inclusive_jet_Dpt_cms_R'' k)"
    and "(\<forall>d. full_jet_charge_cms L A jet pos holes jet_pt jetR d = Inr d)
         \<or> \<not> starts_with ''inclusive_jet_charge_cms_R'' k"
  shows "d' k = d k"
proof -
  have "only_writes (- {k})
          (fill_full_jet_ungroomed_observables L A jet pos holes jet_pt jet_pt_uncorrected jetR)"
    unfolding fill_full_jet_ungroomed_observables_def
    using assms(2-)
    by (intro only_writes_intros
          skip_or_outside [OF full_jet_pt_alice_writes] skip_or_outside [OF full_jet_pt_atlas_writes]
          skip_or_outside [OF full_jet_pt_cms_writes] skip_or_outside [OF full_jet_Dz_atlas_writes]
          skip_or_outside [OF full_jet_Dz_cms_writes] skip_or_outside [OF full_jet_charge_cms_writes])
       simp_all
  with run show ?thesis by (simp add: only_writes_def)
qed

lemma fill_charged_jet_ungroomed_frame:
  assumes run: "fill_charged_jet_ungroomed_observables L A jet holes jet_pt jet_pt_uncorrected jetR d
                = Inr d'"
    and "(\<forall>d. chjet_pt_alice L A jet jet_pt jet_pt_uncorrected jetR d = Inr d)
         \<or> \<not> starts_with ''inclusive_chjet_pt_alice_R'' k"
    and "(\<forall>d. chjet_g_alice L A jet holes jet_pt jetR d = Inr d)
         \<or> \<not> starts_with ''inclusive_chjet_g_alice_R'' k"
    and "(\<forall>d. chjet_ptd_alice L A jet holes jet_pt jetR d = Inr d)
         \<or> \<not> starts_with ''inclusive_chjet_ptd_alice_R'' k"
    and "(\<forall>d. chjet_mass_alice L A jet holes jet_pt jetR d = Inr d)
         \<or> \<not> starts_with ''inclusive_chjet_mass_alice_R'' k"
    and "(\<forall>d. chjet_pt_star L A jet jet_pt jet_pt_uncorrected jetR d = Inr d)
         \<or> \<not> starts_with ''inclusive_chjet_pt_star_R'' k"
  shows "d' k = d k"
proof -
  have "only_writes (- {k})
          (fill_charged_jet_ungroomed_observables L A jet holes jet_pt jet_pt_uncorrected jetR)"
    unfolding fill_charged_jet_ungroomed_observables_def
    using assms(2-)
    by (intro only_writes_intros
          skip_or_outside [OF chjet_pt_alice_writes] skip_or_outside [OF chjet_g_alice_writes]
          skip_or_outside [OF chjet_ptd_alice_writes] skip_or_outside [OF chjet_mass_alice_writes]
          skip_or_outside [OF chjet_pt_star_writes])
       simp_all
  with run show ?thesis by (simp add: only_writes_def)
qed

text \<open>Block by block: a candidate that fails a selection of the block.\<close>

lemma fill_hadron_block_failed:
  assumes r: "cfg (hadron_observables A) ob ''centrality'' = Inr c"
    "cfg_at (hadron_observables A) ob ''pt'' 0 = Inr (YNum pt_min)"
    "if open_upper then pt_max = 100
     else cfg_at (hadron_observables A) ob ''pt'' 1 = Inr (YNum pt_max)"
    "cfg (hadron_observables A) ob ''eta_cut'' = Inr (YNum eta_cut)"
    and fail: "\<not> (centrality_accepted A c \<and> pt_min < pt L particle \<and> pt L particle < pt_max
             \<and> \<bar>eta L particle\<bar> < eta_cut \<and> \<bar>user_index L particle\<bar> \<in> set pids)"
  shows "fill_hadron_block L A ob open_upper pids suffix particle d = Inr d
         \<and> ((ob, open_upper, pids) \<in> set [(''pt_ch_alice'', False, charged_pids),
                 (''pt_pi_alice'', False, [211]), (''pt_pi0_alice'', False, [111]),
                 (''pt_ch_atlas'', False, charged_pids), (''pt_ch_cms'', False, charged_pids),
                 (''pt_pi0_phenix'', True, [111]), (''pt_ch_star'', True, [211, 321, 2212])]
              \<and> fill_hadron_particle L A suffix particle d = Inr d'
             \<longrightarrow> d' (''hadron_'' @ ob @ suffix) = d (''hadron_'' @ ob @ suffix))"
proof -
  from fail have blk: "fill_hadron_block L A ob open_upper pids suffix particle d = Inr d" for d
    by (simp only: fill_hadron_block_eq [OF r] if_False)
  have "d' (''hadron_'' @ ob @ suffix) = d (''hadron_'' @ ob @ suffix)"
    if "(ob, open_upper, pids) \<in> set [(''pt_ch_alice'', False, charged_pids),
                 (''pt_pi_alice'', False, [211]), (''pt_pi0_alice'', False, [111]),
                 (''pt_ch_atlas'', False, charged_pids), (''pt_ch_cms'', False, charged_pids),
                 (''pt_pi0_phenix'', True, [111]), (''pt_ch_star'', True, [211, 321, 2212])]"
      and "fill_hadron_particle L A suffix particle d = Inr d'"
    using that blk by (intro fill_hadron_particle_frame [where pids = pids and open_upper = open_upper])
  with blk show ?thesis by blast
qed

lemma fill_Dz_hadron_failed:
  assumes "\<not> (\<bar>user_index L hadron\<bar> \<in> set charged_pids \<and> delta_R L jet hadron < jetR)"
  shows "fill_Dz_hadron L A ex suffix jet jet_pt jetR hadron d = Inr d"
  using assms by (auto simp: fill_Dz_hadron_def)

lemma full_jet_pt_alice_failed:
  assumes r: "cfg (inclusive_jet_observables A) ''pt_alice'' ''centrality'' = Inr c_alice"
    "cfg_at (inclusive_jet_observables A) ''pt_alice'' ''pt'' 0 = Inr (YNum lo_alice)"
    "cfg_at (inclusive_jet_observables A) ''pt_alice'' ''pt'' 1 = Inr (YNum hi_alice)"
    "cfg (inclusive_jet_observables A) ''pt_alice'' ''jet_R'' = Inr (YSeq radii_alice)"
    "cfg (inclusive_jet_observables A) ''pt_alice'' ''eta_cut_R'' = Inr (YNum eta_cut_R_alice)"
    and fail: "\<not> (centrality_accepted A c_alice \<and> list_ex (py_eq (YNum jetR)) radii_alice
                  \<and> \<bar>eta L jet\<bar> < eta_cut_R_alice - jetR \<and> lo_alice < jet_pt
                  \<and> jet_pt < hi_alice \<and> accept_jet L jet (if jetR = 0.2 then 5 else 7))"
  shows "full_jet_pt_alice L A jet jet_pt jet_pt_uncorrected jetR d = Inr d
       \<and> (fill_full_jet_ungroomed_observables L A jet fj_hadrons_positive holes_in_jet jet_pt
               jet_pt_uncorrected jetR d = Inr d'
           \<longrightarrow> (\<forall>k. starts_with ''inclusive_jet_pt_alice_R'' k \<longrightarrow> d' k = d k))"
proof -
  have blk: "full_jet_pt_alice L A jet jet_pt jet_pt_uncorrected jetR d = Inr d" for d
    using fail by (simp only: full_jet_pt_alice_eq [OF r] if_False)
  have "d' k = d k" if run: "fill_full_jet_ungroomed_observables L A jet fj_hadrons_positive holes_in_jet jet_pt
               jet_pt_uncorrected jetR d = Inr d'"
      and k: "starts_with ''inclusive_jet_pt_alice_R'' k" for k
    using k blk by (intro fill_full_jet_ungroomed_frame [OF run]) (auto dest: starts_with_both)
  with blk show ?thesis by blast
qed

lemma full_jet_pt_atlas_failed:
  assumes r: "cfg (inclusive_jet_observables A) ''pt_atlas'' ''centrality'' = Inr c_atlas"
    "cfg_at (inclusive_jet_observables A) ''pt_atlas'' ''pt'' 0 = Inr (YNum lo_atlas)"
    "cfg_at (inclusive_jet_observables A) ''pt_atlas'' ''pt'' 1 = Inr (YNum hi_atlas)"
    "cfg (inclusive_jet_observables A) ''pt_atlas'' ''jet_R'' = Inr (YSeq radii_atlas)"
    "cfg (inclusive_jet_observables A) ''pt_atlas'' ''y_cut'' = Inr (YNum y_cut_atlas)"
    and fail: "\<not> (centrality_accepted A c_atlas \<and> list_ex (py_eq (YNum jetR)) radii_atlas
                  \<and> \<bar>rap L jet\<bar> < y_cut_atlas \<and> lo_atlas < jet_pt
                  \<and> jet_pt < hi_atlas)"
  shows "full_jet_pt_atlas L A jet jet_pt jet_pt_uncorrected jetR d = Inr d
       \<and> (fill_full_jet_ungroomed_observables L A jet fj_hadrons_positive holes_in_jet jet_pt
               jet_pt_uncorrected jetR d = Inr d'
           \<longrightarrow> (\<forall>k. starts_with ''inclusive_jet_pt_atlas_R'' k \<longrightarrow> d' k = d k))"
proof -
  have blk: "full_jet_pt_atlas L A jet jet_pt jet_pt_uncorrected jetR d = Inr d" for d
    using fail by (simp only: full_jet_pt_atlas_eq [OF r] if_False)
  have "d' k = d k" if run: "fill_full_jet_ungroomed_observables L A jet fj_hadrons_positive holes_in_jet jet_pt
               jet_pt_uncorrected jetR d = Inr d'"
      and k: "starts_with ''inclusive_jet_pt_atlas_R'' k" for k
    using k blk by (intro fill_full_jet_ungroomed_frame [OF run]) (auto dest: starts_with_both)
  with blk show ?thesis by blast
qed

lemma full_jet_pt_cms_failed:
  assumes r: "cfg (inclusive_jet_observables A) ''pt_cms'' ''centrality'' = Inr c_cms"
    "cfg_at (inclusive_jet_observables A) ''pt_cms'' ''pt'' 0 = Inr (YNum lo_cms)"
    "cfg_at (inclusive_jet_observables A) ''pt_cms'' ''pt'' 1 = Inr (YNum hi_cms)"
    "cfg (inclusive_jet_observables A) ''pt_cms'' ''jet_R'' = Inr (YSeq radii_cms)"
    "cfg (inclusive_jet_observables A) ''pt_cms'' ''eta_cut'' = Inr (YNum eta_cut_cms)"
    and fail: "\<not> (centrality_accepted A c_cms \<and> list_ex (py_eq (YNum jetR)) radii_cms
                  \<and> \<bar>eta L jet\<bar> < eta_cut_cms \<and> lo_cms < jet_pt
                  \<and> jet_pt < hi_cms)"
  shows "full_jet_pt_cms L A jet jet_pt jet_pt_uncorrected jetR d = Inr d
       \<and> (fill_full_jet_ungroomed_observables L A jet fj_hadrons_positive holes_in_jet jet_pt
               jet_pt_uncorrected jetR d = Inr d'
           \<longrightarrow> (\<forall>k. starts_with ''inclusive_jet_pt_cms_R'' k \<longrightarrow> d' k = d k))"
proof -
  have blk: "full_jet_pt_cms L A jet jet_pt jet_pt_uncorrected jetR d = Inr d" for d
    using fail by (simp only: full_jet_pt_cms_eq [OF r] if_False)
  have "d' k = d k" if run: "fill_full_jet_ungroomed_observables L A jet fj_hadrons_positive holes_in_jet jet_pt
               jet_pt_uncorrected jetR d = Inr d'"
      and k: "starts_with ''inclusive_jet_pt_cms_R'' k" for k
    using k blk by (intro fill_full_jet_ungroomed_frame [OF run]) (auto dest: starts_with_both)
  with blk show ?thesis by blast
qed

lemma full_jet_Dz_atlas_failed:
  assumes r: "cfg (inclusive_jet_observables A) ''Dz_atlas'' ''centrality'' = Inr c_Dza"
    "cfg_at (inclusive_jet_observables A) ''Dz_atlas'' ''pt'' 0 = Inr (YNum lo_Dza)"
    "cfg_at (inclusive_jet_observables A) ''Dz_atlas'' ''pt'' (-1) = Inr (YNum hi_Dza)"
    "cfg (inclusive_jet_observables A) ''Dz_atlas'' ''jet_R'' = Inr (YSeq radii_Dza)"
    "cfg (inclusive_jet_observables A) ''Dz_atlas'' ''y_cut'' = Inr (YNum y_cut_Dza)"
    and fail: "\<not> (centrality_accepted A c_Dza \<and> list_ex (py_eq (YNum jetR)) radii_Dza
                  \<and> \<bar>rap L jet\<bar> < y_cut_Dza \<and> lo_Dza < jet_pt
                  \<and> jet_pt < hi_Dza)"
  shows "full_jet_Dz_atlas L A jet fj_hadrons_positive holes_in_jet jet_pt jetR d = Inr d
       \<and> (fill_full_jet_ungroomed_observables L A jet fj_hadrons_positive holes_in_jet jet_pt
               jet_pt_uncorrected jetR d = Inr d'
           \<longrightarrow> (\<forall>k. starts_with ''inclusive_jet_Dz_atlas_R'' k \<or> starts_with ''inclusive_jet_Dpt_atlas_R'' k
                      \<longrightarrow> d' k = d k))"
proof -
  have blk: "full_jet_Dz_atlas L A jet fj_hadrons_positive holes_in_jet jet_pt jetR d = Inr d" for d
    using r fail
    by (auto simp: full_jet_Dz_atlas_def centrality_ok_def jetR_in_def contains_def abs_below_def less_than_def num_def)
  have "d' k = d k" if run: "fill_full_jet_ungroomed_observables L A jet fj_hadrons_positive holes_in_jet jet_pt
               jet_pt_uncorrected jetR d = Inr d'"
      and k: "starts_with ''inclusive_jet_Dz_atlas_R'' k \<or> starts_with ''inclusive_jet_Dpt_atlas_R'' k" for k
    using k blk by (intro fill_full_jet_ungroomed_frame [OF run]) (auto dest: starts_with_both)
  with blk show ?thesis by blast
qed

lemma full_jet_Dz_cms_failed:
  assumes r: "cfg (inclusive_jet_observables A) ''Dz_cms'' ''centrality'' = Inr c_Dzc"
    "cfg_at (inclusive_jet_observables A) ''Dz_cms'' ''pt'' 0 = Inr (YNum lo_Dzc)"
    "cfg_at (inclusive_jet_observables A) ''Dz_cms'' ''pt'' (-1) = Inr (YNum hi_Dzc)"
    "cfg (inclusive_jet_observables A) ''Dz_cms'' ''jet_R'' = Inr (YSeq radii_Dzc)"
    "cfg (inclusive_jet_observables A) ''Dz_cms'' ''eta_cut'' = Inr eta_range_Dzc"
    "getidx eta_range_Dzc 0 = Inr (YNum eta_lo_Dzc)"
    "getidx eta_range_Dzc 1 = Inr (YNum eta_hi_Dzc)"
    and fail: "\<not> (sqrts A = 2760 \<and> centrality_accepted A c_Dzc
                  \<and> list_ex (py_eq (YNum jetR)) radii_Dzc
                  \<and> eta_lo_Dzc < \<bar>eta L jet\<bar> \<and> \<bar>eta L jet\<bar> < eta_hi_Dzc
                  \<and> lo_Dzc < jet_pt \<and> jet_pt < hi_Dzc)"
  shows "full_jet_Dz_cms L A jet fj_hadrons_positive holes_in_jet jet_pt jetR d = Inr d
       \<and> (fill_full_jet_ungroomed_observables L A jet fj_hadrons_positive holes_in_jet jet_pt
               jet_pt_uncorrected jetR d = Inr d'
           \<longrightarrow> (\<forall>k. starts_with ''inclusive_jet_Dz_cms_R'' k \<or> starts_with ''inclusive_jet_Dpt_cms_R'' k
                      \<longrightarrow> d' k = d k))"
proof -
  have blk: "full_jet_Dz_cms L A jet fj_hadrons_positive holes_in_jet jet_pt jetR d = Inr d" for d
    using r fail
    by (auto simp: full_jet_Dz_cms_def centrality_ok_def jetR_in_def contains_def in_range_def greater_than_def
      less_than_def num_def)
  have "d' k = d k" if run: "fill_full_jet_ungroomed_observables L A jet fj_hadrons_positive holes_in_jet jet_pt
               jet_pt_uncorrected jetR d = Inr d'"
      and k: "starts_with ''inclusive_jet_Dz_cms_R'' k \<or> starts_with ''inclusive_jet_Dpt_cms_R'' k" for k
    using k blk by (intro fill_full_jet_ungroomed_frame [OF run]) (auto dest: starts_with_both)
  with blk show ?thesis by blast
qed

lemma full_jet_charge_cms_failed:
  assumes r: "cfg (inclusive_jet_observables A) ''charge_cms'' ''centrality'' = Inr c_charge"
    "cfg (inclusive_jet_observables A) ''charge_cms'' ''pt_min'' = Inr (YNum lo_charge)"
    "cfg (inclusive_jet_observables A) ''charge_cms'' ''jet_R'' = Inr (YSeq radii_charge)"
    "cfg (inclusive_jet_observables A) ''charge_cms'' ''eta_cut'' = Inr (YNum eta_cut_charge)"
    and fail: "\<not> (sqrts A = 5020 \<and> centrality_accepted A c_charge
                  \<and> list_ex (py_eq (YNum jetR)) radii_charge
                  \<and> \<bar>eta L jet\<bar> < eta_cut_charge \<and> lo_charge < jet_pt)"
  shows "full_jet_charge_cms L A jet fj_hadrons_positive holes_in_jet jet_pt jetR d = Inr d
       \<and> (fill_full_jet_ungroomed_observables L A jet fj_hadrons_positive holes_in_jet jet_pt
               jet_pt_uncorrected jetR d = Inr d'
           \<longrightarrow> (\<forall>k. starts_with ''inclusive_jet_charge_cms_R'' k \<longrightarrow> d' k = d k))"
proof -
  have blk: "full_jet_charge_cms L A jet fj_hadrons_positive holes_in_jet jet_pt jetR d = Inr d" for d
    using r fail
    by (auto simp: full_jet_charge_cms_def centrality_ok_def jetR_in_def contains_def abs_below_def
      greater_than_def less_than_def num_def)
  have "d' k = d k" if run: "fill_full_jet_ungroomed_observables L A jet fj_hadrons_positive holes_in_jet jet_pt
               jet_pt_uncorrected jetR d = Inr d'"
      and k: "starts_with ''inclusive_jet_charge_cms_R'' k" for k
    using k blk by (intro fill_full_jet_ungroomed_frame [OF run]) (auto dest: starts_with_both)
  with blk show ?thesis by blast
qed

lemma chjet_pt_alice_failed:
  assumes r: "cfg (inclusive_chjet_observables A) ''pt_alice'' ''centrality'' = Inr c_chpt"
    "cfg_at (inclusive_chjet_observables A) ''pt_alice'' ''pt'' 0 = Inr (YNum lo_chpt)"
    "cfg_at (inclusive_chjet_observables A) ''pt_alice'' ''pt'' 1 = Inr (YNum hi_chpt)"
    "cfg (inclusive_chjet_observables A) ''pt_alice'' ''jet_R'' = Inr (YSeq radii_chpt)"
    "cfg (inclusive_chjet_observables A) ''pt_alice'' ''eta_cut'' = Inr (YNum eta_cut_chpt)"
    "cfg (inclusive_chjet_observables A) ''pt_alice'' ''leading_track_min_pt'' = Inr (YNum track_chpt)"
    and fail: "\<not> (centrality_accepted A c_chpt \<and> list_ex (py_eq (YNum jetR)) radii_chpt
                  \<and> \<bar>eta L jet\<bar> < eta_cut_chpt \<and> lo_chpt < jet_pt
                  \<and> jet_pt < hi_chpt \<and> accept_jet L jet track_chpt)"
  shows "chjet_pt_alice L A jet jet_pt jet_pt_uncorrected jetR d = Inr d
       \<and> (fill_charged_jet_ungroomed_observables L A jet holes_in_jet jet_pt jet_pt_uncorrected
               jetR d = Inr d'
           \<longrightarrow> (\<forall>k. starts_with ''inclusive_chjet_pt_alice_R'' k \<longrightarrow> d' k = d k))"
proof -
  have blk: "chjet_pt_alice L A jet jet_pt jet_pt_uncorrected jetR d = Inr d" for d
    using r fail
    by (auto simp: chjet_pt_alice_def centrality_ok_def jetR_in_def contains_def abs_below_def less_than_def
      num_def accept_chjet_eq)
  have "d' k = d k" if run: "fill_charged_jet_ungroomed_observables L A jet holes_in_jet jet_pt jet_pt_uncorrected
               jetR d = Inr d'"
      and k: "starts_with ''inclusive_chjet_pt_alice_R'' k" for k
    using k blk by (intro fill_charged_jet_ungroomed_frame [OF run]) (auto dest: starts_with_both)
  with blk show ?thesis by blast
qed

lemma chjet_g_alice_failed:
  assumes r: "cfg (inclusive_chjet_observables A) ''g_alice'' ''centrality'' = Inr c_g"
    "cfg_at (inclusive_chjet_observables A) ''g_alice'' ''pt'' 0 = Inr (YNum lo_g)"
    "cfg_at (inclusive_chjet_observables A) ''g_alice'' ''pt'' 1 = Inr (YNum hi_g)"
    "cfg (inclusive_chjet_observables A) ''g_alice'' ''jet_R'' = Inr (YSeq radii_g)"
    "cfg (inclusive_chjet_observables A) ''g_alice'' ''eta_cut_R'' = Inr (YNum eta_cut_R_g)"
    and fail: "\<not> (centrality_accepted A c_g \<and> list_ex (py_eq (YNum jetR)) radii_g
                  \<and> \<bar>eta L jet\<bar> < eta_cut_R_g - jetR \<and> lo_g < jet_pt
                  \<and> jet_pt < hi_g)"
  shows "chjet_g_alice L A jet holes_in_jet jet_pt jetR d = Inr d
       \<and> (fill_charged_jet_ungroomed_observables L A jet holes_in_jet jet_pt jet_pt_uncorrected
               jetR d = Inr d'
           \<longrightarrow> (\<forall>k. starts_with ''inclusive_chjet_g_alice_R'' k \<longrightarrow> d' k = d k))"
proof -
  have blk: "chjet_g_alice L A jet holes_in_jet jet_pt jetR d = Inr d" for d
    using r fail
    by (auto simp: chjet_g_alice_def centrality_ok_def jetR_in_def contains_def abs_below_minus_def num_def)
  have "d' k = d k" if run: "fill_charged_jet_ungroomed_observables L A jet holes_in_jet jet_pt jet_pt_uncorrected
               jetR d = Inr d'"
      and k: "starts_with ''inclusive_chjet_g_alice_R'' k" for k
    using k blk by (intro fill_charged_jet_ungroomed_frame [OF run]) (auto dest: starts_with_both)
  with blk show ?thesis by blast
qed

lemma chjet_ptd_alice_failed:
  assumes r: "cfg (inclusive_chjet_observables A) ''ptd_alice'' ''centrality'' = Inr c_ptd"
    "cfg_at (inclusive_chjet_observables A) ''ptd_alice'' ''pt'' 0 = Inr (YNum lo_ptd)"
    "cfg_at (inclusive_chjet_observables A) ''ptd_alice'' ''pt'' 1 = Inr (YNum hi_ptd)"
    "cfg (inclusive_chjet_observables A) ''ptd_alice'' ''jet_R'' = Inr (YSeq radii_ptd)"
    "cfg (inclusive_chjet_observables A) ''ptd_alice'' ''eta_cut_R'' = Inr (YNum eta_cut_R_ptd)"
    and fail: "\<not> (centrality_accepted A c_ptd \<and> list_ex (py_eq (YNum jetR)) radii_ptd
                  \<and> \<bar>eta L jet\<bar> < eta_cut_R_ptd - jetR \<and> lo_ptd < jet_pt
                  \<and> jet_pt < hi_ptd)"
  shows "chjet_ptd_alice L A jet holes_in_jet jet_pt jetR d = Inr d
       \<and> (fill_charged_jet_ungroomed_observables L A jet holes_in_jet jet_pt jet_pt_uncorrected
               jetR d = Inr d'
           \<longrightarrow> (\<forall>k. starts_with ''inclusive_chjet_ptd_alice_R'' k \<longrightarrow> d' k = d k))"
proof -
  have blk: "chjet_ptd_alice L A jet holes_in_jet jet_pt jetR d = Inr d" for d
    using r fail
    by (auto simp: chjet_ptd_alice_def centrality_ok_def jetR_in_def contains_def abs_below_minus_def num_def)
  have "d' k = d k" if run: "fill_charged_jet_ungroomed_observables L A jet holes_in_jet jet_pt jet_pt_uncorrected
               jetR d = Inr d'"
      and k: "starts_with ''inclusive_chjet_ptd_alice_R'' k" for k
    using k blk by (intro fill_charged_jet_ungroomed_frame [OF run]) (auto dest: starts_with_both)
  with blk show ?thesis by blast
qed

lemma chjet_mass_alice_failed:
  assumes r: "cfg (inclusive_chjet_observables A) ''mass_alice'' ''centrality'' = Inr c_mass"
    "cfg_at (inclusive_chjet_observables A) ''mass_alice'' ''pt'' 0 = Inr (YNum lo_mass)"
    "cfg_at (inclusive_chjet_observables A) ''mass_alice'' ''pt'' (-1) = Inr (YNum hi_mass)"
    "cfg (inclusive_chjet_observables A) ''mass_alice'' ''jet_R'' = Inr (YSeq radii_mass)"
    "cfg (inclusive_chjet_observables A) ''mass_alice'' ''eta_cut_R'' = Inr (YNum eta_cut_R_mass)"
    and fail: "\<not> (centrality_accepted A c_mass \<and> list_ex (py_eq (YNum jetR)) radii_mass
                  \<and> \<bar>eta L jet\<bar> < eta_cut_R_mass - jetR \<and> lo_mass < jet_pt
                  \<and> jet_pt < hi_mass)"
  shows "chjet_mass_alice L A jet holes_in_jet jet_pt jetR d = Inr d
       \<and> (fill_charged_jet_ungroomed_observables L A jet holes_in_jet jet_pt jet_pt_uncorrected
               jetR d = Inr d'
           \<longrightarrow> (\<forall>k. starts_with ''inclusive_chjet_mass_alice_R'' k \<longrightarrow> d' k = d k))"
proof -
  have blk: "chjet_mass_alice L A jet holes_in_jet jet_pt jetR d = Inr d" for d
    using r fail
    by (auto simp: chjet_mass_alice_def centrality_ok_def jetR_in_def contains_def abs_below_minus_def num_def)
  have "d' k = d k" if run: "fill_charged_jet_ungroomed_observables L A jet holes_in_jet jet_pt jet_pt_uncorrected
               jetR d = Inr d'"
      and k: "starts_with ''inclusive_chjet_mass_alice_R'' k" for k
    using k blk by (intro fill_charged_jet_ungroomed_frame [OF run]) (auto dest: starts_with_both)
  with blk show ?thesis by blast
qed

lemma chjet_pt_star_failed:
  assumes r: "cfg (inclusive_chjet_observables A) ''pt_star'' ''centrality'' = Inr c_star"
    "cfg_at (inclusive_chjet_observables A) ''pt_star'' ''pt'' 0 = Inr (YNum lo_star)"
    "cfg (inclusive_chjet_observables A) ''pt_star'' ''jet_R'' = Inr (YSeq radii_star)"
    "cfg (inclusive_chjet_observables A) ''pt_star'' ''eta_cut_R'' = Inr (YNum eta_cut_R_star)"
    and fail: "\<not> (centrality_accepted A c_star \<and> list_ex (py_eq (YNum jetR)) radii_star
                  \<and> \<bar>eta L jet\<bar> < eta_cut_R_star - jetR \<and> lo_star < jet_pt
                  \<and> jet_pt < 100 \<and> accept_jet L jet 5)"
  shows "chjet_pt_star L A jet jet_pt jet_pt_uncorrected jetR d = Inr d
       \<and> (fill_charged_jet_ungroomed_observables L A jet holes_in_jet jet_pt jet_pt_uncorrected
               jetR d = Inr d'
           \<longrightarrow> (\<forall>k. starts_with ''inclusive_chjet_pt_star_R'' k \<longrightarrow> d' k = d k))"
proof -
  have blk: "chjet_pt_star L A jet jet_pt jet_pt_uncorrected jetR d = Inr d" for d
    using r fail
    by (auto simp: chjet_pt_star_def centrality_ok_def jetR_in_def contains_def abs_below_minus_def num_def)
  have "d' k = d k" if run: "fill_charged_jet_ungroomed_observables L A jet holes_in_jet jet_pt jet_pt_uncorrected
               jetR d = Inr d'"
      and k: "starts_with ''inclusive_chjet_pt_star_R'' k" for k
    using k blk by (intro fill_charged_jet_ungroomed_frame [OF run]) (auto dest: starts_with_both)
  with blk show ?thesis by blast
qed


text \<open>
  C7. A hadron or a jet that fails a selection which a block tests leaves the lists of that
  block alone, and the block raises nothing. For each block of \<open>fill_hadron_observables\<close>,
  of \<open>fill_full_jet_ungroomed_observables\<close> (the ALICE, ATLAS and CMS spectra, the ATLAS
  and CMS fragmentation functions, the CMS jet charge) and of
  \<open>fill_charged_jet_ungroomed_observables\<close> (spectrum, angularity, dispersion and mass of
  ALICE, spectrum of STAR): when the block's reads of the configuration succeed and the
  candidate fails the centrality selection or a cut (momentum range, pseudorapidity or
  rapidity, membership of the jet radius, species or leading track, and the collision
  energy where the block tests it), the block returns the container as it was; and when
  the loop body returns for that candidate, every list of the block is in the container
  it returns what it was before. The lists \<open>Dpt\<close> belong to the fragmentation blocks
  \<open>Dz\<close>, whose selections are the only ones tested for them; inside these blocks a hadron
  that is not charged or lies outside the cone appends nothing.
\<close>

theorem failed_cut_appends_nothing:
  "(cfg (hadron_observables A) ob ''centrality'' = Inr c
      \<and> cfg_at (hadron_observables A) ob ''pt'' 0 = Inr (YNum pt_min)
      \<and> (if open_upper then pt_max = 100
          else cfg_at (hadron_observables A) ob ''pt'' 1 = Inr (YNum pt_max))
      \<and> cfg (hadron_observables A) ob ''eta_cut'' = Inr (YNum eta_cut)
      \<and> \<not> (centrality_accepted A c \<and> pt_min < pt L particle \<and> pt L particle < pt_max
             \<and> \<bar>eta L particle\<bar> < eta_cut \<and> \<bar>user_index L particle\<bar> \<in> set pids)
     \<longrightarrow> fill_hadron_block L A ob open_upper pids suffix particle d = Inr d
         \<and> ((ob, open_upper, pids) \<in> set [(''pt_ch_alice'', False, charged_pids),
                 (''pt_pi_alice'', False, [211]), (''pt_pi0_alice'', False, [111]),
                 (''pt_ch_atlas'', False, charged_pids), (''pt_ch_cms'', False, charged_pids),
                 (''pt_pi0_phenix'', True, [111]), (''pt_ch_star'', True, [211, 321, 2212])]
              \<and> fill_hadron_particle L A suffix particle d = Inr d'
             \<longrightarrow> d' (''hadron_'' @ ob @ suffix) = d (''hadron_'' @ ob @ suffix)))
   \<and> (\<not> (\<bar>user_index L hadron\<bar> \<in> set charged_pids \<and> delta_R L jet hadron < jetR)
     \<longrightarrow> fill_Dz_hadron L A ex suffix jet jet_pt jetR hadron d = Inr d)
   \<and> (cfg (inclusive_jet_observables A) ''pt_alice'' ''centrality'' = Inr c_alice
      \<and> cfg_at (inclusive_jet_observables A) ''pt_alice'' ''pt'' 0 = Inr (YNum lo_alice)
      \<and> cfg_at (inclusive_jet_observables A) ''pt_alice'' ''pt'' 1 = Inr (YNum hi_alice)
      \<and> cfg (inclusive_jet_observables A) ''pt_alice'' ''jet_R'' = Inr (YSeq radii_alice)
      \<and> cfg (inclusive_jet_observables A) ''pt_alice'' ''eta_cut_R'' = Inr (YNum eta_cut_R_alice)
      \<and> \<not> (centrality_accepted A c_alice \<and> list_ex (py_eq (YNum jetR)) radii_alice
            \<and> \<bar>eta L jet\<bar> < eta_cut_R_alice - jetR \<and> lo_alice < jet_pt
            \<and> jet_pt < hi_alice \<and> accept_jet L jet (if jetR = 0.2 then 5 else 7))
     \<longrightarrow> full_jet_pt_alice L A jet jet_pt jet_pt_uncorrected jetR d = Inr d
         \<and> (fill_full_jet_ungroomed_observables L A jet fj_hadrons_positive holes_in_jet jet_pt
               jet_pt_uncorrected jetR d = Inr d'
             \<longrightarrow> (\<forall>k. starts_with ''inclusive_jet_pt_alice_R'' k \<longrightarrow> d' k = d k)))
   \<and> (cfg (inclusive_jet_observables A) ''pt_atlas'' ''centrality'' = Inr c_atlas
      \<and> cfg_at (inclusive_jet_observables A) ''pt_atlas'' ''pt'' 0 = Inr (YNum lo_atlas)
      \<and> cfg_at (inclusive_jet_observables A) ''pt_atlas'' ''pt'' 1 = Inr (YNum hi_atlas)
      \<and> cfg (inclusive_jet_observables A) ''pt_atlas'' ''jet_R'' = Inr (YSeq radii_atlas)
      \<and> cfg (inclusive_jet_observables A) ''pt_atlas'' ''y_cut'' = Inr (YNum y_cut_atlas)
      \<and> \<not> (centrality_accepted A c_atlas \<and> list_ex (py_eq (YNum jetR)) radii_atlas
            \<and> \<bar>rap L jet\<bar> < y_cut_atlas \<and> lo_atlas < jet_pt
            \<and> jet_pt < hi_atlas)
     \<longrightarrow> full_jet_pt_atlas L A jet jet_pt jet_pt_uncorrected jetR d = Inr d
         \<and> (fill_full_jet_ungroomed_observables L A jet fj_hadrons_positive holes_in_jet jet_pt
               jet_pt_uncorrected jetR d = Inr d'
             \<longrightarrow> (\<forall>k. starts_with ''inclusive_jet_pt_atlas_R'' k \<longrightarrow> d' k = d k)))
   \<and> (cfg (inclusive_jet_observables A) ''pt_cms'' ''centrality'' = Inr c_cms
      \<and> cfg_at (inclusive_jet_observables A) ''pt_cms'' ''pt'' 0 = Inr (YNum lo_cms)
      \<and> cfg_at (inclusive_jet_observables A) ''pt_cms'' ''pt'' 1 = Inr (YNum hi_cms)
      \<and> cfg (inclusive_jet_observables A) ''pt_cms'' ''jet_R'' = Inr (YSeq radii_cms)
      \<and> cfg (inclusive_jet_observables A) ''pt_cms'' ''eta_cut'' = Inr (YNum eta_cut_cms)
      \<and> \<not> (centrality_accepted A c_cms \<and> list_ex (py_eq (YNum jetR)) radii_cms
            \<and> \<bar>eta L jet\<bar> < eta_cut_cms \<and> lo_cms < jet_pt
            \<and> jet_pt < hi_cms)
     \<longrightarrow> full_jet_pt_cms L A jet jet_pt jet_pt_uncorrected jetR d = Inr d
         \<and> (fill_full_jet_ungroomed_observables L A jet fj_hadrons_positive holes_in_jet jet_pt
               jet_pt_uncorrected jetR d = Inr d'
             \<longrightarrow> (\<forall>k. starts_with ''inclusive_jet_pt_cms_R'' k \<longrightarrow> d' k = d k)))
   \<and> (cfg (inclusive_jet_observables A) ''Dz_atlas'' ''centrality'' = Inr c_Dza
      \<and> cfg_at (inclusive_jet_observables A) ''Dz_atlas'' ''pt'' 0 = Inr (YNum lo_Dza)
      \<and> cfg_at (inclusive_jet_observables A) ''Dz_atlas'' ''pt'' (-1) = Inr (YNum hi_Dza)
      \<and> cfg (inclusive_jet_observables A) ''Dz_atlas'' ''jet_R'' = Inr (YSeq radii_Dza)
      \<and> cfg (inclusive_jet_observables A) ''Dz_atlas'' ''y_cut'' = Inr (YNum y_cut_Dza)
      \<and> \<not> (centrality_accepted A c_Dza \<and> list_ex (py_eq (YNum jetR)) radii_Dza
            \<and> \<bar>rap L jet\<bar> < y_cut_Dza \<and> lo_Dza < jet_pt
            \<and> jet_pt < hi_Dza)
     \<longrightarrow> full_jet_Dz_atlas L A jet fj_hadrons_positive holes_in_jet jet_pt jetR d = Inr d
         \<and> (fill_full_jet_ungroomed_observables L A jet fj_hadrons_positive holes_in_jet jet_pt
               jet_pt_uncorrected jetR d = Inr d'
             \<longrightarrow> (\<forall>k. starts_with ''inclusive_jet_Dz_atlas_R'' k \<or> starts_with ''inclusive_jet_Dpt_atlas_R'' k
                      \<longrightarrow> d' k = d k)))
   \<and> (cfg (inclusive_jet_observables A) ''Dz_cms'' ''centrality'' = Inr c_Dzc
      \<and> cfg_at (inclusive_jet_observables A) ''Dz_cms'' ''pt'' 0 = Inr (YNum lo_Dzc)
      \<and> cfg_at (inclusive_jet_observables A) ''Dz_cms'' ''pt'' (-1) = Inr (YNum hi_Dzc)
      \<and> cfg (inclusive_jet_observables A) ''Dz_cms'' ''jet_R'' = Inr (YSeq radii_Dzc)
      \<and> cfg (inclusive_jet_observables A) ''Dz_cms'' ''eta_cut'' = Inr eta_range_Dzc
      \<and> getidx eta_range_Dzc 0 = Inr (YNum eta_lo_Dzc)
      \<and> getidx eta_range_Dzc 1 = Inr (YNum eta_hi_Dzc)
      \<and> \<not> (sqrts A = 2760 \<and> centrality_accepted A c_Dzc
            \<and> list_ex (py_eq (YNum jetR)) radii_Dzc
            \<and> eta_lo_Dzc < \<bar>eta L jet\<bar> \<and> \<bar>eta L jet\<bar> < eta_hi_Dzc
            \<and> lo_Dzc < jet_pt \<and> jet_pt < hi_Dzc)
     \<longrightarrow> full_jet_Dz_cms L A jet fj_hadrons_positive holes_in_jet jet_pt jetR d = Inr d
         \<and> (fill_full_jet_ungroomed_observables L A jet fj_hadrons_positive holes_in_jet jet_pt
               jet_pt_uncorrected jetR d = Inr d'
             \<longrightarrow> (\<forall>k. starts_with ''inclusive_jet_Dz_cms_R'' k \<or> starts_with ''inclusive_jet_Dpt_cms_R'' k
                      \<longrightarrow> d' k = d k)))
   \<and> (cfg (inclusive_jet_observables A) ''charge_cms'' ''centrality'' = Inr c_charge
      \<and> cfg (inclusive_jet_observables A) ''charge_cms'' ''pt_min'' = Inr (YNum lo_charge)
      \<and> cfg (inclusive_jet_observables A) ''charge_cms'' ''jet_R'' = Inr (YSeq radii_charge)
      \<and> cfg (inclusive_jet_observables A) ''charge_cms'' ''eta_cut'' = Inr (YNum eta_cut_charge)
      \<and> \<not> (sqrts A = 5020 \<and> centrality_accepted A c_charge
            \<and> list_ex (py_eq (YNum jetR)) radii_charge
            \<and> \<bar>eta L jet\<bar> < eta_cut_charge \<and> lo_charge < jet_pt)
     \<longrightarrow> full_jet_charge_cms L A jet fj_hadrons_positive holes_in_jet jet_pt jetR d = Inr d
         \<and> (fill_full_jet_ungroomed_observables L A jet fj_hadrons_positive holes_in_jet jet_pt
               jet_pt_uncorrected jetR d = Inr d'
             \<longrightarrow> (\<forall>k. starts_with ''inclusive_jet_charge_cms_R'' k \<longrightarrow> d' k = d k)))
   \<and> (cfg (inclusive_chjet_observables A) ''pt_alice'' ''centrality'' = Inr c_chpt
      \<and> cfg_at (inclusive_chjet_observables A) ''pt_alice'' ''pt'' 0 = Inr (YNum lo_chpt)
      \<and> cfg_at (inclusive_chjet_observables A) ''pt_alice'' ''pt'' 1 = Inr (YNum hi_chpt)
      \<and> cfg (inclusive_chjet_observables A) ''pt_alice'' ''jet_R'' = Inr (YSeq radii_chpt)
      \<and> cfg (inclusive_chjet_observables A) ''pt_alice'' ''eta_cut'' = Inr (YNum eta_cut_chpt)
      \<and> cfg (inclusive_chjet_observables A) ''pt_alice'' ''leading_track_min_pt'' = Inr (YNum track_chpt)
      \<and> \<not> (centrality_accepted A c_chpt \<and> list_ex (py_eq (YNum jetR)) radii_chpt
            \<and> \<bar>eta L jet\<bar> < eta_cut_chpt \<and> lo_chpt < jet_pt
            \<and> jet_pt < hi_chpt \<and> accept_jet L jet track_chpt)
     \<longrightarrow> chjet_pt_alice L A jet jet_pt jet_pt_uncorrected jetR d = Inr d
         \<and> (fill_charged_jet_ungroomed_observables L A jet holes_in_jet jet_pt jet_pt_uncorrected
               jetR d = Inr d'
             \<longrightarrow> (\<forall>k. starts_with ''inclusive_chjet_pt_alice_R'' k \<longrightarrow> d' k = d k)))
   \<and> (cfg (inclusive_chjet_observables A) ''g_alice'' ''centrality'' = Inr c_g
      \<and> cfg_at (inclusive_chjet_observables A) ''g_alice'' ''pt'' 0 = Inr (YNum lo_g)
      \<and> cfg_at (inclusive_chjet_observables A) ''g_alice'' ''pt'' 1 = Inr (YNum hi_g)
      \<and> cfg (inclusive_chjet_observables A) ''g_alice'' ''jet_R'' = Inr (YSeq radii_g)
      \<and> cfg (inclusive_chjet_observables A) ''g_alice'' ''eta_cut_R'' = Inr (YNum eta_cut_R_g)
      \<and> \<not> (centrality_accepted A c_g \<and> list_ex (py_eq (YNum jetR)) radii_g
            \<and> \<bar>eta L jet\<bar> < eta_cut_R_g - jetR \<and> lo_g < jet_pt
            \<and> jet_pt < hi_g)
     \<longrightarrow> chjet_g_alice L A jet holes_in_jet jet_pt jetR d = Inr d
         \<and> (fill_charged_jet_ungroomed_observables L A jet holes_in_jet jet_pt jet_pt_uncorrected
               jetR d = Inr d'
             \<longrightarrow> (\<forall>k. starts_with ''inclusive_chjet_g_alice_R'' k \<longrightarrow> d' k = d k)))
   \<and> (cfg (inclusive_chjet_observables A) ''ptd_alice'' ''centrality'' = Inr c_ptd
      \<and> cfg_at (inclusive_chjet_observables A) ''ptd_alice'' ''pt'' 0 = Inr (YNum lo_ptd)
      \<and> cfg_at (inclusive_chjet_observables A) ''ptd_alice'' ''pt'' 1 = Inr (YNum hi_ptd)
      \<and> cfg (inclusive_chjet_observables A) ''ptd_alice'' ''jet_R'' = Inr (YSeq radii_ptd)
      \<and> cfg (inclusive_chjet_observables A) ''ptd_alice'' ''eta_cut_R'' = Inr (YNum eta_cut_R_ptd)
      \<and> \<not> (centrality_accepted A c_ptd \<and> list_ex (py_eq (YNum jetR)) radii_ptd
            \<and> \<bar>eta L jet\<bar> < eta_cut_R_ptd - jetR \<and> lo_ptd < jet_pt
            \<and> jet_pt < hi_ptd)
     \<longrightarrow> chjet_ptd_alice L A jet holes_in_jet jet_pt jetR d = Inr d
         \<and> (fill_charged_jet_ungroomed_observables L A jet holes_in_jet jet_pt jet_pt_uncorrected
               jetR d = Inr d'
             \<longrightarrow> (\<forall>k. starts_with ''inclusive_chjet_ptd_alice_R'' k \<longrightarrow> d' k = d k)))
   \<and> (cfg (inclusive_chjet_observables A) ''mass_alice'' ''centrality'' = Inr c_mass
      \<and> cfg_at (inclusive_chjet_observables A) ''mass_alice'' ''pt'' 0 = Inr (YNum lo_mass)
      \<and> cfg_at (inclusive_chjet_observables A) ''mass_alice'' ''pt'' (-1) = Inr (YNum hi_mass)
      \<and> cfg (inclusive_chjet_observables A) ''mass_alice'' ''jet_R'' = Inr (YSeq radii_mass)
      \<and> cfg (inclusive_chjet_observables A) ''mass_alice'' ''eta_cut_R'' = Inr (YNum eta_cut_R_mass)
      \<and> \<not> (centrality_accepted A c_mass \<and> list_ex (py_eq (YNum jetR)) radii_mass
            \<and> \<bar>eta L jet\<bar> < eta_cut_R_mass - jetR \<and> lo_mass < jet_pt
            \<and> jet_pt < hi_mass)
     \<longrightarrow> chjet_mass_alice L A jet holes_in_jet jet_pt jetR d = Inr d
         \<and> (fill_charged_jet_ungroomed_observables L A jet holes_in_jet jet_pt jet_pt_uncorrected
               jetR d = Inr d'
             \<longrightarrow> (\<forall>k. starts_with ''inclusive_chjet_mass_alice_R'' k \<longrightarrow> d' k = d k)))
   \<and> (cfg (inclusive_chjet_observables A) ''pt_star'' ''centrality'' = Inr c_star
      \<and> cfg_at (inclusive_chjet_observables A) ''pt_star'' ''pt'' 0 = Inr (YNum lo_star)
      \<and> cfg (inclusive_chjet_observables A) ''pt_star'' ''jet_R'' = Inr (YSeq radii_star)
      \<and> cfg (inclusive_chjet_observables A) ''pt_star'' ''eta_cut_R'' = Inr (YNum eta_cut_R_star)
      \<and> \<not> (centrality_accepted A c_star \<and> list_ex (py_eq (YNum jetR)) radii_star
            \<and> \<bar>eta L jet\<bar> < eta_cut_R_star - jetR \<and> lo_star < jet_pt
            \<and> jet_pt < 100 \<and> accept_jet L jet 5)
     \<longrightarrow> chjet_pt_star L A jet jet_pt jet_pt_uncorrected jetR d = Inr d
         \<and> (fill_charged_jet_ungroomed_observables L A jet holes_in_jet jet_pt jet_pt_uncorrected
               jetR d = Inr d'
             \<longrightarrow> (\<forall>k. starts_with ''inclusive_chjet_pt_star_R'' k \<longrightarrow> d' k = d k)))"
  by (intro conjI; rule impI; (elim conjE)?;
      (rule fill_hadron_block_failed fill_Dz_hadron_failed
            full_jet_pt_alice_failed full_jet_pt_atlas_failed full_jet_pt_cms_failed full_jet_Dz_atlas_failed
            full_jet_Dz_cms_failed full_jet_charge_cms_failed chjet_pt_alice_failed chjet_g_alice_failed
            chjet_ptd_alice_failed chjet_mass_alice_failed chjet_pt_star_failed;
       assumption))

lemmas read_defs = cfg_def cfg_at_def getitem_def getidx_def py_index_def

theorem failed_cut_witness:
  "fill_hadron_block tlib ana_AA ''pt_ch_alice'' False charged_pids ''''
      (TJet 5 2 0 211 []) [''hadron_pt_ch_alice'' \<mapsto> [Scalar 7]]
     = Inr [''hadron_pt_ch_alice'' \<mapsto> [Scalar 7]]
   \<and> fill_Dz_hadron tlib ana_AA ''atlas'' '''' (TJet 30 0 0 0 [TJet 30 0 0 211 []]) 30 0.2 (TJet 5 0 0 22 [])
        [''inclusive_jet_Dpt_atlas_R0.2'' \<mapsto> [Pair 50 9]]
     = Inr [''inclusive_jet_Dpt_atlas_R0.2'' \<mapsto> [Pair 50 9]]
   \<and> full_jet_pt_alice tlib ana_AA (TJet 30 0 0 0 [TJet 30 0 0 211 []]) 30 30 0.2
        [''inclusive_jet_pt_alice_R0.2'' \<mapsto> [Scalar 50]]
     = Inr [''inclusive_jet_pt_alice_R0.2'' \<mapsto> [Scalar 50]]
   \<and> full_jet_pt_atlas tlib ana_AA (TJet 30 0 0 0 [TJet 30 0 0 211 []]) 30 30 0.2
        [''inclusive_jet_pt_alice_R0.2'' \<mapsto> [Scalar 50]]
     = Inr [''inclusive_jet_pt_alice_R0.2'' \<mapsto> [Scalar 50]]
   \<and> full_jet_pt_cms tlib ana_AA (TJet 30 0 0 0 [TJet 30 0 0 211 []]) 30 30 0.2
        [''inclusive_jet_pt_alice_R0.2'' \<mapsto> [Scalar 50]]
     = Inr [''inclusive_jet_pt_alice_R0.2'' \<mapsto> [Scalar 50]]
   \<and> full_jet_Dz_atlas tlib ana_AA (TJet 30 0 0 0 [TJet 30 0 0 211 []]) [] [] 30 0.2
        [''inclusive_jet_pt_alice_R0.2'' \<mapsto> [Scalar 50]]
     = Inr [''inclusive_jet_pt_alice_R0.2'' \<mapsto> [Scalar 50]]
   \<and> chjet_g_alice tlib ana_AA (TJet 30 0 0 0 [TJet 30 0 0 211 []]) [] 30 0.2
        [''inclusive_jet_pt_alice_R0.2'' \<mapsto> [Scalar 50]]
     = Inr [''inclusive_jet_pt_alice_R0.2'' \<mapsto> [Scalar 50]]
   \<and> (\<exists>d'. fill_full_jet_ungroomed_observables tlib ana_AA (TJet 50 0 0 0 [TJet 50 0 0 22 []]) [] [] 50 50 0.2
              [''inclusive_jet_pt_alice_R0.2'' \<mapsto> [Scalar 1],
               ''inclusive_jet_pt_atlas_R0.2'' \<mapsto> [], ''inclusive_jet_pt_atlas_R0.2_unsubtracted'' \<mapsto> [],
               ''inclusive_jet_pt_cms_R0.2'' \<mapsto> [], ''inclusive_jet_pt_cms_R0.2_unsubtracted'' \<mapsto> [],
               ''inclusive_jet_Dz_atlas_R0.2_Njets'' \<mapsto> []] = Inr d'
          \<and> d' ''inclusive_jet_pt_atlas_R0.2'' = Some [Scalar 50]
          \<and> d' ''inclusive_jet_pt_alice_R0.2'' = Some [Scalar 1])"
proof -
  let ?d = "[''inclusive_jet_pt_alice_R0.2'' \<mapsto> [Scalar 50]]"
  let ?e = "[''inclusive_jet_pt_alice_R0.2'' \<mapsto> [Scalar 1],
               ''inclusive_jet_pt_atlas_R0.2'' \<mapsto> [], ''inclusive_jet_pt_atlas_R0.2_unsubtracted'' \<mapsto> [],
               ''inclusive_jet_pt_cms_R0.2'' \<mapsto> [], ''inclusive_jet_pt_cms_R0.2_unsubtracted'' \<mapsto> [],
               ''inclusive_jet_Dz_atlas_R0.2_Njets'' \<mapsto> []]"
  let ?e' = "[''inclusive_jet_pt_alice_R0.2'' \<mapsto> [Scalar 1],
               ''inclusive_jet_pt_atlas_R0.2'' \<mapsto> [Scalar 50],
               ''inclusive_jet_pt_atlas_R0.2_unsubtracted'' \<mapsto> [Scalar 50],
               ''inclusive_jet_pt_cms_R0.2'' \<mapsto> [Scalar 50],
               ''inclusive_jet_pt_cms_R0.2_unsubtracted'' \<mapsto> [Scalar 50],
               ''inclusive_jet_Dz_atlas_R0.2_Njets'' \<mapsto> [Scalar 50]]"
  have h: "cfg (hadron_observables ana_AA) ''pt_ch_alice'' ''centrality'' = Inr central"
    "cfg_at (hadron_observables ana_AA) ''pt_ch_alice'' ''pt'' 0 = Inr (YNum 1)"
    "cfg_at (hadron_observables ana_AA) ''pt_ch_alice'' ''pt'' 1 = Inr (YNum 100)"
    "cfg (hadron_observables ana_AA) ''pt_ch_alice'' ''eta_cut'' = Inr (YNum 0.8)"
    by (simp_all add: read_defs ana_AA_def hadron_block_def)
  have j: "cfg (inclusive_jet_observables ana_AA) ob ''centrality'' = Inr central"
    "cfg_at (inclusive_jet_observables ana_AA) ob ''pt'' 0 = Inr (YNum 40)"
    "cfg_at (inclusive_jet_observables ana_AA) ob ''pt'' 1 = Inr (YNum 140)"
    "cfg_at (inclusive_jet_observables ana_AA) ob ''pt'' (-1) = Inr (YNum 140)"
    "cfg (inclusive_jet_observables ana_AA) ob ''jet_R'' = Inr (YSeq [YNum 0.2, YNum 0.4])"
    "cfg (inclusive_jet_observables ana_AA) ob ''eta_cut_R'' = Inr (YNum 0.9)"
    "cfg (inclusive_jet_observables ana_AA) ob ''y_cut'' = Inr (YNum 2.1)"
    "cfg (inclusive_jet_observables ana_AA) ob ''eta_cut'' = Inr (YNum 2)"
    if "ob \<in> {''pt_alice'', ''pt_atlas'', ''pt_cms'', ''Dz_atlas''}" for ob
    using that by (auto simp: read_defs ana_AA_def jet_block_def)
  have g: "cfg (inclusive_chjet_observables ana_AA) ''g_alice'' ''centrality'' = Inr central"
    "cfg_at (inclusive_chjet_observables ana_AA) ''g_alice'' ''pt'' 0 = Inr (YNum 40)"
    "cfg_at (inclusive_chjet_observables ana_AA) ''g_alice'' ''pt'' 1 = Inr (YNum 140)"
    "cfg (inclusive_chjet_observables ana_AA) ''g_alice'' ''jet_R'' = Inr (YSeq [YNum 0.2, YNum 0.4])"
    "cfg (inclusive_chjet_observables ana_AA) ''g_alice'' ''eta_cut_R'' = Inr (YNum 0.9)"
    by (simp_all add: read_defs ana_AA_def jet_block_def)
  have f1: "\<not> (centrality_accepted ana_AA central \<and> 1 < pt tlib (TJet 5 2 0 211 [])
            \<and> pt tlib (TJet 5 2 0 211 []) < 100 \<and> \<bar>eta tlib (TJet 5 2 0 211 [])\<bar> < 0.8
            \<and> \<bar>user_index tlib (TJet 5 2 0 211 [])\<bar> \<in> set charged_pids)"
    by (simp add: tlib_def)
  have f2: "\<not> (40 < (30::real))" by simp
  have f3: "\<not> (\<bar>user_index tlib (TJet 5 0 0 22 [])\<bar> \<in> set charged_pids
               \<and> delta_R tlib (TJet 30 0 0 0 [TJet 30 0 0 211 []]) (TJet 5 0 0 22 []) < 0.2)"
    by (simp add: tlib_def charged_pids_def)
  have f4: "\<not> accept_jet tlib (TJet 50 0 0 0 [TJet 50 0 0 22 []]) 5"
    by (simp add: accept_jet_def tlib_def charged_pids_def)
  note T = failed_cut_appends_nothing
         [where A = ana_AA and L = tlib and ob = "''pt_ch_alice''" and c = central
            and pt_min = 1 and pt_max = 100 and eta_cut = "0.8" and open_upper = False
            and pids = charged_pids and particle = "TJet 5 2 0 211 []" and suffix = "''''"
            and d = "[''hadron_pt_ch_alice'' \<mapsto> [Scalar 7]]"]
  note U = failed_cut_appends_nothing
         [where A = ana_AA and L = tlib and jet = "TJet 30 0 0 0 [TJet 30 0 0 211 []]" and hadron = "TJet 5 0 0 22 []"
            and ex = "''atlas''" and suffix = "''''"
            and d = "[''inclusive_jet_Dpt_atlas_R0.2'' \<mapsto> [Pair 50 9]]"
            and jet_pt = 30 and jetR = "0.2"]
  note V = failed_cut_appends_nothing
         [where A = ana_AA and L = tlib and jet = "TJet 30 0 0 0 [TJet 30 0 0 211 []]" and jet_pt = 30 and jet_pt_uncorrected = 30
            and jetR = "0.2" and fj_hadrons_positive = "[]" and holes_in_jet = "[]"
            and c_alice = central and lo_alice = 40 and hi_alice = 140
            and radii_alice = "[YNum 0.2, YNum 0.4]" and eta_cut_R_alice = "0.9"
            and c_atlas = central and lo_atlas = 40 and hi_atlas = 140
            and radii_atlas = "[YNum 0.2, YNum 0.4]" and y_cut_atlas = "2.1"
            and c_cms = central and lo_cms = 40 and hi_cms = 140
            and radii_cms = "[YNum 0.2, YNum 0.4]" and eta_cut_cms = 2
            and c_Dza = central and lo_Dza = 40 and hi_Dza = 140
            and radii_Dza = "[YNum 0.2, YNum 0.4]" and y_cut_Dza = "2.1"
            and c_g = central and lo_g = 40 and hi_g = 140
            and radii_g = "[YNum 0.2, YNum 0.4]" and eta_cut_R_g = "0.9"
            and d = ?d]
  note W = failed_cut_appends_nothing
         [where A = ana_AA and L = tlib and jet = "TJet 50 0 0 0 [TJet 50 0 0 22 []]" and jet_pt = 50 and jet_pt_uncorrected = 50
            and jetR = "0.2" and fj_hadrons_positive = "[]" and holes_in_jet = "[]"
            and c_alice = central and lo_alice = 40 and hi_alice = 140
            and radii_alice = "[YNum 0.2, YNum 0.4]" and eta_cut_R_alice = "0.9"
            and d = ?e]
  have a: "fill_hadron_block tlib ana_AA ''pt_ch_alice'' False charged_pids ''''
      (TJet 5 2 0 211 []) [''hadron_pt_ch_alice'' \<mapsto> [Scalar 7]]
     = Inr [''hadron_pt_ch_alice'' \<mapsto> [Scalar 7]]"
    using T [THEN conjunct1] h f1 by simp
  have b: "fill_Dz_hadron tlib ana_AA ''atlas'' '''' (TJet 30 0 0 0 [TJet 30 0 0 211 []]) 30 0.2 (TJet 5 0 0 22 [])
        [''inclusive_jet_Dpt_atlas_R0.2'' \<mapsto> [Pair 50 9]]
     = Inr [''inclusive_jet_Dpt_atlas_R0.2'' \<mapsto> [Pair 50 9]]"
    using U [THEN conjunct2, THEN conjunct1] f3 by simp
  have c: "full_jet_pt_alice tlib ana_AA (TJet 30 0 0 0 [TJet 30 0 0 211 []]) 30 30 0.2 ?d = Inr ?d"
    using V [THEN conjunct2, THEN conjunct2, THEN conjunct1] j [of "''pt_alice''"] f2 by simp
  have d: "full_jet_pt_atlas tlib ana_AA (TJet 30 0 0 0 [TJet 30 0 0 211 []]) 30 30 0.2 ?d = Inr ?d"
    using V [THEN conjunct2, THEN conjunct2, THEN conjunct2, THEN conjunct1] j [of "''pt_atlas''"] f2 by simp
  have e: "full_jet_pt_cms tlib ana_AA (TJet 30 0 0 0 [TJet 30 0 0 211 []]) 30 30 0.2 ?d = Inr ?d"
    using V [THEN conjunct2, THEN conjunct2, THEN conjunct2, THEN conjunct2, THEN conjunct1] j [of "''pt_cms''"] f2 by simp
  have f: "full_jet_Dz_atlas tlib ana_AA (TJet 30 0 0 0 [TJet 30 0 0 211 []]) [] [] 30 0.2 ?d = Inr ?d"
    using V [THEN conjunct2, THEN conjunct2, THEN conjunct2, THEN conjunct2, THEN conjunct2, THEN conjunct1] j [of "''Dz_atlas''"] f2 by simp
  have g': "chjet_g_alice tlib ana_AA (TJet 30 0 0 0 [TJet 30 0 0 211 []]) [] 30 0.2 ?d = Inr ?d"
    using V [THEN conjunct2, THEN conjunct2, THEN conjunct2, THEN conjunct2, THEN conjunct2, THEN conjunct2, THEN conjunct2, THEN conjunct2, THEN conjunct2, THEN conjunct1] g f2 by simp
  have run: "fill_full_jet_ungroomed_observables tlib ana_AA (TJet 50 0 0 0 [TJet 50 0 0 22 []]) [] [] 50 50 0.2 ?e
      = Inr ?e'"
    by (simp add: fill_defs cfg_defs ana_AA_def jet_block_def central_def tlib_def)
  have "starts_with ''inclusive_jet_pt_alice_R'' ''inclusive_jet_pt_alice_R0.2''"
    by (simp add: starts_with_def)
  with W [THEN conjunct2, THEN conjunct2, THEN conjunct1] j [of "''pt_alice''"] f4 run
  have fr: "?e' ''inclusive_jet_pt_alice_R0.2''
            = ?e ''inclusive_jet_pt_alice_R0.2''"
    by simp
  from run fr
  have r: "\<exists>d'. fill_full_jet_ungroomed_observables tlib ana_AA (TJet 50 0 0 0 [TJet 50 0 0 22 []]) [] [] 50 50 0.2 ?e = Inr d'
          \<and> d' ''inclusive_jet_pt_atlas_R0.2'' = Some [Scalar 50]
          \<and> d' ''inclusive_jet_pt_alice_R0.2'' = Some [Scalar 1]"
    by simp
  from a b c d e f g' r show ?thesis by simp
qed

text \<open>
  The cuts that a block \<open>Dpt\<close> declares are not read: with \<open>Dpt_atlas\<close> declaring momenta
  between 200 and 300, a jet of momentum 100, which that range excludes, gets its hadron
  into the list \<open>inclusive_jet_Dpt_atlas_R0.4\<close>, under the cuts of \<open>Dz_atlas\<close>.
\<close>

theorem Dpt_filled_under_Dz_cuts:
  "cfg_at (inclusive_jet_observables ana_Dpt) ''Dpt_atlas'' ''pt'' 0 = Inr (YNum 200)
   \<and> cfg_at (inclusive_jet_observables ana_Dpt) ''Dpt_atlas'' ''pt'' 1 = Inr (YNum 300)
   \<and> \<not> (200 < pt tlib (TJet 100 0 0 0 [TJet 100 0 0 211 []])
         \<and> pt tlib (TJet 100 0 0 0 [TJet 100 0 0 211 []]) < 300)
   \<and> analyze_inclusive_jet tlib ana_Dpt (TJet 100 0 0 0 [TJet 100 0 0 211 []])
        [TJet 100 0 0 211 []] [] 0.4 True
        [''inclusive_jet_pt_alice_R0.4'' \<mapsto> [], ''inclusive_jet_pt_atlas_R0.4'' \<mapsto> [],
         ''inclusive_jet_pt_cms_R0.4'' \<mapsto> [], ''inclusive_jet_Dz_atlas_R0.4_Njets'' \<mapsto> [],
         ''inclusive_jet_Dz_atlas_R0.4'' \<mapsto> [], ''inclusive_jet_Dpt_atlas_R0.4'' \<mapsto> []]
     = Inr [''inclusive_jet_pt_alice_R0.4'' \<mapsto> [Scalar 100],
            ''inclusive_jet_pt_atlas_R0.4'' \<mapsto> [Scalar 100],
            ''inclusive_jet_pt_cms_R0.4'' \<mapsto> [Scalar 100],
            ''inclusive_jet_Dz_atlas_R0.4_Njets'' \<mapsto> [Scalar 100],
            ''inclusive_jet_Dz_atlas_R0.4'' \<mapsto> [Pair 100 1],
            ''inclusive_jet_Dpt_atlas_R0.4'' \<mapsto> [Pair 100 100]]"
  by (simp add: fill_defs cfg_defs ana_Dpt_def ana_pp_def ana_AA_def jet_block_def central_def
      tlib_def)

subsection \<open>No holes\<close>










subsection \<open>One event in AA mode\<close>

text \<open>
  In AA mode the angularity block cannot append: whenever it returns, with the key
  \<open>inclusive_chjet_g_alice_R{jetR})unsubtracted\<close> absent, it has left the container as it
  was, so a jet that passes its cuts ends the event with \<open>KeyError\<close>.
\<close>

lemma chjet_g_alice_never_appends:
  assumes "chjet_g_alice L A jet holes_in_jet jet_pt jetR d = Inr d'" and "is_AA A"
    and "d (''inclusive_chjet_g_alice_R'' @ fstr A (YNum jetR) @ '')unsubtracted'') = None"
  shows "d' = d"
  using assms
  by (auto simp: chjet_g_alice_def py_if_def bindE_def g_alice_values_def append_values_def
      append_obs_def split: sum.splits if_splits)

text \<open>The keys that the initialisation creates for the sample configuration.\<close>

lemma init_event_keys:
  "\<exists>K. initialize_output_lists ana_AA Map.empty = Inr K
    \<and> K ''hadron_pt_ch_alice'' = Some [] \<and> K ''hadron_pt_pi_alice'' = Some []
    \<and> K ''hadron_pt_ch_atlas'' = Some [] \<and> K ''hadron_pt_ch_cms'' = Some []
    \<and> K ''inclusive_jet_pt_alice_R0.2'' = Some []
    \<and> K ''inclusive_jet_pt_alice_R0.2_unsubtracted'' = Some []
    \<and> K ''inclusive_jet_pt_atlas_R0.2'' = Some []
    \<and> K ''inclusive_jet_pt_atlas_R0.2_unsubtracted'' = Some []
    \<and> K ''inclusive_jet_pt_cms_R0.2'' = Some []
    \<and> K ''inclusive_jet_pt_cms_R0.2_unsubtracted'' = Some []
    \<and> K ''inclusive_jet_Dz_atlas_R0.2_Njets'' = Some []
    \<and> K ''inclusive_jet_Dz_atlas_R0.2'' = Some []
    \<and> K ''inclusive_jet_Dpt_atlas_R0.2'' = Some []
    \<and> K ''inclusive_chjet_pt_alice_R0.2'' = Some []
    \<and> K ''inclusive_chjet_pt_alice_R0.2_unsubtracted'' = Some []
    \<and> K ''inclusive_chjet_g_alice_R0.2'' = Some []
    \<and> K ''inclusive_chjet_g_alice_R0.2_unsubtracted'' = Some []
    \<and> K ''inclusive_chjet_g_alice_R0.2)unsubtracted'' = None"
  by (simp add: init_defs ana_AA_def hadron_block_def jet_block_def central_def Let_def)

text \<open>
  From a container with these keys the fills of the sample event reach the angularity
  block of the charged jet at \<open>R = 0.2\<close>, which raises.
\<close>

lemma fill_event_KeyError:
  assumes "K ''hadron_pt_ch_alice'' = Some []" "K ''hadron_pt_pi_alice'' = Some []"
    "K ''hadron_pt_ch_atlas'' = Some []" "K ''hadron_pt_ch_cms'' = Some []"
    "K ''inclusive_jet_pt_alice_R0.2'' = Some []" "K ''inclusive_jet_pt_alice_R0.2_unsubtracted'' = Some []"
    "K ''inclusive_jet_pt_atlas_R0.2'' = Some []" "K ''inclusive_jet_pt_atlas_R0.2_unsubtracted'' = Some []"
    "K ''inclusive_jet_pt_cms_R0.2'' = Some []" "K ''inclusive_jet_pt_cms_R0.2_unsubtracted'' = Some []"
    "K ''inclusive_jet_Dz_atlas_R0.2_Njets'' = Some []" "K ''inclusive_jet_Dz_atlas_R0.2'' = Some []"
    "K ''inclusive_jet_Dpt_atlas_R0.2'' = Some []"
    "K ''inclusive_chjet_pt_alice_R0.2'' = Some []" "K ''inclusive_chjet_pt_alice_R0.2_unsubtracted'' = Some []"
    "K ''inclusive_chjet_g_alice_R0.2)unsubtracted'' = None"
  shows "fill_event tlib_jets ana_AA event_sample K = Inl KeyError"
  using assms
  by (simp add: fill_defs cfg_defs ana_AA_def hadron_block_def
      jet_block_def central_def tlib_jets_def tlib_def event_sample_def Let_def)

text \<open>
  C6. In AA mode, with a configuration that declares the observable \<open>g_alice\<close>, the
  event of one charged pion of momentum 50 at mid-rapidity does not populate the keys of
  the configuration: \<open>initialize_output_lists\<close> creates
  \<open>inclusive_chjet_g_alice_R0.2_unsubtracted\<close>, the angularity block appends to
  \<open>inclusive_chjet_g_alice_R0.2)unsubtracted\<close>, a key that no block of the configuration
  creates, and \<open>analyze_event\<close> ends with \<open>KeyError\<close>.
\<close>

theorem analyze_event_KeyError_in_AA_mode:
  "analyze_event tlib_jets ana_AA event_sample Map.empty = Inl KeyError
   \<and> (\<exists>K. initialize_output_lists ana_AA Map.empty = Inr K
          \<and> K ''inclusive_chjet_g_alice_R0.2_unsubtracted'' = Some []
          \<and> K ''inclusive_chjet_g_alice_R0.2)unsubtracted'' = None)"
proof -
  from init_event_keys obtain K where init: "initialize_output_lists ana_AA Map.empty = Inr K"
    and keys: "K ''hadron_pt_ch_alice'' = Some []" "K ''hadron_pt_pi_alice'' = Some []"
    "K ''hadron_pt_ch_atlas'' = Some []" "K ''hadron_pt_ch_cms'' = Some []"
    "K ''inclusive_jet_pt_alice_R0.2'' = Some []" "K ''inclusive_jet_pt_alice_R0.2_unsubtracted'' = Some []"
    "K ''inclusive_jet_pt_atlas_R0.2'' = Some []" "K ''inclusive_jet_pt_atlas_R0.2_unsubtracted'' = Some []"
    "K ''inclusive_jet_pt_cms_R0.2'' = Some []" "K ''inclusive_jet_pt_cms_R0.2_unsubtracted'' = Some []"
    "K ''inclusive_jet_Dz_atlas_R0.2_Njets'' = Some []" "K ''inclusive_jet_Dz_atlas_R0.2'' = Some []"
    "K ''inclusive_jet_Dpt_atlas_R0.2'' = Some []"
    "K ''inclusive_chjet_pt_alice_R0.2'' = Some []" "K ''inclusive_chjet_pt_alice_R0.2_unsubtracted'' = Some []"
    and good: "K ''inclusive_chjet_g_alice_R0.2_unsubtracted'' = Some []"
    and typo: "K ''inclusive_chjet_g_alice_R0.2)unsubtracted'' = None"
    by blast
  have "fill_event tlib_jets ana_AA event_sample K = Inl KeyError"
    by (rule fill_event_KeyError) (fact keys typo)+
  with init have "analyze_event tlib_jets ana_AA event_sample Map.empty = Inl KeyError"
    by (simp add: analyze_event_def)
  with init good typo show ?thesis by blast
qed

end
